theory Spec2Isabelle
  imports Complex_Main
begin

section \<open>Numbers\<close>

text \<open>
  The C++ sources compute in \<^verbatim>\<open>float\<close> and \<^verbatim>\<open>double\<close>.  The model keeps the one
  feature of IEEE arithmetic the control flow of the sources tests for, the NaN, and takes
  every other value as a real number: a value is \<open>NaN\<close> or \<open>Fin r\<close>.  Rounding,
  overflow and the infinities are not modelled, so a conversion between \<^verbatim>\<open>float\<close> and
  \<^verbatim>\<open>double\<close> is the identity.  An operation with a NaN operand gives NaN, a
  comparison with a NaN operand is false (so \<^verbatim>\<open>!=\<close>, written \<open>fne\<close>, is true).
  A division by zero gives NaN here (IEEE gives an infinity or NaN).
\<close>

datatype fp = NaN | Fin real

instantiation fp :: "{plus,minus,uminus,times,inverse,abs,ord}"
begin

fun plus_fp :: "fp \<Rightarrow> fp \<Rightarrow> fp" where
  "plus_fp (Fin a) (Fin b) = Fin (a + b)"
| "plus_fp _ _ = NaN"

fun minus_fp :: "fp \<Rightarrow> fp \<Rightarrow> fp" where
  "minus_fp (Fin a) (Fin b) = Fin (a - b)"
| "minus_fp _ _ = NaN"

fun uminus_fp :: "fp \<Rightarrow> fp" where
  "uminus_fp (Fin a) = Fin (- a)"
| "uminus_fp NaN = NaN"

fun times_fp :: "fp \<Rightarrow> fp \<Rightarrow> fp" where
  "times_fp (Fin a) (Fin b) = Fin (a * b)"
| "times_fp _ _ = NaN"

fun divide_fp :: "fp \<Rightarrow> fp \<Rightarrow> fp" where
  "divide_fp (Fin a) (Fin b) = (if b = 0 then NaN else Fin (a / b))"
| "divide_fp _ _ = NaN"

fun inverse_fp :: "fp \<Rightarrow> fp" where
  "inverse_fp (Fin a) = (if a = 0 then NaN else Fin (1 / a))"
| "inverse_fp NaN = NaN"

fun abs_fp :: "fp \<Rightarrow> fp" where
  "abs_fp (Fin a) = Fin \<bar>a\<bar>"
| "abs_fp NaN = NaN"

fun less_fp :: "fp \<Rightarrow> fp \<Rightarrow> bool" where
  "less_fp (Fin a) (Fin b) = (a < b)"
| "less_fp _ _ = False"

fun less_eq_fp :: "fp \<Rightarrow> fp \<Rightarrow> bool" where
  "less_eq_fp (Fin a) (Fin b) = (a \<le> b)"
| "less_eq_fp _ _ = False"

instance ..

end

fun isnan :: "fp \<Rightarrow> bool" where
  "isnan NaN = True"
| "isnan (Fin _) = False"

text \<open>\<^verbatim>\<open>a == b\<close> and \<^verbatim>\<open>a != b\<close> on floating-point operands.\<close>

fun feq :: "fp \<Rightarrow> fp \<Rightarrow> bool" where
  "feq (Fin a) (Fin b) = (a = b)"
| "feq _ _ = False"

definition fne :: "fp \<Rightarrow> fp \<Rightarrow> bool" where
  "fne a b = (if feq a b then False else True)"

text \<open>\<^verbatim>\<open>sqrt\<close>: NaN on a negative operand.\<close>

fun fsqrt :: "fp \<Rightarrow> fp" where
  "fsqrt (Fin a) = (if a < 0 then NaN else Fin (sqrt a))"
| "fsqrt NaN = NaN"

text \<open>
  \<^verbatim>\<open>static_cast<int>(v)\<close> truncates towards zero.  The conversion of a NaN is
  undefined in C++; the model takes the value the x86 conversion instruction returns.
\<close>

fun to_int :: "fp \<Rightarrow> int" where
  "to_int (Fin a) = (if 0 \<le> a then \<lfloor>a\<rfloor> else \<lceil>a\<rceil>)"
| "to_int NaN = - (2 ^ 31)"

text \<open>\<^verbatim>\<open>std::numeric_limits<float>::epsilon()\<close> and the same for \<^verbatim>\<open>double\<close>.\<close>

definition float_epsilon :: real where
  "float_epsilon = 1 / 2 ^ 23"

definition double_epsilon :: real where
  "double_epsilon = 1 / 2 ^ 52"

section \<open>The shape object and the library collaborators of SdssShape.cc\<close>

text \<open>
  The shape object of the solver, \<^verbatim>\<open>detail::SdssShapeImpl\<close>.  Its class is declared in
  a header that is not among the sources; the model has the values that SdssShape.cc reads
  and writes through its accessors, its covariance matrix, and the set of its flags.
\<close>

datatype Flag = UNWEIGHTED_BAD | UNWEIGHTED | SHIFT | MAXITER

record SdssShapeImpl =
  getI0 :: fp
  getX :: fp
  getY :: fp
  getIxx :: fp
  getIxy :: fp
  getIyy :: fp
  getIxy4 :: fp
  getCovar :: "fp list list"
  shapeFlags :: "Flag set"

text \<open>
  Functions of other libraries that the sources call are parameters of the model, collected
  in one record: the fast exponential of \<^verbatim>\<open>lsst::utils::PowFast\<close>, the two conversions
  between the quadrupole \<open>(Ixx, Iyy, Ixy)\<close> and the axes \<open>(a, b, theta)\<close> of an
  ellipse core, Eigen's inverse of a 4 by 4 matrix, and the error accessors that
  \<^verbatim>\<open>SdssShapeImpl\<close> derives from its covariance matrix.
\<close>

record lib =
  powFast_exp :: "real \<Rightarrow> real"
  Axes_of_Quadrupole :: "fp \<times> fp \<times> fp \<Rightarrow> fp \<times> fp \<times> fp"
  Quadrupole_of_Axes :: "fp \<times> fp \<times> fp \<Rightarrow> fp \<times> fp \<times> fp"
  Matrix4_inverse :: "fp list list \<Rightarrow> fp list list"
  getXErr :: "SdssShapeImpl \<Rightarrow> fp"
  getYErr :: "SdssShapeImpl \<Rightarrow> fp"
  getIxxErr :: "SdssShapeImpl \<Rightarrow> fp"
  getIyyErr :: "SdssShapeImpl \<Rightarrow> fp"
  getIxyErr :: "SdssShapeImpl \<Rightarrow> fp"

definition getFlag :: "SdssShapeImpl \<Rightarrow> Flag \<Rightarrow> bool" where
  "getFlag shape f = (f \<in> shapeFlags shape)"

definition setFlag :: "Flag \<Rightarrow> SdssShapeImpl \<Rightarrow> SdssShapeImpl" where
  "setFlag f shape = shape\<lparr>shapeFlags := insert f (shapeFlags shape)\<rparr>"

definition resetFlag :: "Flag \<Rightarrow> SdssShapeImpl \<Rightarrow> SdssShapeImpl" where
  "resetFlag f shape = shape\<lparr>shapeFlags := shapeFlags shape - {f}\<rparr>"

text \<open>\<^verbatim>\<open>approxExp\<close>: the fast exponential, on a \<^verbatim>\<open>float\<close>.\<close>

fun approxExp :: "lib \<Rightarrow> fp \<Rightarrow> fp" where
  "approxExp L (Fin a) = Fin (powFast_exp L a)"
| "approxExp L NaN = NaN"

section \<open>SdssShape.cc: the weights of a moments matrix\<close>

text \<open>
  \<^verbatim>\<open>getWeights\<close> returns \<open>((ok, det), w11, w12, w22)\<close>.  Both tests of the
  determinant are in the model as they stand in the source, the second one with the branch
  that adds 1/12 in quadrature to the principal axes.  The assertion before the last return
  restates the test just passed and is not a branch of the model.
\<close>

definition getWeights :: "lib \<Rightarrow> fp \<Rightarrow> fp \<Rightarrow> fp \<Rightarrow> bool \<Rightarrow> (bool \<times> fp) \<times> fp \<times> fp \<times> fp" where
  "getWeights L sigma11 sigma12 sigma22 careful =
    (if isnan sigma11 \<or> isnan sigma12 \<or> isnan sigma22 then ((False, NaN), NaN, NaN, NaN)
     else
       let det = sigma11 * sigma22 - sigma12 * sigma12 in
       if isnan det \<or> det < Fin float_epsilon then ((False, NaN), NaN, NaN, NaN)
       else if isnan det \<or> det < Fin float_epsilon then
         (let iMin = Fin (1 / 12) in
          if \<not> careful then ((False, det), NaN, NaN, NaN)
          else
            (case Axes_of_Quadrupole L (sigma11, sigma22, sigma12) of (a, b, theta) \<Rightarrow>
              (case Quadrupole_of_Axes L (fsqrt (a * a + iMin), fsqrt (b * b + iMin), theta) of
                (ixx, iyy, ixy) \<Rightarrow>
                  let det2 = ixx * iyy - ixy * ixy in
                  ((True, det2), iyy / det2, - ixy / det2, ixx / det2))))
       else ((True, det), sigma22 / det, - sigma12 / det, sigma11 / det))"

text \<open>\<^verbatim>\<open>shouldInterp\<close>: should the moments be interpolated within a pixel?\<close>

definition shouldInterp :: "fp \<Rightarrow> fp \<Rightarrow> fp \<Rightarrow> bool" where
  "shouldInterp sigma11 sigma22 det =
    (let xinterp = Fin 0.25 in
     sigma11 < xinterp \<or> sigma22 < xinterp \<or> det < xinterp * xinterp)"


section \<open>Boxes and images\<close>

text \<open>
  An integer box (\<^verbatim>\<open>Box2I\<close>, also named \<^verbatim>\<open>BoxI\<close>) by its corners; the empty box has
  the corners \<open>(0, 0)\<close> and \<open>(-1, -1)\<close>, as the default-constructed box of the
  library has.  The constructor from two corners swaps the ends of a dimension given in the
  wrong order (its \<^verbatim>\<open>invert\<close> argument defaults to true).
\<close>

record Box2I =
  getMinX :: int
  getMinY :: int
  getMaxX :: int
  getMaxY :: int

definition Box2I_empty :: Box2I where
  "Box2I_empty = \<lparr>getMinX = 0, getMinY = 0, getMaxX = - 1, getMaxY = - 1\<rparr>"

definition Box2I_corners :: "int \<times> int \<Rightarrow> int \<times> int \<Rightarrow> Box2I" where
  "Box2I_corners llc urc =
    \<lparr>getMinX = min (fst llc) (fst urc), getMinY = min (snd llc) (snd urc),
     getMaxX = max (fst llc) (fst urc), getMaxY = max (snd llc) (snd urc)\<rparr>"

text \<open>
  An image: its origin in the parent frame, its size, its pixels at local indices (column,
  row), and the variance plane when it is a \<^verbatim>\<open>MaskedImage\<close>.  A read outside the
  array is undefined in the source and is whatever the function gives in the model.
\<close>

record Image =
  getX0 :: int
  getY0 :: int
  getWidth :: int
  getHeight :: int
  pixel :: "int \<Rightarrow> int \<Rightarrow> fp"
  variancePlane :: "(int \<Rightarrow> int \<Rightarrow> fp) option"

text \<open>\<^verbatim>\<open>ImageAdaptor::getVariance\<close>: NaN for an image without a variance plane.\<close>

definition getVariance :: "Image \<Rightarrow> int \<Rightarrow> int \<Rightarrow> fp" where
  "getVariance mimage ix iy =
    (case variancePlane mimage of None \<Rightarrow> NaN | Some v \<Rightarrow> v ix iy)"

section \<open>SdssShape.cc: the bounding box and the weighted moments\<close>

definition set_amom_bbox :: "int \<Rightarrow> int \<Rightarrow> fp \<Rightarrow> fp \<Rightarrow> fp \<Rightarrow> fp \<Rightarrow> fp \<Rightarrow> fp \<Rightarrow> Box2I" where
  "set_amom_bbox width height xcen ycen sigma11_w sigma12_w sigma22_w maxRad =
    (let rad0 = Fin 4 * fsqrt (if sigma11_w > sigma22_w then sigma11_w else sigma22_w);
         rad = (if rad0 > maxRad then maxRad else rad0);
         ix0a = to_int (xcen - rad - Fin 0.5);
         ix0 = (if ix0a < 0 then 0 else ix0a);
         iy0a = to_int (ycen - rad - Fin 0.5);
         iy0 = (if iy0a < 0 then 0 else iy0a);
         ix1a = to_int (xcen + rad + Fin 0.5);
         ix1 = (if ix1a \<ge> width then width - 1 else ix1a);
         iy1a = to_int (ycen + rad + Fin 0.5);
         iy1 = (if iy1a \<ge> height then height - 1 else iy1a)
     in Box2I_corners (ix0, iy0) (ix1, iy1))"

text \<open>The sums that \<^verbatim>\<open>calcmom\<close> accumulates (\<open>sumw\<close> is the source's \<^verbatim>\<open>sum\<close>).\<close>

record moments =
  sumw :: fp
  sumx :: fp
  sumy :: fp
  sumxx :: fp
  sumxy :: fp
  sumyy :: fp
  sums4 :: fp

definition moments_zero :: moments where
  "moments_zero = \<lparr>sumw = Fin 0, sumx = Fin 0, sumy = Fin 0, sumxx = Fin 0, sumxy = Fin 0,
     sumyy = Fin 0, sums4 = Fin 0\<rparr>"

text \<open>
  One term of the sums: the pixel value less the background is \<open>tmod\<close>, the position
  relative to the centre has the squares and product \<open>x2\<close>, \<open>xy\<close>, \<open>y2\<close>, and
  \<open>px\<close>, \<open>py\<close> are the factors of the first moments.
\<close>

definition accumulate :: "lib \<Rightarrow> bool \<Rightarrow> fp \<Rightarrow> fp \<Rightarrow> fp \<Rightarrow> fp \<Rightarrow> fp \<Rightarrow> fp \<Rightarrow> fp \<Rightarrow> moments \<Rightarrow> moments" where
  "accumulate L fluxOnly tmod expon px py x2 xy y2 m =
    (let weight = approxExp L (Fin (- 0.5) * expon);
         ymod = tmod * weight;
         m1 = m\<lparr>sumw := sumw m + ymod\<rparr>
     in if fluxOnly then m1
        else m1\<lparr>sumx := sumx m + ymod * px, sumy := sumy m + ymod * py,
               sumxx := sumxx m + x2 * ymod, sumxy := sumxy m + xy * ymod,
               sumyy := sumyy m + y2 * ymod, sums4 := sums4 m + expon * expon * ymod\<rparr>)"

text \<open>The two loops over the sub-pixel positions \<open>X\<close> and \<open>Y\<close>, in steps of 0.25.\<close>

function interp_X :: "lib \<Rightarrow> bool \<Rightarrow> fp \<Rightarrow> fp \<Rightarrow> fp \<Rightarrow> fp \<Rightarrow> fp \<Rightarrow> fp \<Rightarrow> fp \<Rightarrow> fp \<Rightarrow> fp \<Rightarrow> moments \<Rightarrow> moments" where
  "interp_X L fluxOnly xcen ycen w11 w12 w22 tmod Y xh X m =
    (if X \<le> xh then
       (let interpY2 = Y * Y; interpX2 = X * X; interpXy = X * Y;
            expon = interpX2 * w11 + Fin 2 * interpXy * w12 + interpY2 * w22
        in interp_X L fluxOnly xcen ycen w11 w12 w22 tmod Y xh (X + Fin 0.25)
             (accumulate L fluxOnly tmod expon (X + xcen) (Y + ycen) interpX2 interpXy interpY2 m))
     else m)"
  by pat_completeness auto
termination
  apply (relation "measure (\<lambda>(L, fluxOnly, xcen, ycen, w11, w12, w22, tmod, Y, xh, X, m).
          case (X, xh) of (Fin a, Fin b) \<Rightarrow> nat (\<lfloor>(b - a) * 4\<rfloor> + 1) | _ \<Rightarrow> 0)")
   apply simp
  apply (case_tac X; case_tac xh; simp)
  apply linarith
  done

function interp_Y :: "lib \<Rightarrow> bool \<Rightarrow> fp \<Rightarrow> fp \<Rightarrow> fp \<Rightarrow> fp \<Rightarrow> fp \<Rightarrow> fp \<Rightarrow> fp \<Rightarrow> fp \<Rightarrow> fp \<Rightarrow> fp \<Rightarrow> moments \<Rightarrow> moments" where
  "interp_Y L fluxOnly xcen ycen w11 w12 w22 tmod xl xh yh Y m =
    (if Y \<le> yh then
       interp_Y L fluxOnly xcen ycen w11 w12 w22 tmod xl xh yh (Y + Fin 0.25)
         (interp_X L fluxOnly xcen ycen w11 w12 w22 tmod Y xh xl m)
     else m)"
  by pat_completeness auto
termination
  apply (relation "measure (\<lambda>(L, fluxOnly, xcen, ycen, w11, w12, w22, tmod, xl, xh, yh, Y, m).
          case (Y, yh) of (Fin a, Fin b) \<Rightarrow> nat (\<lfloor>(b - a) * 4\<rfloor> + 1) | _ \<Rightarrow> 0)")
   apply simp
  apply (case_tac Y; case_tac yh; simp)
  apply linarith
  done

text \<open>
  The body of the loop over the columns \<open>j\<close> of row \<open>i\<close>: the pixel at \<open>(j, i)\<close>
  adds to the sums when the exponent of its weight is within the cut (9 when interpolating,
  taken at the worst corner of the pixel, and 14 otherwise).
\<close>

definition calcmom_pixel :: "lib \<Rightarrow> bool \<Rightarrow> Image \<Rightarrow> fp \<Rightarrow> fp \<Rightarrow> fp \<Rightarrow> bool \<Rightarrow> fp \<Rightarrow> fp \<Rightarrow> fp \<Rightarrow> int \<Rightarrow> moments \<Rightarrow> int \<Rightarrow> moments" where
  "calcmom_pixel L fluxOnly img xcen ycen bkgd interpflag w11 w12 w22 i m j =
    (let y = Fin (of_int i) - ycen;
         y2 = y * y;
         yl = y - Fin 0.375;
         yh = y + Fin 0.375;
         x = Fin (of_int j) - xcen
     in if interpflag then
          (let xl = x - Fin 0.375;
               xh = x + Fin 0.375;
               expon0 = xl * xl * w11 + yl * yl * w22 + Fin 2 * xl * yl * w12;
               tmp1 = xh * xh * w11 + yh * yh * w22 + Fin 2 * xh * yh * w12;
               expon1 = (if expon0 > tmp1 then expon0 else tmp1);
               tmp2 = xl * xl * w11 + yh * yh * w22 + Fin 2 * xl * yh * w12;
               expon2 = (if expon1 > tmp2 then expon1 else tmp2);
               tmp3 = xh * xh * w11 + yl * yl * w22 + Fin 2 * xh * yl * w12;
               expon = (if expon2 > tmp3 then expon2 else tmp3)
           in if expon \<le> Fin 9 then
                interp_Y L fluxOnly xcen ycen w11 w12 w22 (pixel img j i - bkgd) xl xh yh yl m
              else m)
        else
          (let x2 = x * x;
               xy = x * y;
               expon = x2 * w11 + Fin 2 * xy * w12 + y2 * w22
           in if expon \<le> Fin 14 then
                accumulate L fluxOnly (pixel img j i - bkgd) expon (Fin (of_int j))
                  (Fin (of_int i)) x2 xy y2 m
              else m))"

definition calcmom_row :: "lib \<Rightarrow> bool \<Rightarrow> Image \<Rightarrow> fp \<Rightarrow> fp \<Rightarrow> fp \<Rightarrow> bool \<Rightarrow> fp \<Rightarrow> fp \<Rightarrow> fp \<Rightarrow> int \<Rightarrow> int \<Rightarrow> moments \<Rightarrow> int \<Rightarrow> moments" where
  "calcmom_row L fluxOnly img xcen ycen bkgd interpflag w11 w12 w22 ix0 ix1 m i =
    foldl (calcmom_pixel L fluxOnly img xcen ycen bkgd interpflag w11 w12 w22 i) m [ix0..ix1]"

text \<open>
  \<^verbatim>\<open>calcmom\<close> writes its results through pointers and returns 0 or -1.  The model takes
  the present contents of the variables the pointers name (\<open>I0\<close> and the sums) and
  returns the return code with their new contents; \<open>psum\<close> and \<open>psums4\<close> say that
  the pointer of that name is not null.  The result is \<open>None\<close> when the assertion on
  \<open>w11\<close> fails.  Both early returns leave the variables as they were.
\<close>

definition calcmom :: "lib \<Rightarrow> bool \<Rightarrow> Image \<Rightarrow> fp \<Rightarrow> fp \<Rightarrow> Box2I \<Rightarrow> fp \<Rightarrow> bool \<Rightarrow> fp \<Rightarrow> fp \<Rightarrow> fp \<Rightarrow> fp \<Rightarrow> moments \<Rightarrow> bool \<Rightarrow> bool \<Rightarrow> (int \<times> fp \<times> moments) option" where
  "calcmom L fluxOnly img xcen ycen bbox bkgd interpflag w11 w12 w22 I0 out psum psums4 =
    (if w11 \<ge> Fin 0 then
       (if \<bar>w11\<bar> > Fin 1000000 \<or> \<bar>w12\<bar> > Fin 1000000 \<or> \<bar>w22\<bar> > Fin 1000000 then Some (- 1, I0, out)
        else
          let ix0 = getMinX bbox; ix1 = getMaxX bbox; iy0 = getMinY bbox; iy1 = getMaxY bbox in
          if ix0 < 0 \<or> ix1 \<ge> getWidth img \<or> iy0 < 0 \<or> iy1 \<ge> getHeight img
          then Some (- 1, I0, out)
          else
            let m = foldl (calcmom_row L fluxOnly img xcen ycen bkgd interpflag w11 w12 w22
                             ix0 ix1) moments_zero [iy0..iy1];
                weights = getWeights L w11 w12 w22 True;
                detW = fst (snd weights) * snd (snd (snd weights))
                         - fst (snd (snd weights)) * fst (snd (snd weights));
                I0' = sumw m / (Fin pi * fsqrt detW);
                out1 = (if psum then out\<lparr>sumw := sumw m\<rparr> else out);
                out2 = (if fluxOnly then out1
                        else out1\<lparr>sumx := sumx m, sumy := sumy m, sumxx := sumxx m,
                               sumxy := sumxy m, sumyy := sumyy m,
                               sums4 := (if psums4 then sums4 m else sums4 out)\<rparr>)
            in Some (if fluxOnly \<or> (sumw m > Fin 0 \<and> sumxx m > Fin 0 \<and> sumyy m > Fin 0)
                     then 0 else - 1, I0', out2))
     else None)"


section \<open>SdssShape.cc: the Fisher matrix\<close>

datatype exn = DomainError | LengthError | LogicError | RuntimeError string
  | FatalAlgorithmError | MeasurementError nat

text \<open>
  \<^verbatim>\<open>calc_fisher\<close> throws a domain error on a determinant that is too small and on a
  background variance that is not positive; otherwise it returns the rows of the symmetric
  4 by 4 matrix.
\<close>

definition calc_fisher :: "SdssShapeImpl \<Rightarrow> fp \<Rightarrow> exn + fp list list" where
  "calc_fisher shape bkgd_var =
    (let A = getI0 shape;
         sigma11W = getIxx shape;
         sigma12W = getIxy shape;
         sigma22W = getIyy shape;
         D = sigma11W * sigma22W - sigma12W * sigma12W
     in if D \<le> Fin double_epsilon then Inl DomainError
        else if bkgd_var \<le> Fin 0 then Inl DomainError
        else
          let F = Fin pi * fsqrt D / bkgd_var;
              fac1 = F * A / (Fin 4 * D);
              f00 = F;
              f01 = fac1 * sigma22W;
              f02 = fac1 * sigma11W;
              f03 = - fac1 * Fin 2 * sigma12W;
              fac = Fin 3 * F * A * A / (Fin 16 * D * D);
              f11 = fac * sigma22W * sigma22W;
              f22 = fac * sigma11W * sigma11W;
              f33 = fac * Fin 4 * (sigma12W * sigma12W + D / Fin 3);
              f12 = f33 / Fin 4;
              f13 = fac * (- (Fin 2) * sigma22W * sigma12W);
              f23 = fac * (- (Fin 2) * sigma11W * sigma12W)
          in Inr [[f00, f01, f02, f03], [f01, f11, f12, f13], [f02, f12, f22, f23],
                  [f03, f13, f23, f33]])"

section \<open>SdssShape.cc: the adaptive moments\<close>

text \<open>
  The local variables of \<^verbatim>\<open>getAdaptiveMoments\<close> that live across the iterations, with
  the shape object the function writes through its pointer.
\<close>

record locals =
  v_I0 :: fp
  v_sums :: moments
  v_sigma11W :: fp
  v_sigma12W :: fp
  v_sigma22W :: fp
  v_w11 :: fp
  v_w12 :: fp
  v_w22 :: fp
  v_e1_old :: fp
  v_e2_old :: fp
  v_sigma11_ow_old :: fp
  v_interpflag :: bool
  v_bbox :: Box2I
  v_iter :: int
  v_shape :: SdssShapeImpl

text \<open>How one pass through the body of the loop ends; \<open>Abort\<close> is a failed assertion.\<close>

datatype 'a flow = Continue 'a | Break 'a | Abort

definition unweighted :: "locals \<Rightarrow> locals" where
  "unweighted s = s\<lparr>v_shape := setFlag UNWEIGHTED (v_shape s)\<rparr>"

text \<open>
  The new weights are taken; on the first pass that asks for interpolation the flag is set
  and, after the first iteration, the old weights are put back and the iteration is not
  counted.
\<close>

definition update_weights :: "(bool \<times> fp) \<times> fp \<times> fp \<times> fp \<Rightarrow> locals \<Rightarrow> locals" where
  "update_weights weights s =
    (let detW = snd (fst weights);
         ow11 = v_w11 s;
         ow12 = v_w12 s;
         ow22 = v_w22 s;
         s1 = s\<lparr>v_w11 := fst (snd weights), v_w12 := fst (snd (snd weights)),
                v_w22 := snd (snd (snd weights))\<rparr>
     in if shouldInterp (v_sigma11W s1) (v_sigma22W s1) detW then
          (if \<not> v_interpflag s1 then
             (let s2 = s1\<lparr>v_interpflag := True\<rparr>
              in if v_iter s2 > 0 then
                   s2\<lparr>v_sigma11_ow_old := Fin 1000000, v_w11 := ow11, v_w12 := ow12,
                      v_w22 := ow22, v_iter := v_iter s2 - 1\<rparr>
                 else s2)
           else s1)
        else s1)"

text \<open>
  After a successful \<^verbatim>\<open>calcmom\<close>: the centroid, the shift test, the moments of the
  weighted object, the test of convergence and the next weighting function.
\<close>

definition update_shape :: "lib \<Rightarrow> fp \<Rightarrow> fp \<Rightarrow> fp \<Rightarrow> fp \<Rightarrow> fp \<Rightarrow> locals \<Rightarrow> locals flow" where
  "update_shape L xcen0 ycen0 shiftmax tol1 tol2 s =
    (let m = v_sums s;
         shape1 = (v_shape s)\<lparr>getX := sumx m / sumw m, getY := sumy m / sumw m\<rparr>;
         shape2 = (if \<bar>getX shape1 - xcen0\<bar> > shiftmax \<or> \<bar>getY shape1 - ycen0\<bar> > shiftmax
                   then setFlag SHIFT shape1 else shape1);
         s1 = s\<lparr>v_shape := shape2\<rparr>;
         sigma11_ow = sumxx m / sumw m;
         sigma22_ow = sumyy m / sumw m;
         sigma12_ow = sumxy m / sumw m
     in if sigma11_ow \<le> Fin 0 \<or> sigma22_ow \<le> Fin 0 then Break (unweighted s1)
        else
          let d = sigma11_ow + sigma22_ow;
              e1 = (sigma11_ow - sigma22_ow) / d;
              e2 = Fin 2 * sigma12_ow / d
          in if v_iter s1 > 0 \<and> \<bar>e1 - v_e1_old s1\<bar> < tol1 \<and> \<bar>e2 - v_e2_old s1\<bar> < tol1
                  \<and> \<bar>sigma11_ow / v_sigma11_ow_old s1 - Fin 1\<bar> < tol2
             then Break s1
             else
               let s2 = s1\<lparr>v_e1_old := e1, v_e2_old := e2, v_sigma11_ow_old := sigma11_ow\<rparr>;
                   weights = getWeights L sigma11_ow sigma12_ow sigma22_ow True
               in if \<not> fst (fst weights) then Break (unweighted s2)
                  else
                    let ow11 = fst (snd weights);
                        ow12 = fst (snd (snd weights));
                        ow22 = snd (snd (snd weights));
                        n11 = ow11 - v_w11 s2;
                        n12 = ow12 - v_w12 s2;
                        n22 = ow22 - v_w22 s2;
                        weights2 = getWeights L n11 n12 n22 False
                    in if \<not> fst (fst weights2) then Break (unweighted s2)
                       else
                         let s3 = s2\<lparr>v_sigma11W := fst (snd weights2),
                                    v_sigma12W := fst (snd (snd weights2)),
                                    v_sigma22W := snd (snd (snd weights2))\<rparr>
                         in if v_sigma11W s3 \<le> Fin 0 \<or> v_sigma22W s3 \<le> Fin 0
                            then Break (unweighted s3)
                            else Continue s3)"

text \<open>
  The body of the loop.  The assertion on the determinant after \<^verbatim>\<open>getWeights\<close> restates
  the test that function has just passed and is not a branch of the model.
\<close>

definition amom_body :: "lib \<Rightarrow> Image \<Rightarrow> fp \<Rightarrow> fp \<Rightarrow> fp \<Rightarrow> fp \<Rightarrow> fp \<Rightarrow> fp \<Rightarrow> locals \<Rightarrow> locals flow" where
  "amom_body L img bkgd xcen ycen shiftmax tol1 tol2 s =
    (let s1 = s\<lparr>v_bbox := set_amom_bbox (getWidth img) (getHeight img) xcen ycen
                   (v_sigma11W s) (v_sigma12W s) (v_sigma22W s) (Fin 1000)\<rparr>;
         weights = getWeights L (v_sigma11W s1) (v_sigma12W s1) (v_sigma22W s1) True
     in if \<not> fst (fst weights) then Break (unweighted s1)
        else
          let s2 = update_weights weights s1
          in case calcmom L False img xcen ycen (v_bbox s2) bkgd (v_interpflag s2)
                    (v_w11 s2) (v_w12 s2) (v_w22 s2) (v_I0 s2) (v_sums s2) True True of
               None \<Rightarrow> Abort
             | Some (rc, I0', sums') \<Rightarrow>
                 let s3 = s2\<lparr>v_I0 := I0', v_sums := sums'\<rparr>
                 in if rc < 0 then Break (unweighted s3)
                    else update_shape L xcen ycen shiftmax tol1 tol2 s3)"

text \<open>
  The loop \<^verbatim>\<open>for (; iter < maxIter; iter++)\<close>.  It ends: an iteration is counted on
  every pass but the one that switches the interpolation on, and that happens once.  The
  result is \<open>None\<close> when an assertion fails.
\<close>

function amom_loop :: "lib \<Rightarrow> Image \<Rightarrow> fp \<Rightarrow> fp \<Rightarrow> fp \<Rightarrow> fp \<Rightarrow> int \<Rightarrow> fp \<Rightarrow> fp \<Rightarrow> locals \<Rightarrow> locals option" where
  "amom_loop L img bkgd xcen ycen shiftmax maxIter tol1 tol2 s =
    (if v_iter s < maxIter then
       (case amom_body L img bkgd xcen ycen shiftmax tol1 tol2 s of
          Continue s' \<Rightarrow>
            amom_loop L img bkgd xcen ycen shiftmax maxIter tol1 tol2 (s'\<lparr>v_iter := v_iter s' + 1\<rparr>)
        | Break s' \<Rightarrow> Some s'
        | Abort \<Rightarrow> None)
     else Some s)"
  by pat_completeness auto
termination
proof (relation "measure (\<lambda>(L, img, bkgd, xcen, ycen, shiftmax, maxIter, tol1, tol2, s).
          nat (2 * (maxIter - v_iter s) + (if v_interpflag s then 0 else 1)))")
  show "wf (measure (\<lambda>(L, img, bkgd, xcen, ycen, shiftmax, maxIter, tol1, tol2, s).
          nat (2 * (maxIter - v_iter s) + (if v_interpflag s then 0 else 1))))"
    by simp
next
  fix L :: lib and img :: Image and bkgd xcen ycen shiftmax :: fp and maxIter :: int
    and tol1 tol2 :: fp and s s' :: locals
  assume lt: "v_iter s < maxIter"
    and body: "amom_body L img bkgd xcen ycen shiftmax tol1 tol2 s = Continue s'"
  have shape: "v_iter t' = v_iter t \<and> v_interpflag t' = v_interpflag t"
    if "update_shape L xcen ycen shiftmax tol1 tol2 t = Continue t'" for t t'
    using that by (auto simp: update_shape_def Let_def unweighted_def split: if_splits)
  have weights: "(v_interpflag t \<longrightarrow> v_interpflag (update_weights w t))
      \<and> (v_interpflag (update_weights w t) = v_interpflag t \<longrightarrow> v_iter (update_weights w t) = v_iter t)
      \<and> v_iter t - 1 \<le> v_iter (update_weights w t)" for w t
    by (simp add: update_weights_def Let_def)
  from body obtain w t where t: "update_shape L xcen ycen shiftmax tol1 tol2 t = Continue s'"
    and vt: "v_iter t = v_iter (update_weights w (s\<lparr>v_bbox := set_amom_bbox (getWidth img) (getHeight img) xcen ycen
                   (v_sigma11W s) (v_sigma12W s) (v_sigma22W s) (Fin 1000)\<rparr>))"
      "v_interpflag t = v_interpflag (update_weights w (s\<lparr>v_bbox := set_amom_bbox (getWidth img) (getHeight img) xcen ycen
                   (v_sigma11W s) (v_sigma12W s) (v_sigma22W s) (Fin 1000)\<rparr>))"
    by (auto simp: amom_body_def Let_def unweighted_def split: if_splits option.splits prod.splits)
  from shape[OF t] vt weights[of "s\<lparr>v_bbox := set_amom_bbox (getWidth img) (getHeight img) xcen ycen
                   (v_sigma11W s) (v_sigma12W s) (v_sigma22W s) (Fin 1000)\<rparr>" w] lt
  show "((L, img, bkgd, xcen, ycen, shiftmax, maxIter, tol1, tol2, s'\<lparr>v_iter := v_iter s' + 1\<rparr>),
         (L, img, bkgd, xcen, ycen, shiftmax, maxIter, tol1, tol2, s))
       \<in> measure (\<lambda>(L, img, bkgd, xcen, ycen, shiftmax, maxIter, tol1, tol2, s).
          nat (2 * (maxIter - v_iter s) + (if v_interpflag s then 0 else 1)))"
    by (auto split: if_splits)
qed


declare interp_X.simps [simp del] interp_Y.simps [simp del] amom_loop.simps [simp del]

text \<open>\<^verbatim>\<open>positionToIndex\<close> of the image library: the pixel that holds a position.\<close>

fun positionToIndex :: "fp \<Rightarrow> int" where
  "positionToIndex (Fin a) = \<lfloor>a + 0.5\<rfloor>"
| "positionToIndex NaN = - (2 ^ 31)"

text \<open>How a call of \<^verbatim>\<open>getAdaptiveMoments\<close> ends.\<close>

datatype outcome = Returned bool | Threw exn | Aborted

text \<open>
  The end of \<^verbatim>\<open>getAdaptiveMoments\<close>: the results are stored in the shape, and the
  covariance is set from the Fisher matrix when the pixel at the centre has a positive
  variance and the moments are the weighted ones.
\<close>

definition amom_store :: "lib \<Rightarrow> Image \<Rightarrow> fp \<Rightarrow> fp \<Rightarrow> fp \<Rightarrow> moments \<Rightarrow> fp \<Rightarrow> fp \<Rightarrow> fp \<Rightarrow> SdssShapeImpl \<Rightarrow> outcome \<times> SdssShapeImpl" where
  "amom_store L mimage xcen ycen I0 m sigma11W sigma12W sigma22W shape =
    (let shape1 = shape\<lparr>getI0 := I0, getIxx := sigma11W, getIxy := sigma12W,
                    getIyy := sigma22W, getIxy4 := sums4 m / sumw m\<rparr>
     in if fne (getIxx shape1 + getIyy shape1) (Fin 0) then
          (let ix = positionToIndex xcen;
               iy = positionToIndex ycen
           in if ix \<ge> 0 \<and> ix < getWidth mimage \<and> iy \<ge> 0 \<and> iy < getHeight mimage then
                (let bkgd_var = getVariance mimage ix iy
                 in if bkgd_var > Fin 0 then
                      (if \<not> getFlag shape1 UNWEIGHTED then
                         (case calc_fisher shape1 bkgd_var of
                            Inl e \<Rightarrow> (Threw e, shape1)
                          | Inr fisher \<Rightarrow>
                              (Returned True, shape1\<lparr>getCovar := Matrix4_inverse L fisher\<rparr>))
                       else (Returned True, shape1))
                    else (Returned True, shape1))
              else (Returned True, shape1))
        else (Returned True, shape1))"

text \<open>
  After the loop: the flags for too many iterations and for vanishing second moments.
\<close>

definition amom_flags :: "int \<Rightarrow> locals \<Rightarrow> SdssShapeImpl" where
  "amom_flags maxIter s =
    (let shape1 = (if v_iter s = maxIter
                   then setFlag MAXITER (setFlag UNWEIGHTED (v_shape s)) else v_shape s)
     in if feq (sumxx (v_sums s) + sumyy (v_sums s)) (Fin 0)
        then setFlag UNWEIGHTED shape1 else shape1)"

text \<open>
  The unweighted moments that are tried when \<open>UNWEIGHTED\<close> is set: all three weights
  zero, and no pointer for \<open>sums4\<close>.
\<close>

definition calcmom_unweighted :: "lib \<Rightarrow> Image \<Rightarrow> fp \<Rightarrow> fp \<Rightarrow> fp \<Rightarrow> locals \<Rightarrow> (int \<times> fp \<times> moments) option" where
  "calcmom_unweighted L mimage bkgd xcen ycen s =
    calcmom L False mimage xcen ycen (v_bbox s) bkgd (v_interpflag s) (Fin 0) (Fin 0) (Fin 0)
      (v_I0 s) (v_sums s) True False"

definition amom_finish :: "lib \<Rightarrow> Image \<Rightarrow> fp \<Rightarrow> fp \<Rightarrow> fp \<Rightarrow> int \<Rightarrow> locals \<Rightarrow> outcome \<times> SdssShapeImpl" where
  "amom_finish L mimage bkgd xcen ycen maxIter s =
    (let shape2 = amom_flags maxIter s
     in if getFlag shape2 UNWEIGHTED then
          (case calcmom_unweighted L mimage bkgd xcen ycen s of
             None \<Rightarrow> (Aborted, shape2)
           | Some (rc, I0', m) \<Rightarrow>
               if rc < 0 \<or> sumw m \<le> Fin 0 then
                 (let shape3 = setFlag UNWEIGHTED_BAD (resetFlag UNWEIGHTED shape2);
                      shape4 = (if sumw m > Fin 0
                                then shape3\<lparr>getIxx := Fin (1 / 12), getIxy := Fin 0,
                                       getIyy := Fin (1 / 12)\<rparr>
                                else shape3)
                  in (Returned False, shape4))
               else amom_store L mimage xcen ycen I0' m (sumxx m / sumw m) (sumxy m / sumw m)
                      (sumyy m / sumw m) shape2)
        else amom_store L mimage xcen ycen (v_I0 s) (v_sums s) (v_sigma11W s) (v_sigma12W s)
               (v_sigma22W s) shape2)"

text \<open>
  The values of the local variables when the loop is entered.  The source declares the
  sums without a value; \<open>garbage\<close> is what they hold then.
\<close>

definition amom_init :: "moments \<Rightarrow> SdssShapeImpl \<Rightarrow> locals" where
  "amom_init garbage shape =
    \<lparr>v_I0 = Fin 0, v_sums = garbage, v_sigma11W = Fin 1.5, v_sigma12W = Fin 0,
     v_sigma22W = Fin 1.5, v_w11 = Fin (- 1), v_w12 = Fin (- 1), v_w22 = Fin (- 1),
     v_e1_old = Fin 1000000, v_e2_old = Fin 1000000, v_sigma11_ow_old = Fin 1000000,
     v_interpflag = False, v_bbox = Box2I_empty, v_iter = 0, v_shape = shape\<rparr>"

text \<open>
  \<^verbatim>\<open>getAdaptiveMoments\<close>: how the call ends, and the shape object as the call leaves it.
\<close>

definition getAdaptiveMoments :: "lib \<Rightarrow> moments \<Rightarrow> Image \<Rightarrow> fp \<Rightarrow> fp \<Rightarrow> fp \<Rightarrow> fp \<Rightarrow> SdssShapeImpl \<Rightarrow> int \<Rightarrow> fp \<Rightarrow> fp \<Rightarrow> outcome \<times> SdssShapeImpl" where
  "getAdaptiveMoments L garbage mimage bkgd xcen ycen shiftmax shape maxIter tol1 tol2 =
    (if isnan xcen \<or> isnan ycen then (Returned False, setFlag UNWEIGHTED_BAD shape)
     else
       (case amom_loop L mimage bkgd xcen ycen shiftmax maxIter tol1 tol2
               (amom_init garbage shape) of
          None \<Rightarrow> (Aborted, shape)
        | Some s \<Rightarrow> amom_finish L mimage bkgd xcen ycen maxIter s))"

section \<open>SdssShape.cc: the measurement\<close>

record Control =
  ctrl_background :: fp
  ctrl_maxIter :: int
  ctrl_tol1 :: fp
  ctrl_tol2 :: fp
  ctrl_maxShift :: fp

text \<open>
  The result of the measurement, with the fields that \<^verbatim>\<open>apply\<close> and the constructor in
  SdssShape.cc write.  The flags are indexed by the numbers of the flag table
  \<^verbatim>\<open>flagDefs\<close>: 0 the general failure, 1 to 4 the flags of the solver.
\<close>

record SdssShapeResult =
  r_x :: fp
  r_y :: fp
  r_xSigma :: fp
  r_ySigma :: fp
  r_xx :: fp
  r_yy :: fp
  r_xy :: fp
  r_xxSigma :: fp
  r_yySigma :: fp
  r_xySigma :: fp
  r_xy4 :: fp
  r_xy4Sigma :: fp
  r_flux_xx_Cov :: fp
  r_flux_yy_Cov :: fp
  r_flux_xy_Cov :: fp
  r_flags :: "bool list"

definition FAILURE :: nat where
  "FAILURE = 0"

text \<open>
  Modelled from the spec: the header SdssShapeImpl.h with the enumeration
  \<^verbatim>\<open>SdssShapeImpl::Flag\<close> is not among the sources.  The spec lists the flags of a result
  as FAILURE, UNWEIGHTED_BAD, UNWEIGHTED, SHIFT, MAXITER, and \<^verbatim>\<open>apply\<close> copies flag
  \<open>n\<close> of the solver to flag \<open>n + 1\<close> of the result, so the solver's flags are
  numbered in that order from 0.
\<close>

definition Flag_of :: "nat \<Rightarrow> Flag" where
  "Flag_of n = [UNWEIGHTED_BAD, UNWEIGHTED, SHIFT, MAXITER] ! n"

definition N_FLAGS_Impl :: nat where
  "N_FLAGS_Impl = 4"

text \<open>
  The default-constructed result: the constructor in SdssShape.cc sets the last five
  fields to NaN; the fields of the base classes are overwritten by \<^verbatim>\<open>apply\<close> before
  they are read, and the five flags start clear.
\<close>

definition SdssShapeResult_default :: SdssShapeResult where
  "SdssShapeResult_default =
    \<lparr>r_x = NaN, r_y = NaN, r_xSigma = NaN, r_ySigma = NaN, r_xx = NaN, r_yy = NaN,
     r_xy = NaN, r_xxSigma = NaN, r_yySigma = NaN, r_xySigma = NaN, r_xy4 = NaN,
     r_xy4Sigma = NaN, r_flux_xx_Cov = NaN, r_flux_yy_Cov = NaN, r_flux_xy_Cov = NaN,
     r_flags = [False, False, False, False, False]\<rparr>"

text \<open>The loop of \<^verbatim>\<open>apply\<close> that copies the flags of the solver to the result.\<close>

definition copy_flag :: "SdssShapeImpl \<Rightarrow> SdssShapeResult \<Rightarrow> nat \<Rightarrow> SdssShapeResult" where
  "copy_flag shapeImpl result n =
    (if getFlag shapeImpl (Flag_of n)
     then result\<lparr>r_flags := (r_flags result)[n + 1 := True, FAILURE := True]\<rparr>
     else result)"

text \<open>
  \<^verbatim>\<open>SdssShapeAlgorithm::apply\<close> has two overloads.  The one for a plain image is not
  implemented: it throws a logic error.
\<close>

definition apply_Image :: "Image \<Rightarrow> fp \<times> fp \<Rightarrow> Control \<Rightarrow> exn + SdssShapeResult" where
  "apply_Image exposure center control = Inl LogicError"

text \<open>
  The overload for a masked image, in two parts.  The first is the call of the solver: the
  centre in the frame of the image, the largest shift allowed (within 2 and 10), and
  \<open>shapeImpl0\<close>, the default-constructed \<^verbatim>\<open>SdssShapeImpl\<close> (its constructor is in the
  missing header).
\<close>

definition apply_solver :: "lib \<Rightarrow> moments \<Rightarrow> SdssShapeImpl \<Rightarrow> Image \<Rightarrow> fp \<times> fp \<Rightarrow> Control \<Rightarrow> outcome \<times> SdssShapeImpl" where
  "apply_solver L garbage shapeImpl0 mimage center control =
    (let xcen = fst center - Fin (of_int (getX0 mimage));
         ycen = snd center - Fin (of_int (getY0 mimage));
         shiftmax0 = ctrl_maxShift control;
         shiftmax = (if shiftmax0 < Fin 2 then Fin 2
                     else if shiftmax0 > Fin 10 then Fin 10 else shiftmax0)
     in getAdaptiveMoments L garbage mimage (ctrl_background control) xcen ycen shiftmax
          shapeImpl0 (ctrl_maxIter control) (ctrl_tol1 control) (ctrl_tol2 control))"

text \<open>
  The second part: an exception of the solver is caught and sets the failure flag, the
  values of the shape are copied, then its flags.  The result is \<open>None\<close> when an
  assertion of the solver fails.
\<close>

definition apply_MaskedImage :: "lib \<Rightarrow> moments \<Rightarrow> SdssShapeImpl \<Rightarrow> Image \<Rightarrow> fp \<times> fp \<Rightarrow> Control \<Rightarrow> SdssShapeResult option" where
  "apply_MaskedImage L garbage shapeImpl0 mimage center control =
    (case apply_solver L garbage shapeImpl0 mimage center control of
       (Aborted, shapeImpl) \<Rightarrow> None
     | (out, shapeImpl) \<Rightarrow>
         let result0 = SdssShapeResult_default;
             result1 = (case out of
                          Threw e \<Rightarrow> result0\<lparr>r_flags := (r_flags result0)[FAILURE := True]\<rparr>
                        | _ \<Rightarrow> result0);
             result2 = result1\<lparr>r_x := getX shapeImpl + Fin (of_int (getX0 mimage)),
                         r_y := getY shapeImpl + Fin (of_int (getY0 mimage)),
                         r_xSigma := getXErr L shapeImpl, r_ySigma := getYErr L shapeImpl,
                         r_xx := getIxx shapeImpl, r_yy := getIyy shapeImpl,
                         r_xy := getIxy shapeImpl, r_xxSigma := getIxxErr L shapeImpl,
                         r_yySigma := getIyyErr L shapeImpl,
                         r_xySigma := getIxyErr L shapeImpl\<rparr>
         in Some (foldl (copy_flag shapeImpl) result2 [0..<N_FLAGS_Impl]))"

text \<open>
  A call of \<^verbatim>\<open>apply\<close>.  The compiler picks the overload by the type of the image; in the
  model an image is a masked image when it has a variance plane.  The call ends with a
  result, \<open>Inr\<close>, or with an exception that leaves \<^verbatim>\<open>apply\<close>, \<open>Inl\<close>; it is
  \<open>None\<close> when an assertion of the solver fails.
\<close>

definition apply_measurement :: "lib \<Rightarrow> moments \<Rightarrow> SdssShapeImpl \<Rightarrow> Image \<Rightarrow> fp \<times> fp \<Rightarrow> Control \<Rightarrow> (exn + SdssShapeResult) option" where
  "apply_measurement L garbage shapeImpl0 img center control =
    (case variancePlane img of
       None \<Rightarrow> Some (apply_Image img center control)
     | Some v \<Rightarrow> map_option Inr (apply_MaskedImage L garbage shapeImpl0 img center control))"

text \<open>
  The number in the flag table \<^verbatim>\<open>flagDefs\<close> of the result flag that stands for a flag of
  the solver: \<^verbatim>\<open>flag_unweightedBad\<close>, \<^verbatim>\<open>flag_unweighted\<close>, \<^verbatim>\<open>flag_shift\<close> and
  \<^verbatim>\<open>flag_maxIter\<close> are entries 1 to 4.
\<close>

fun result_flag :: "Flag \<Rightarrow> nat" where
  "result_flag UNWEIGHTED_BAD = 1"
| "result_flag UNWEIGHTED = 2"
| "result_flag SHIFT = 3"
| "result_flag MAXITER = 4"

section \<open>ApertureFlux.cc\<close>

text \<open>The operations of \<^verbatim>\<open>Box2I\<close> that the aperture fluxes use.\<close>

definition isEmpty :: "Box2I \<Rightarrow> bool" where
  "isEmpty b = (getMaxX b < getMinX b \<or> getMaxY b < getMinY b)"

text \<open>\<^verbatim>\<open>b.contains(other)\<close>: every point of \<open>other\<close> is a point of \<open>b\<close>.\<close>

definition contains :: "Box2I \<Rightarrow> Box2I \<Rightarrow> bool" where
  "contains b other =
    (isEmpty other \<or>
     (getMinX b \<le> getMinX other \<and> getMinY b \<le> getMinY other
      \<and> getMaxX other \<le> getMaxX b \<and> getMaxY other \<le> getMaxY b))"

text \<open>\<^verbatim>\<open>b.clip(other)\<close>: \<open>b\<close> shrunk to its intersection with \<open>other\<close>.\<close>

definition clip :: "Box2I \<Rightarrow> Box2I \<Rightarrow> Box2I" where
  "clip b other =
    (if isEmpty b then b
     else if isEmpty other then Box2I_empty
     else
       let b1 = \<lparr>getMinX = max (getMinX b) (getMinX other),
                  getMinY = max (getMinY b) (getMinY other),
                  getMaxX = min (getMaxX b) (getMaxX other),
                  getMaxY = min (getMaxY b) (getMaxY other)\<rparr>
       in if isEmpty b1 then Box2I_empty else b1)"

text \<open>The bounding box of an image in the parent frame; empty for an image of no pixels.\<close>

definition getBBox :: "Image \<Rightarrow> Box2I" where
  "getBBox img =
    (if getWidth img \<le> 0 \<or> getHeight img \<le> 0 then Box2I_empty
     else \<lparr>getMinX = getX0 img, getMinY = getY0 img,
           getMaxX = getX0 img + getWidth img - 1, getMaxY = getY0 img + getHeight img - 1\<rparr>)"

text \<open>
  The view of an image on a box of the parent frame (the constructor
  \<^verbatim>\<open>Image(image, bbox)\<close>, for a masked image with its variance plane): a length error
  when the box is not within the image.
\<close>

definition subImage :: "Image \<Rightarrow> Box2I \<Rightarrow> exn + Image" where
  "subImage img bbox =
    (if \<not> contains (getBBox img) bbox then Inl LengthError
     else
       let dx = getMinX bbox - getX0 img;
           dy = getMinY bbox - getY0 img
       in Inr \<lparr>getX0 = getMinX bbox, getY0 = getMinY bbox,
               getWidth = getMaxX bbox - getMinX bbox + 1,
               getHeight = getMaxY bbox - getMinY bbox + 1,
               pixel = (\<lambda>j i. pixel img (j + dx) (i + dy)),
               variancePlane = map_option (\<lambda>v j i. v (j + dx) (i + dy)) (variancePlane img)\<rparr>)"

text \<open>A horizontal run of pixels of a pixel region, in the parent frame.\<close>

record Span =
  spanY :: int
  spanBeginX :: int
  spanWidth :: int

text \<open>
  An ellipse, by what the geometry library computes from it: the semi-minor axis
  \<^verbatim>\<open>Axes(ellipse.getCore()).getB()\<close>, the integer bounding box
  \<^verbatim>\<open>Box2I(ellipse.computeBBox())\<close>, the image of sinc coefficients of its core shifted
  to its centre with the kernel of the given name
  (\<^verbatim>\<open>offsetImage(*SincCoeffs<T>::get(core, 0.0), x, y, kernel)\<close>), and the bounding box
  and the spans of its pixel region.
\<close>

record Ellipse =
  axes_getB :: fp
  ellipse_BBox :: Box2I
  ellipse_sincCoeffs :: "string \<Rightarrow> Image"
  region_BBox :: Box2I
  region_spans :: "Span list"

datatype ApFlag = AP_FAILURE | APERTURE_TRUNCATED | SINC_COEFFS_TRUNCATED

record ApertureFluxResult =
  instFlux :: fp
  instFluxErr :: fp
  apFlags :: "ApFlag set"

record ApertureFluxControl =
  radii :: "fp list"
  maxSincRadius :: fp
  shiftKernel :: string

text \<open>
  Modelled from the spec: the default-constructed result (the constructor of
  \<^verbatim>\<open>FluxResult\<close> is in a header that is not among the sources).  The spec calls the
  initial flux and error an implementation-defined sentinel; it is NaN here, and no flag
  is set.
\<close>

definition Result_default :: ApertureFluxResult where
  "Result_default = \<lparr>instFlux = NaN, instFluxErr = NaN, apFlags = {}\<rparr>"

definition setApFlag :: "ApFlag \<Rightarrow> ApertureFluxResult \<Rightarrow> ApertureFluxResult" where
  "setApFlag f result = result\<lparr>apFlags := insert f (apFlags result)\<rparr>"

definition getApFlag :: "ApertureFluxResult \<Rightarrow> ApFlag \<Rightarrow> bool" where
  "getApFlag result f = (f \<in> apFlags result)"

text \<open>
  \<^verbatim>\<open>getSincCoeffs\<close>: the coefficient image, clipped to the box of the measurement image
  when it does not fit, with the flags that tell so.
\<close>

definition getSincCoeffs :: "Box2I \<Rightarrow> Ellipse \<Rightarrow> ApertureFluxResult \<Rightarrow> ApertureFluxControl \<Rightarrow> exn + (Image \<times> ApertureFluxResult)" where
  "getSincCoeffs bbox ellipse result ctrl =
    (let cImage = ellipse_sincCoeffs ellipse (shiftKernel ctrl)
     in if \<not> contains bbox (getBBox cImage) then
          (let result1 = setApFlag SINC_COEFFS_TRUNCATED result;
               overlap = clip (getBBox cImage) bbox;
               result2 = (if \<not> contains overlap (ellipse_BBox ellipse)
                          then setApFlag AP_FAILURE (setApFlag APERTURE_TRUNCATED result1)
                          else result1)
           in case subImage cImage overlap of
                Inl e \<Rightarrow> Inl e
              | Inr cImage' \<Rightarrow> Inr (cImage', result2))
        else Inr (cImage, result))"

text \<open>The sum of the entries \<open>f j i\<close> of an array of the given width and height.\<close>

definition array_sum :: "int \<Rightarrow> int \<Rightarrow> (int \<Rightarrow> int \<Rightarrow> fp) \<Rightarrow> fp" where
  "array_sum w h f = foldl (\<lambda>acc i. foldl (\<lambda>acc j. acc + f j i) acc [0..w - 1]) (Fin 0) [0..h - 1]"

text \<open>
  \<^verbatim>\<open>computeSincFlux\<close>, for an image and for a masked image (the one with a variance
  plane).
\<close>

definition computeSincFlux :: "Image \<Rightarrow> Ellipse \<Rightarrow> ApertureFluxControl \<Rightarrow> exn + ApertureFluxResult" where
  "computeSincFlux img ellipse ctrl =
    (case getSincCoeffs (getBBox img) ellipse Result_default ctrl of
       Inl e \<Rightarrow> Inl e
     | Inr (cImage, result) \<Rightarrow>
         if getApFlag result APERTURE_TRUNCATED then Inr result
         else
           (case subImage img (getBBox cImage) of
              Inl e \<Rightarrow> Inl e
            | Inr sub \<Rightarrow>
                let result1 = result\<lparr>instFlux :=
                      array_sum (getWidth sub) (getHeight sub)
                        (\<lambda>j i. pixel sub j i * pixel cImage j i)\<rparr>
                in (case variancePlane sub of
                      None \<Rightarrow> Inr result1
                    | Some v \<Rightarrow>
                        Inr (result1\<lparr>instFluxErr :=
                          fsqrt (array_sum (getWidth sub) (getHeight sub)
                            (\<lambda>j i. v j i * (pixel cImage j i * pixel cImage j i)))\<rparr>))))"

text \<open>
  \<^verbatim>\<open>std::accumulate\<close> from 0.0 over the pixels of one span, read from a plane of the
  image at local indices.
\<close>

definition span_sum :: "Image \<Rightarrow> (int \<Rightarrow> int \<Rightarrow> fp) \<Rightarrow> Span \<Rightarrow> fp" where
  "span_sum img plane sp =
    foldl (\<lambda>acc k. acc + plane (spanBeginX sp - getX0 img + k) (spanY sp - getY0 img))
      (Fin 0) [0..spanWidth sp - 1]"

text \<open>\<^verbatim>\<open>computeNaiveFlux\<close>, for an image and for a masked image.\<close>

definition computeNaiveFlux :: "Image \<Rightarrow> Ellipse \<Rightarrow> ApertureFluxControl \<Rightarrow> ApertureFluxResult" where
  "computeNaiveFlux img ellipse ctrl =
    (let result = Result_default
     in if \<not> contains (getBBox img) (region_BBox ellipse) then
          setApFlag AP_FAILURE (setApFlag APERTURE_TRUNCATED result)
        else
          (case variancePlane img of
             None \<Rightarrow>
               foldl (\<lambda>r sp. r\<lparr>instFlux := instFlux r + span_sum img (pixel img) sp\<rparr>)
                 (result\<lparr>instFlux := Fin 0\<rparr>) (region_spans ellipse)
           | Some v \<Rightarrow>
               let r1 = foldl (\<lambda>r sp. r\<lparr>instFlux := instFlux r + span_sum img (pixel img) sp,
                                          instFluxErr := instFluxErr r + span_sum img v sp\<rparr>)
                          (result\<lparr>instFlux := Fin 0, instFluxErr := Fin 0\<rparr>) (region_spans ellipse)
               in r1\<lparr>instFluxErr := fsqrt (instFluxErr r1)\<rparr>))"

text \<open>\<^verbatim>\<open>computeFlux\<close>: the sinc flux for a small aperture, the naive flux otherwise.\<close>

definition computeFlux :: "Image \<Rightarrow> Ellipse \<Rightarrow> ApertureFluxControl \<Rightarrow> exn + ApertureFluxResult" where
  "computeFlux img ellipse ctrl =
    (if axes_getB ellipse \<le> maxSincRadius ctrl then computeSincFlux img ellipse ctrl
     else Inr (computeNaiveFlux img ellipse ctrl))"

text \<open>
  The default control of the aperture fluxes, as the constructor in ApertureFlux.cc sets
  it.
\<close>

definition ApertureFluxControl_default :: ApertureFluxControl where
  "ApertureFluxControl_default =
    \<lparr>radii = [Fin 3, Fin 4.5, Fin 6, Fin 9, Fin 12, Fin 17, Fin 25, Fin 35, Fin 50, Fin 70],
     maxSincRadius = Fin 10, shiftKernel = ''lanczos5''\<rparr>"

section \<open>InputUtilities.cc: the shape of a record\<close>

text \<open>
  What \<^verbatim>\<open>SafeShapeExtractor\<close> reads of a source record and its table: whether the shape
  slot and its flag are defined, the quadrupole \<open>(Ixx, Iyy, Ixy)\<close> in the slot, the flag
  of the slot, and the flags of the algorithm in the record, which it writes.
\<close>

record SourceRecord =
  shapeKey_isValid :: bool
  getShape :: "fp \<times> fp \<times> fp"
  shapeFlagKey_isValid :: bool
  getShapeFlag :: bool
  algFlags :: "nat \<Rightarrow> bool"

record FlagHandler =
  getFailureFlagNumber :: nat

definition FlagHandler_setValue :: "SourceRecord \<Rightarrow> nat \<Rightarrow> bool \<Rightarrow> SourceRecord" where
  "FlagHandler_setValue record n v = record\<lparr>algFlags := (algFlags record)(n := v)\<rparr>"

text \<open>
  \<^verbatim>\<open>SafeShapeExtractor::operator()\<close>: the quadrupole with the record as the call leaves
  it, or the exception thrown.  The two runtime errors carry the words of their messages
  that tell them apart.
\<close>

definition SafeShapeExtractor :: "SourceRecord \<Rightarrow> FlagHandler \<Rightarrow> exn + ((fp \<times> fp \<times> fp) \<times> SourceRecord)" where
  "SafeShapeExtractor record flags =
    (if \<not> shapeKey_isValid record then Inl FatalAlgorithmError
     else
       let result = getShape record;
           Ixx = fst result;
           Iyy = fst (snd result);
           Ixy = snd (snd result)
       in if isnan Ixx \<or> isnan Iyy \<or> isnan Ixy
             \<or> Ixx * Iyy < Fin (1 + 1 / 1000000) * Ixy * Ixy then
            (if \<not> shapeFlagKey_isValid record
             then Inl (RuntimeError ''there is no Shape slot flag'')
             else if \<not> getShapeFlag record
             then Inl (RuntimeError ''the Shape slot flag is not set'')
             else Inl (MeasurementError (getFailureFlagNumber flags)))
          else if shapeFlagKey_isValid record \<and> getShapeFlag record then
            Inr (result, FlagHandler_setValue record (getFailureFlagNumber flags) True)
          else Inr (result, record))"

section \<open>Sums over pixels, for the statements about the aperture fluxes\<close>

text \<open>
  The value of a plane of an image at a position of the parent frame, the sum of a list of
  values, the pixels of a box and the pixels of the spans of a region.
\<close>

definition pixel_at :: "Image \<Rightarrow> (int \<Rightarrow> int \<Rightarrow> fp) \<Rightarrow> int \<times> int \<Rightarrow> fp" where
  "pixel_at img plane p = plane (fst p - getX0 img) (snd p - getY0 img)"

definition fsum :: "fp list \<Rightarrow> fp" where
  "fsum xs = foldr (+) xs (Fin 0)"

definition box_pixels :: "Box2I \<Rightarrow> (int \<times> int) list" where
  "box_pixels b =
    concat (map (\<lambda>y. map (\<lambda>x. (x, y)) [getMinX b..getMaxX b]) [getMinY b..getMaxY b])"

definition span_pixels :: "Span \<Rightarrow> (int \<times> int) list" where
  "span_pixels sp = map (\<lambda>x. (x, spanY sp)) [spanBeginX sp..spanBeginX sp + spanWidth sp - 1]"

section \<open>Passes of the loop of the adaptive moments\<close>

text \<open>
  The first part of the body of the loop, to the call of \<^verbatim>\<open>calcmom\<close>: \<open>Continue\<close>
  with the state in which the centroid is recomputed next, or the break or the failed
  assertion that ends the pass before that.  The body is this part followed by
  \<open>update_shape\<close>.
\<close>

definition amom_moments :: "lib \<Rightarrow> Image \<Rightarrow> fp \<Rightarrow> fp \<Rightarrow> fp \<Rightarrow> locals \<Rightarrow> locals flow" where
  "amom_moments L img bkgd xcen ycen s =
    (let s1 = s\<lparr>v_bbox := set_amom_bbox (getWidth img) (getHeight img) xcen ycen
                   (v_sigma11W s) (v_sigma12W s) (v_sigma22W s) (Fin 1000)\<rparr>;
         weights = getWeights L (v_sigma11W s1) (v_sigma12W s1) (v_sigma22W s1) True
     in if \<not> fst (fst weights) then Break (unweighted s1)
        else
          let s2 = update_weights weights s1
          in case calcmom L False img xcen ycen (v_bbox s2) bkgd (v_interpflag s2)
                    (v_w11 s2) (v_w12 s2) (v_w22 s2) (v_I0 s2) (v_sums s2) True True of
               None \<Rightarrow> Abort
             | Some (rc, I0', sums') \<Rightarrow>
                 let s3 = s2\<lparr>v_I0 := I0', v_sums := sums'\<rparr>
                 in if rc < 0 then Break (unweighted s3) else Continue s3)"

text \<open>
  The shift test of the loop, on the sums of a state: the centroid \<open>(sumx / sum,
  sumy / sum)\<close> is further than \<open>shiftmax\<close> from the starting centre in x or in y.
\<close>

definition centroid_shifted :: "fp \<Rightarrow> fp \<Rightarrow> fp \<Rightarrow> locals \<Rightarrow> bool" where
  "centroid_shifted xcen0 ycen0 shiftmax s =
    (\<bar>sumx (v_sums s) / sumw (v_sums s) - xcen0\<bar> > shiftmax
     \<or> \<bar>sumy (v_sums s) / sumw (v_sums s) - ycen0\<bar> > shiftmax)"

text \<open>A state with the flag \<open>SHIFT\<close> set on its shape.\<close>

definition with_shift :: "locals \<Rightarrow> locals" where
  "with_shift s = s\<lparr>v_shape := setFlag SHIFT (v_shape s)\<rparr>"

text \<open>
  The state in which the body of the loop runs for the \<open>(n + 1)\<close>-th time, when the
  loop gets that far.
\<close>

fun amom_pass :: "lib \<Rightarrow> Image \<Rightarrow> fp \<Rightarrow> fp \<Rightarrow> fp \<Rightarrow> fp \<Rightarrow> int \<Rightarrow> fp \<Rightarrow> fp \<Rightarrow> nat \<Rightarrow> locals \<Rightarrow> locals option" where
  "amom_pass L img bkgd xcen ycen shiftmax maxIter tol1 tol2 0 s =
    (if v_iter s < maxIter then Some s else None)"
| "amom_pass L img bkgd xcen ycen shiftmax maxIter tol1 tol2 (Suc n) s =
    (if v_iter s < maxIter then
       (case amom_body L img bkgd xcen ycen shiftmax tol1 tol2 s of
          Continue s' \<Rightarrow>
            amom_pass L img bkgd xcen ycen shiftmax maxIter tol1 tol2 n (s'\<lparr>v_iter := v_iter s' + 1\<rparr>)
        | Break s' \<Rightarrow> None
        | Abort \<Rightarrow> None)
     else None)"

section \<open>Invariants of the loop of the adaptive moments\<close>

text \<open>
  The moments of the weighting function are those of a positive definite matrix, and after
  the first pass the weight \<open>w11\<close> has passed the assertion of \<^verbatim>\<open>calcmom\<close>.
\<close>

definition sigma_ok :: "locals \<Rightarrow> bool" where
  "sigma_ok s =
    (Fin 0 < v_sigma11W s \<and> Fin 0 < v_sigma22W s
     \<and> v_sigma12W s * v_sigma12W s < v_sigma11W s * v_sigma22W s)"

definition loop_inv :: "locals \<Rightarrow> bool" where
  "loop_inv s = (sigma_ok s \<and> (if 0 < v_iter s then Fin 0 \<le> v_w11 s else True))"




section \<open>Objects for the closed examples\<close>

text \<open>
  An instance of the library for the examples: the exponential is the exact one (the source
  has it behind \<^verbatim>\<open>USE_APPROXIMATE_EXP\<close>).  The conversions of the ellipse, the
  inverse of the matrix and the error accessors are stand-ins: the examples never reach the
  first, and nothing is stated of a covariance or of an error that they return.
\<close>

definition lib_exact :: lib where
  "lib_exact =
    \<lparr>powFast_exp = exp, Axes_of_Quadrupole = (\<lambda>q. (NaN, NaN, NaN)),
     Quadrupole_of_Axes = (\<lambda>q. (NaN, NaN, NaN)), Matrix4_inverse = (\<lambda>m. m),
     getXErr = (\<lambda>s. NaN), getYErr = (\<lambda>s. NaN), getIxxErr = (\<lambda>s. NaN),
     getIyyErr = (\<lambda>s. NaN), getIxyErr = (\<lambda>s. NaN)\<rparr>"

text \<open>A shape with every value NaN and no flag set.\<close>

definition shape_nan :: SdssShapeImpl where
  "shape_nan =
    \<lparr>getI0 = NaN, getX = NaN, getY = NaN, getIxx = NaN, getIxy = NaN, getIyy = NaN,
     getIxy4 = NaN, getCovar = [], shapeFlags = {}\<rparr>"

text \<open>A masked 6 by 6 image of zeros, with the variance 1 everywhere.\<close>

definition image_zero :: Image where
  "image_zero =
    \<lparr>getX0 = 0, getY0 = 0, getWidth = 6, getHeight = 6, pixel = (\<lambda>j i. Fin 0),
     variancePlane = Some (\<lambda>j i. Fin 1)\<rparr>"

text \<open>
  A masked 6 by 6 image that is zero but in three corners: 3 at \<open>(5, 5)\<close>, and -1 at
  \<open>(5, 0)\<close> and at \<open>(0, 5)\<close>.  The variance is 1 everywhere.
\<close>

definition image_corners :: Image where
  "image_corners =
    \<lparr>getX0 = 0, getY0 = 0, getWidth = 6, getHeight = 6,
     pixel = (\<lambda>j i. if j = 5 \<and> i = 5 then Fin 3
                     else if (j = 5 \<and> i = 0) \<or> (j = 0 \<and> i = 5) then Fin (- 1) else Fin 0),
     variancePlane = Some (\<lambda>j i. Fin 1)\<rparr>"

definition control_default :: Control where
  "control_default =
    \<lparr>ctrl_background = Fin 0, ctrl_maxIter = 100, ctrl_tol1 = Fin (1 / 100000), ctrl_tol2 = Fin (1 / 10000),
     ctrl_maxShift = Fin 0\<rparr>"

text \<open>
  A masked 3 by 3 image at the origin with the pixel values 0 to 8, row by row, and the
  variance 4 everywhere.
\<close>

definition image_ramp :: Image where
  "image_ramp =
    \<lparr>getX0 = 0, getY0 = 0, getWidth = 3, getHeight = 3,
     pixel = (\<lambda>j i. Fin (of_int (j + 3 * i))),
     variancePlane = Some (\<lambda>j i. Fin 4)\<rparr>"

text \<open>
  A small ellipse centred on the pixel \<open>(0, 1)\<close> at the left edge of that image: its own
  box is that pixel, and its 3 by 3 coefficient image reaches one column beyond the edge.
  The coefficients are stand-ins that add up to 1.
\<close>

definition ellipse_edge :: Ellipse where
  "ellipse_edge =
    \<lparr>axes_getB = Fin 0.4,
     ellipse_BBox = \<lparr>getMinX = 0, getMinY = 1, getMaxX = 0, getMaxY = 1\<rparr>,
     ellipse_sincCoeffs = (\<lambda>kernel.
       \<lparr>getX0 = - 1, getY0 = 0, getWidth = 3, getHeight = 3,
        pixel = (\<lambda>j i. if j = 1 \<and> i = 1 then Fin (1 / 2) else Fin (1 / 16)),
        variancePlane = None\<rparr>),
     region_BBox = \<lparr>getMinX = 0, getMinY = 1, getMaxX = 0, getMaxY = 1\<rparr>,
     region_spans = [\<lparr>spanY = 1, spanBeginX = 0, spanWidth = 1\<rparr>]\<rparr>"

text \<open>The same ellipse one pixel to the left, centred outside the image.\<close>

definition ellipse_outside :: Ellipse where
  "ellipse_outside =
    \<lparr>axes_getB = Fin 0.4,
     ellipse_BBox = \<lparr>getMinX = - 1, getMinY = 1, getMaxX = - 1, getMaxY = 1\<rparr>,
     ellipse_sincCoeffs = (\<lambda>kernel.
       \<lparr>getX0 = - 2, getY0 = 0, getWidth = 3, getHeight = 3,
        pixel = (\<lambda>j i. if j = 1 \<and> i = 1 then Fin (1 / 2) else Fin (1 / 16)),
        variancePlane = None\<rparr>),
     region_BBox = \<lparr>getMinX = - 1, getMinY = 1, getMaxX = - 1, getMaxY = 1\<rparr>,
     region_spans = [\<lparr>spanY = 1, spanBeginX = - 1, spanWidth = 1\<rparr>]\<rparr>"

text \<open>
  The state of the solver on \<open>image_corners\<close>, centred at \<open>(0, 0)\<close>, when its loop is
  left in the first pass.
\<close>

definition example_locals :: "moments \<Rightarrow> locals" where
  "example_locals garbage = (amom_init garbage shape_nan)
     \<lparr>v_I0 := Fin 0, v_sums := moments_zero, v_w11 := Fin (2 / 3), v_w12 := Fin 0,
      v_w22 := Fin (2 / 3),
      v_bbox := \<lparr>getMinX = 0, getMinY = 0, getMaxX = 5, getMaxY = 5\<rparr>,
      v_shape := shape_nan\<lparr>shapeFlags := {UNWEIGHTED}\<rparr>\<rparr>"




text \<open>
  A masked 4 by 4 image with the value 1 at \<open>(3, 3)\<close> and 0 elsewhere, and the variance
  1 everywhere.
\<close>

definition image_far :: Image where
  "image_far =
    \<lparr>getX0 = 0, getY0 = 0, getWidth = 4, getHeight = 4,
     pixel = (\<lambda>j i. if j = 3 \<and> i = 3 then Fin 1 else Fin 0),
     variancePlane = Some (\<lambda>j i. Fin 1)\<rparr>"

text \<open>
  The states of the solver on \<open>image_far\<close>, centred at \<open>(0, 0)\<close>, after
  \<^verbatim>\<open>calcmom\<close> in the first pass and when the loop is left in that pass.
\<close>

definition far_locals :: locals where
  "far_locals = (amom_init moments_zero shape_nan)
     \<lparr>v_I0 := Fin (exp (- 6) / (pi * sqrt (9 / 4))),
      v_sums := \<lparr>sumw = Fin (exp (- 6)), sumx = Fin (3 * exp (- 6)),
        sumy = Fin (3 * exp (- 6)), sumxx = Fin (9 * exp (- 6)), sumxy = Fin (9 * exp (- 6)),
        sumyy = Fin (9 * exp (- 6)), sums4 = Fin (144 * exp (- 6))\<rparr>,
      v_w11 := Fin (2 / 3), v_w12 := Fin 0, v_w22 := Fin (2 / 3),
      v_bbox := \<lparr>getMinX = 0, getMinY = 0, getMaxX = 3, getMaxY = 3\<rparr>\<rparr>"

definition far_locals_2 :: locals where
  "far_locals_2 = far_locals
     \<lparr>v_e1_old := Fin 0, v_e2_old := Fin 1, v_sigma11_ow_old := Fin 9,
      v_shape := shape_nan\<lparr>getX := Fin 3, getY := Fin 3, shapeFlags := {UNWEIGHTED, SHIFT}\<rparr>\<rparr>"

text \<open>
  A masked 3 by 3 image with the values 1, 3, 2 and 2 at the left, right, lower and upper
  neighbour of the central pixel and 0 elsewhere, and the variance 1 everywhere.
\<close>

definition image_ring :: Image where
  "image_ring =
    \<lparr>getX0 = 0, getY0 = 0, getWidth = 3, getHeight = 3,
     pixel = (\<lambda>j i. if j = 0 \<and> i = 1 then Fin 1
                     else if j = 2 \<and> i = 1 then Fin 3
                     else if j = 1 \<and> (i = 0 \<or> i = 2) then Fin 2 else Fin 0),
     variancePlane = Some (\<lambda>j i. Fin 1)\<rparr>"

text \<open>
  The states of the solver on \<open>image_ring\<close>, centred at \<open>(1, 1)\<close> with the largest
  shift 1/8: after \<^verbatim>\<open>calcmom\<close> in the first pass, after the first pass, and when the
  loop is left in the second.
\<close>

definition ring_locals_0 :: locals where
  "ring_locals_0 = (amom_init moments_zero shape_nan)
     \<lparr>v_I0 := Fin (8 * exp (- (1 / 3)) / (pi * sqrt (9 / 4))),
      v_sums := \<lparr>sumw = Fin (8 * exp (- (1 / 3))), sumx = Fin (10 * exp (- (1 / 3))),
        sumy = Fin (8 * exp (- (1 / 3))), sumxx = Fin (4 * exp (- (1 / 3))), sumxy = Fin 0,
        sumyy = Fin (4 * exp (- (1 / 3))), sums4 = Fin (32 / 9 * exp (- (1 / 3)))\<rparr>,
      v_w11 := Fin (2 / 3), v_w12 := Fin 0, v_w22 := Fin (2 / 3),
      v_bbox := \<lparr>getMinX = 0, getMinY = 0, getMaxX = 2, getMaxY = 2\<rparr>\<rparr>"

definition ring_locals_1 :: locals where
  "ring_locals_1 = ring_locals_0
     \<lparr>v_sigma11W := Fin (3 / 4), v_sigma12W := Fin 0, v_sigma22W := Fin (3 / 4),
      v_e1_old := Fin 0, v_e2_old := Fin 0, v_sigma11_ow_old := Fin (1 / 2),
      v_shape := shape_nan\<lparr>getX := Fin (5 / 4), getY := Fin 1, shapeFlags := {SHIFT}\<rparr>\<rparr>"

definition ring_locals_2 :: locals where
  "ring_locals_2 = ring_locals_1
     \<lparr>v_I0 := Fin (8 * exp (- (2 / 3)) / (pi * sqrt (9 / 16))),
      v_sums := \<lparr>sumw = Fin (8 * exp (- (2 / 3))), sumx = Fin (10 * exp (- (2 / 3))),
        sumy = Fin (8 * exp (- (2 / 3))), sumxx = Fin (4 * exp (- (2 / 3))), sumxy = Fin 0,
        sumyy = Fin (4 * exp (- (2 / 3))), sums4 = Fin (128 / 9 * exp (- (2 / 3)))\<rparr>,
      v_w11 := Fin (4 / 3), v_w12 := Fin 0, v_w22 := Fin (4 / 3), v_iter := 1\<rparr>"



section \<open>Properties\<close>

subsection \<open>getWeights\<close>

lemma getWeights_careful_irrelevant:
  "getWeights L sigma11 sigma12 sigma22 careful = getWeights L sigma11 sigma12 sigma22 False"
  by (simp add: getWeights_def Let_def)

lemma getWeights_ok_iff:
  "fst (fst (getWeights L (Fin s11) (Fin s12) (Fin s22) careful))
     = (float_epsilon \<le> s11 * s22 - s12 * s12)"
  by (auto simp: getWeights_def Let_def)

lemma getWeights_ok_values:
  assumes "fst (fst (getWeights L sigma11 sigma12 sigma22 careful))"
  obtains s11 s12 s22 where "sigma11 = Fin s11" "sigma12 = Fin s12" "sigma22 = Fin s22"
    "float_epsilon \<le> s11 * s22 - s12 * s12"
    "getWeights L sigma11 sigma12 sigma22 careful =
       ((True, Fin (s11 * s22 - s12 * s12)), Fin (s22 / (s11 * s22 - s12 * s12)),
        Fin (- s12 / (s11 * s22 - s12 * s12)), Fin (s11 / (s11 * s22 - s12 * s12)))"
proof -
  from assms obtain s11 s12 s22 where v: "sigma11 = Fin s11" "sigma12 = Fin s12" "sigma22 = Fin s22"
    by (cases sigma11; cases sigma12; cases sigma22) (auto simp: getWeights_def)
  with assms have d: "float_epsilon \<le> s11 * s22 - s12 * s12"
    by (simp add: getWeights_ok_iff)
  have "0 < float_epsilon" by (simp add: float_epsilon_def)
  with d have "s11 * s22 - s12 * s12 \<noteq> 0" by linarith
  with v d have "getWeights L sigma11 sigma12 sigma22 careful =
       ((True, Fin (s11 * s22 - s12 * s12)), Fin (s22 / (s11 * s22 - s12 * s12)),
        Fin (- s12 / (s11 * s22 - s12 * s12)), Fin (s11 / (s11 * s22 - s12 * s12)))"
    by (auto simp: getWeights_def Let_def)
  with v d show thesis by (rule that)
qed

text \<open>
  C1.  The claim: with a determinant below the float epsilon and \<open>careful\<close> true,
  \<open>getWeights\<close> returns \<open>ok = true\<close> with the inverse of the matrix inflated by 1/12
  in quadrature.  The code does not: for every triple of moments that are not NaN and have
  a determinant below the float epsilon, the first test of the determinant returns the
  failure, with NaN for the determinant and the three weights, before the branch that
  inflates the axes is reached, whatever the ellipse library does.
\<close>

theorem getWeights_careful_singular_fails:
  assumes "Fin s11 * Fin s22 - Fin s12 * Fin s12 < Fin float_epsilon"
  shows "getWeights L (Fin s11) (Fin s12) (Fin s22) True = ((False, NaN), NaN, NaN, NaN)"
  using assms by (simp add: getWeights_def)

text \<open>At the moments \<open>(0, 0, 0)\<close>, the matrix of a single point.\<close>

theorem getWeights_careful_singular_fails_witness:
  "Fin 0 * Fin 0 - Fin 0 * Fin 0 < Fin float_epsilon
   \<and> getWeights lib_exact (Fin 0) (Fin 0) (Fin 0) True = ((False, NaN), NaN, NaN, NaN)"
proof -
  have h: "Fin 0 * Fin 0 - Fin 0 * Fin 0 < Fin float_epsilon"
    by (simp add: float_epsilon_def)
  from getWeights_careful_singular_fails [OF h, of lib_exact] h show ?thesis by simp
qed

subsection \<open>getAdaptiveMoments\<close>

text \<open>
  C10.  If the x or the y coordinate of the centroid passed to \<open>getAdaptiveMoments\<close> is
  NaN, the function returns false at once: the flag \<open>UNWEIGHTED_BAD\<close> is set, the flag
  \<open>UNWEIGHTED\<close> and every value of the shape are as they were, and the result does not
  depend on the image, so the loop is not entered.
\<close>

theorem getAdaptiveMoments_nan_centroid:
  assumes "isnan xcen \<or> isnan ycen"
  shows "getAdaptiveMoments L garbage mimage bkgd xcen ycen shiftmax shape maxIter tol1 tol2
           = (Returned False, shape\<lparr>shapeFlags := insert UNWEIGHTED_BAD (shapeFlags shape)\<rparr>)
     \<and> getFlag (snd (getAdaptiveMoments L garbage mimage bkgd xcen ycen shiftmax shape
           maxIter tol1 tol2)) UNWEIGHTED_BAD
     \<and> getFlag (snd (getAdaptiveMoments L garbage mimage bkgd xcen ycen shiftmax shape
           maxIter tol1 tol2)) UNWEIGHTED = getFlag shape UNWEIGHTED"
  using assms by (simp add: getAdaptiveMoments_def setFlag_def getFlag_def)

theorem getAdaptiveMoments_nan_centroid_witness:
  "isnan NaN \<and>
   getAdaptiveMoments lib_exact moments_zero image_zero (Fin 0) NaN (Fin 3) (Fin 2) shape_nan
     100 (Fin (1 / 100000)) (Fin (1 / 10000))
     = (Returned False, shape_nan\<lparr>shapeFlags := {UNWEIGHTED_BAD}\<rparr>)"
  using getAdaptiveMoments_nan_centroid [of NaN "Fin 3" lib_exact moments_zero image_zero
      "Fin 0" "Fin 2" shape_nan 100 "Fin (1 / 100000)" "Fin (1 / 10000)"]
  by (simp add: shape_nan_def)

subsection \<open>The flags of the measurement\<close>

lemma upt_N_FLAGS_Impl: "[0..<N_FLAGS_Impl] = [0, 1, 2, 3]"
  by (simp add: N_FLAGS_Impl_def upt_rec)

lemma copy_flag_flags:
  "r_flags (copy_flag sh r n) =
     (if getFlag sh (Flag_of n) then (r_flags r)[n + 1 := True, 0 := True] else r_flags r)"
  by (simp add: copy_flag_def FAILURE_def)

lemma copy_flags_index:
  assumes "length (r_flags r) = 5"
  shows "r_flags (foldl (copy_flag sh) r [0..<N_FLAGS_Impl]) ! result_flag f
           = (r_flags r ! result_flag f \<or> getFlag sh f)"
  using assms
  by (cases f) (simp_all add: upt_N_FLAGS_Impl copy_flag_flags Flag_of_def nth_list_update)

lemma copy_flags_failure:
  assumes "length (r_flags r) = 5"
  shows "r_flags (foldl (copy_flag sh) r [0..<N_FLAGS_Impl]) ! FAILURE
           = (r_flags r ! FAILURE \<or> (\<exists>f. getFlag sh f))"
proof -
  have ex: "(\<exists>f. getFlag sh f) = (getFlag sh UNWEIGHTED_BAD \<or> getFlag sh UNWEIGHTED \<or> getFlag sh SHIFT \<or> getFlag sh MAXITER)"
    by (metis Flag.exhaust)
  show ?thesis unfolding ex using assms
    by (simp add: upt_N_FLAGS_Impl copy_flag_flags Flag_of_def nth_list_update FAILURE_def)
qed

text \<open>
  C9.  Whenever a flag of the solver (\<open>UNWEIGHTED_BAD\<close>, \<open>UNWEIGHTED\<close>, \<open>SHIFT\<close>,
  \<open>MAXITER\<close>) is set on the shape that \<open>getAdaptiveMoments\<close> leaves, the result of
  \<open>apply\<close> has the result flag of that name and the general failure flag set; and a
  result with \<open>SHIFT\<close> set has the failure flag set.
\<close>

theorem apply_copies_solver_flags:
  assumes "apply_measurement L garbage shapeImpl0 mimage center control = Some (Inr result)"
  shows "(\<forall>f. getFlag (snd (apply_solver L garbage shapeImpl0 mimage center control)) f
            \<longrightarrow> r_flags result ! result_flag f \<and> r_flags result ! FAILURE)
       \<and> (r_flags result ! result_flag SHIFT \<longrightarrow> r_flags result ! FAILURE)"
proof -
  obtain out shapeImpl where so: "apply_solver L garbage shapeImpl0 mimage center control = (out, shapeImpl)"
    by (cases "apply_solver L garbage shapeImpl0 mimage center control")
  define result1 where "result1 = (case out of
                          Threw e \<Rightarrow> SdssShapeResult_default\<lparr>r_flags := (r_flags SdssShapeResult_default)[FAILURE := True]\<rparr>
                        | _ \<Rightarrow> SdssShapeResult_default)"
  define result2 where "result2 = result1\<lparr>r_x := getX shapeImpl + Fin (of_int (getX0 mimage)),
                         r_y := getY shapeImpl + Fin (of_int (getY0 mimage)),
                         r_xSigma := getXErr L shapeImpl, r_ySigma := getYErr L shapeImpl,
                         r_xx := getIxx shapeImpl, r_yy := getIyy shapeImpl,
                         r_xy := getIxy shapeImpl, r_xxSigma := getIxxErr L shapeImpl,
                         r_yySigma := getIyyErr L shapeImpl,
                         r_xySigma := getIxyErr L shapeImpl\<rparr>"
  from assms have "apply_MaskedImage L garbage shapeImpl0 mimage center control = Some result"
    by (auto simp: apply_measurement_def apply_Image_def split: option.splits)
  then have res: "result = foldl (copy_flag shapeImpl) result2 [0..<N_FLAGS_Impl]"
    using so by (cases out) (simp_all add: apply_MaskedImage_def Let_def result1_def result2_def)
  have len: "length (r_flags result2) = 5"
    by (cases out) (simp_all add: result1_def result2_def SdssShapeResult_default_def FAILURE_def)
  have clear: "\<not> r_flags result2 ! result_flag f" for f
    by (cases out; cases f) (simp_all add: result1_def result2_def SdssShapeResult_default_def FAILURE_def)
  have a: "r_flags result ! result_flag f = getFlag shapeImpl f" for f
    by (simp add: res copy_flags_index[OF len] clear)
  have b: "(\<exists>f. getFlag shapeImpl f) \<Longrightarrow> r_flags result ! FAILURE"
    by (simp add: res copy_flags_failure[OF len])
  have "r_flags result ! result_flag SHIFT \<longrightarrow> r_flags result ! FAILURE"
    unfolding a using b by blast
  moreover have "\<forall>f. getFlag (snd (apply_solver L garbage shapeImpl0 mimage center control)) f
            \<longrightarrow> r_flags result ! result_flag f \<and> r_flags result ! FAILURE"
    unfolding so a using b by auto
  ultimately show ?thesis by blast
qed


theorem apply_copies_solver_flags_witness:
  "apply_measurement lib_exact moments_zero shape_nan image_zero (NaN, Fin 3) control_default
      = Some (Inr (SdssShapeResult_default\<lparr>r_flags := [True, True, False, False, False]\<rparr>))
   \<and> getFlag (snd (apply_solver lib_exact moments_zero shape_nan image_zero (NaN, Fin 3)
        control_default)) UNWEIGHTED_BAD
   \<and> [True, True, False, False, False] ! result_flag UNWEIGHTED_BAD
   \<and> [True, True, False, False, False] ! FAILURE"
proof -
  have s: "apply_solver lib_exact moments_zero shape_nan image_zero (NaN, Fin 3) control_default
     = (Returned False, shape_nan\<lparr>shapeFlags := {UNWEIGHTED_BAD}\<rparr>)"
    by (simp add: apply_solver_def getAdaptiveMoments_def setFlag_def shape_nan_def)
  have v: "variancePlane image_zero = Some (\<lambda>j i. Fin 1)"
    by (simp add: image_zero_def)
  have m: "apply_measurement lib_exact moments_zero shape_nan image_zero (NaN, Fin 3) control_default
      = Some (Inr (SdssShapeResult_default\<lparr>r_flags := [True, True, False, False, False]\<rparr>))"
    unfolding apply_measurement_def apply_MaskedImage_def s v
    by (simp add: Let_def upt_N_FLAGS_Impl copy_flag_def getFlag_def Flag_of_def
        SdssShapeResult_default_def shape_nan_def lib_exact_def FAILURE_def image_zero_def)
  from apply_copies_solver_flags[OF m] s m show ?thesis
    by (simp add: getFlag_def FAILURE_def)
qed

subsection \<open>Sums of floating-point values\<close>

lemma fp_add_assoc: "(a + b) + c = a + (b + c)" for a b c :: fp
  by (cases a; cases b; cases c) simp_all

lemma fp_add_zero [simp]: "Fin 0 + a = a" "a + Fin 0 = a"
  by (cases a; simp)+

lemma fsum_simps [simp]: "fsum [] = Fin 0" "fsum (x # xs) = x + fsum xs"
  by (simp_all add: fsum_def)

lemma fsum_append: "fsum (xs @ ys) = fsum xs + fsum ys"
  by (induction xs) (simp_all add: fp_add_assoc)

lemma foldl_add_fsum: "foldl (\<lambda>acc k. acc + f k) a ks = a + fsum (map f ks)"
  by (induction ks arbitrary: a) (simp_all add: fp_add_assoc)

lemma upto_shift: "map (\<lambda>k. k + d) [m..n] = [m + d..n + d]"
proof (induction m n rule: upto.induct)
  case (1 i j)
  show ?case
  proof (cases "i \<le> j")
    case True
    with 1 have ih: "map (\<lambda>k. k + d) [i + 1..j] = [i + 1 + d..j + d]" by simp
    have a: "[i..j] = i # [i + 1..j]" using True by (rule upto_rec1)
    have b: "[i + d..j + d] = (i + d) # [i + d + 1..j + d]" using True by (intro upto_rec1) simp
    have c: "i + d + 1 = i + 1 + d" by simp
    show ?thesis unfolding a b c using ih by simp
  next
    case False
    then show ?thesis by simp
  qed
qed

lemma span_sum_eq:
  "span_sum img plane sp = fsum (map (pixel_at img plane) (span_pixels sp))"
proof -
  have e: "spanBeginX sp + spanWidth sp - 1 = spanWidth sp - 1 + spanBeginX sp" by simp
  have "[spanBeginX sp..spanBeginX sp + spanWidth sp - 1]
          = map (\<lambda>k. k + spanBeginX sp) [0..spanWidth sp - 1]"
    unfolding e by (simp add: upto_shift)
  then show ?thesis
    by (simp add: span_sum_def foldl_add_fsum span_pixels_def pixel_at_def comp_def algebra_simps)
qed

lemma naive_fold_plain:
  "foldl (\<lambda>r sp. r\<lparr>instFlux := instFlux r + span_sum img plane sp\<rparr>) r0 sps
     = r0\<lparr>instFlux := instFlux r0 + fsum (map (pixel_at img plane) (concat (map span_pixels sps)))\<rparr>"
  by (induction sps arbitrary: r0) (simp_all add: span_sum_eq fsum_append fp_add_assoc)

lemma naive_fold_masked:
  "foldl (\<lambda>r sp. r\<lparr>instFlux := instFlux r + span_sum img plane sp,
                     instFluxErr := instFluxErr r + span_sum img v sp\<rparr>) r0 sps
     = r0\<lparr>instFlux := instFlux r0 + fsum (map (pixel_at img plane) (concat (map span_pixels sps))),
          instFluxErr := instFluxErr r0 + fsum (map (pixel_at img v) (concat (map span_pixels sps)))\<rparr>"
  by (induction sps arbitrary: r0) (simp_all add: span_sum_eq fsum_append fp_add_assoc)

lemma fsqrt_nonneg: "a \<ge> Fin 0 \<Longrightarrow> fsqrt a \<ge> Fin 0"
  by (cases a) simp_all

subsection \<open>The naive aperture flux\<close>

text \<open>
  C6, as amended.  If the bounding box of the pixel region of the ellipse is not contained
  in the bounding box of the image, the result of \<open>computeNaiveFlux\<close> is the default
  result with \<open>APERTURE_TRUNCATED\<close> and the failure flag set: no flux is computed.
  Otherwise no flag is set, \<open>instFlux\<close> is the sum of the pixel values over the pixels
  of all spans, and for a masked image \<open>instFluxErr\<close> is the square root of the sum of
  the variance over the same pixels; it is at least 0 when that sum is at least 0.
\<close>

theorem computeNaiveFlux_sums:
  "(\<not> contains (getBBox img) (region_BBox ellipse) \<longrightarrow>
      computeNaiveFlux img ellipse ctrl
        = Result_default\<lparr>apFlags := {APERTURE_TRUNCATED, AP_FAILURE}\<rparr>)
   \<and> (contains (getBBox img) (region_BBox ellipse) \<longrightarrow>
        apFlags (computeNaiveFlux img ellipse ctrl) = {}
        \<and> instFlux (computeNaiveFlux img ellipse ctrl)
             = fsum (map (pixel_at img (pixel img)) (concat (map span_pixels (region_spans ellipse))))
        \<and> (\<forall>v. variancePlane img = Some v \<longrightarrow>
              instFluxErr (computeNaiveFlux img ellipse ctrl)
                = fsqrt (fsum (map (pixel_at img v) (concat (map span_pixels (region_spans ellipse)))))
              \<and> (fsum (map (pixel_at img v) (concat (map span_pixels (region_spans ellipse)))) \<ge> Fin 0
                   \<longrightarrow> instFluxErr (computeNaiveFlux img ellipse ctrl) \<ge> Fin 0)))"
  by (cases "variancePlane img")
    (auto simp: computeNaiveFlux_def Let_def setApFlag_def Result_default_def naive_fold_plain
       naive_fold_masked fsqrt_nonneg)

theorem computeNaiveFlux_sums_witness:
  "contains (getBBox image_ramp) (region_BBox ellipse_edge)
   \<and> variancePlane image_ramp = Some (\<lambda>j i. Fin 4)
   \<and> fsum (map (pixel_at image_ramp (\<lambda>j i. Fin 4))
         (concat (map span_pixels (region_spans ellipse_edge)))) \<ge> Fin 0
   \<and> apFlags (computeNaiveFlux image_ramp ellipse_edge ApertureFluxControl_default) = {}
   \<and> instFlux (computeNaiveFlux image_ramp ellipse_edge ApertureFluxControl_default) = Fin 3
   \<and> instFluxErr (computeNaiveFlux image_ramp ellipse_edge ApertureFluxControl_default) = Fin 2
   \<and> instFluxErr (computeNaiveFlux image_ramp ellipse_edge ApertureFluxControl_default) \<ge> Fin 0
   \<and> \<not> contains (getBBox image_ramp) (region_BBox ellipse_outside)
   \<and> computeNaiveFlux image_ramp ellipse_outside ApertureFluxControl_default
        = Result_default\<lparr>apFlags := {APERTURE_TRUNCATED, AP_FAILURE}\<rparr>"
proof -
  have c1: "contains (getBBox image_ramp) (region_BBox ellipse_edge)"
    by (simp add: contains_def getBBox_def image_ramp_def ellipse_edge_def isEmpty_def)
  have c2: "\<not> contains (getBBox image_ramp) (region_BBox ellipse_outside)"
    by (simp add: contains_def getBBox_def image_ramp_def ellipse_outside_def isEmpty_def)
  have v: "variancePlane image_ramp = Some (\<lambda>j i. Fin 4)"
    by (simp add: image_ramp_def)
  have p: "concat (map span_pixels (region_spans ellipse_edge)) = [(0, 1)]"
    by (simp add: ellipse_edge_def span_pixels_def)
  have s: "pixel_at image_ramp (\<lambda>j i. Fin 4) (0, 1) = Fin 4"
     "pixel_at image_ramp (pixel image_ramp) (0, 1) = Fin 3"
    by (simp_all add: pixel_at_def image_ramp_def)
  from computeNaiveFlux_sums [of image_ramp ellipse_edge ApertureFluxControl_default]
    computeNaiveFlux_sums [of image_ramp ellipse_outside ApertureFluxControl_default]
  show ?thesis
    by (simp add: c1 c2 v p s)
qed

text \<open>
  C6, the counterexample.  The claim as it stands has the error of a masked image never negative.  A variance plane
  that is -1 at the one pixel of the aperture gives the error \<open>sqrt (-1)\<close>, a NaN, and
  a NaN is not at least 0.
\<close>

theorem computeNaiveFlux_error_counterexample:
  "contains (getBBox (image_ramp\<lparr>variancePlane := Some (\<lambda>j i. Fin (- 1))\<rparr>))
      (region_BBox ellipse_edge)
   \<and> instFluxErr (computeNaiveFlux (image_ramp\<lparr>variancePlane := Some (\<lambda>j i. Fin (- 1))\<rparr>)
        ellipse_edge ApertureFluxControl_default) = NaN
   \<and> \<not> instFluxErr (computeNaiveFlux (image_ramp\<lparr>variancePlane := Some (\<lambda>j i. Fin (- 1))\<rparr>)
        ellipse_edge ApertureFluxControl_default) \<ge> Fin 0"
proof -
  have c1: "contains (getBBox (image_ramp\<lparr>variancePlane := Some (\<lambda>j i. Fin (- 1))\<rparr>))
      (region_BBox ellipse_edge)"
    by (simp add: contains_def getBBox_def image_ramp_def ellipse_edge_def isEmpty_def)
  have e: "instFluxErr (computeNaiveFlux (image_ramp\<lparr>variancePlane := Some (\<lambda>j i. Fin (- 1))\<rparr>)
        ellipse_edge ApertureFluxControl_default) = NaN"
    using c1 by (simp add: computeNaiveFlux_def Let_def naive_fold_masked Result_default_def)
      (simp add: ellipse_edge_def span_pixels_def pixel_at_def)
  show ?thesis using c1 e by simp
qed

subsection \<open>The choice between the two aperture fluxes\<close>

text \<open>
  C5.  \<open>computeFlux\<close> looks at the semi-minor axis \<open>b\<close> of the ellipse: it returns
  the result of the sinc flux when \<open>b \<le> maxSincRadius\<close>, and the result of the naive
  flux otherwise (so also when \<open>b\<close> is NaN).  The image of the statement is any image,
  with a variance plane (a masked image) or without.
\<close>

theorem computeFlux_dispatch:
  "(axes_getB ellipse \<le> maxSincRadius ctrl \<longrightarrow>
      computeFlux img ellipse ctrl = computeSincFlux img ellipse ctrl)
   \<and> (\<not> axes_getB ellipse \<le> maxSincRadius ctrl \<longrightarrow>
      computeFlux img ellipse ctrl = Inr (computeNaiveFlux img ellipse ctrl))"
  by (simp add: computeFlux_def)

theorem computeFlux_dispatch_witness:
  "axes_getB ellipse_edge \<le> maxSincRadius ApertureFluxControl_default
   \<and> computeFlux image_ramp ellipse_edge ApertureFluxControl_default
       = computeSincFlux image_ramp ellipse_edge ApertureFluxControl_default
   \<and> \<not> axes_getB (ellipse_edge\<lparr>axes_getB := Fin 12\<rparr>) \<le> maxSincRadius ApertureFluxControl_default
   \<and> computeFlux image_ramp (ellipse_edge\<lparr>axes_getB := Fin 12\<rparr>) ApertureFluxControl_default
       = Inr (computeNaiveFlux image_ramp (ellipse_edge\<lparr>axes_getB := Fin 12\<rparr>)
           ApertureFluxControl_default)"
proof -
  have a: "axes_getB ellipse_edge \<le> maxSincRadius ApertureFluxControl_default"
    by (simp add: ellipse_edge_def ApertureFluxControl_default_def)
  have b: "\<not> axes_getB (ellipse_edge\<lparr>axes_getB := Fin 12\<rparr>) \<le> maxSincRadius ApertureFluxControl_default"
    by (simp add: ApertureFluxControl_default_def)
  from computeFlux_dispatch [of ellipse_edge ApertureFluxControl_default image_ramp]
    computeFlux_dispatch [of "ellipse_edge\<lparr>axes_getB := Fin 12\<rparr>" ApertureFluxControl_default image_ramp]
    a b
  show ?thesis by blast
qed

subsection \<open>The sinc aperture flux\<close>

lemma fsum_concat_rows:
  "fsum (map g (concat (map (\<lambda>y. map (\<lambda>x. (x, y)) xs) ys)))
     = fsum (map (\<lambda>y. fsum (map (\<lambda>x. g (x, y)) xs)) ys)"
  by (induction ys) (simp_all add: fsum_append comp_def)

lemma array_sum_box:
  "array_sum (getMaxX b - getMinX b + 1) (getMaxY b - getMinY b + 1)
       (\<lambda>j i. g (j + getMinX b, i + getMinY b))
     = fsum (map g (box_pixels b))"
proof -
  have x: "[getMinX b..getMaxX b] = map (\<lambda>k. k + getMinX b) [0..getMaxX b - getMinX b]"
    by (simp add: upto_shift)
  have y: "[getMinY b..getMaxY b] = map (\<lambda>k. k + getMinY b) [0..getMaxY b - getMinY b]"
    by (simp add: upto_shift)
  show ?thesis
    unfolding box_pixels_def fsum_concat_rows array_sum_def x y
    by (simp add: foldl_add_fsum comp_def)
qed

lemma getBBox_cases: "getBBox img = Box2I_empty \<or> \<not> isEmpty (getBBox img)"
  by (auto simp: getBBox_def isEmpty_def)

lemma isEmpty_empty [simp]: "isEmpty Box2I_empty"
  by (simp add: isEmpty_def Box2I_empty_def)

lemma clip_getBBox_cases:
  "clip (getBBox c) b = Box2I_empty
   \<or> (\<not> isEmpty (clip (getBBox c) b) \<and> contains (getBBox c) (clip (getBBox c) b)
        \<and> contains b (clip (getBBox c) b))"
  using getBBox_cases [of c]
  by (auto simp: clip_def Let_def contains_def isEmpty_def)

lemma contains_empty [simp]: "contains b Box2I_empty"
  by (simp add: contains_def)

lemma clip_contained:
  "contains (getBBox c) (clip (getBBox c) b)" "contains b (clip (getBBox c) b)"
  using clip_getBBox_cases [of c b] by auto

lemma subImage_ok:
  assumes "contains (getBBox img) b"
  shows "subImage img b = Inr (projr (subImage img b))"
    and "getWidth (projr (subImage img b)) = getMaxX b - getMinX b + 1"
    and "getHeight (projr (subImage img b)) = getMaxY b - getMinY b + 1"
    and "pixel (projr (subImage img b)) j i
           = pixel_at img (pixel img) (j + getMinX b, i + getMinY b)"
    and "variancePlane (projr (subImage img b))
           = map_option (\<lambda>v j i. pixel_at img v (j + getMinX b, i + getMinY b)) (variancePlane img)"
  using assms by (simp_all add: subImage_def Let_def pixel_at_def algebra_simps)

lemma getBBox_subImage:
  assumes "subImage c b = Inr sub" "b = Box2I_empty \<or> \<not> isEmpty b"
  shows "getBBox sub = b"
  using assms
  by (auto simp: subImage_def Let_def getBBox_def isEmpty_def Box2I_empty_def split: if_splits)

text \<open>
  C4.  When the shifted coefficient image is not contained in the bounding box of the
  image, \<open>computeSincFlux\<close> sets \<open>SINC_COEFFS_TRUNCATED\<close>.  If the overlap of the
  two boxes does not contain the bounding box of the ellipse, it also sets
  \<open>APERTURE_TRUNCATED\<close> and the failure flag and returns the default flux and error.
  If the overlap does contain it, these two flags stay clear and the flux is the sum over
  the pixels of the overlap of pixel times coefficient (and for a masked image the error
  is the square root of the sum of variance times coefficient squared); no exception is
  thrown in either case.
\<close>

theorem computeSincFlux_truncation:
  assumes "\<not> contains (getBBox img) (getBBox (ellipse_sincCoeffs ellipse (shiftKernel ctrl)))"
  shows "let cImage = ellipse_sincCoeffs ellipse (shiftKernel ctrl);
             overlap = clip (getBBox cImage) (getBBox img)
         in (\<not> contains overlap (ellipse_BBox ellipse) \<longrightarrow>
               computeSincFlux img ellipse ctrl
                 = Inr (Result_default\<lparr>apFlags :=
                     {SINC_COEFFS_TRUNCATED, APERTURE_TRUNCATED, AP_FAILURE}\<rparr>))
          \<and> (contains overlap (ellipse_BBox ellipse) \<longrightarrow>
               (\<exists>r. computeSincFlux img ellipse ctrl = Inr r
                  \<and> apFlags r = {SINC_COEFFS_TRUNCATED}
                  \<and> instFlux r
                      = fsum (map (\<lambda>p. pixel_at img (pixel img) p * pixel_at cImage (pixel cImage) p)
                          (box_pixels overlap))
                  \<and> (\<forall>v. variancePlane img = Some v \<longrightarrow>
                        instFluxErr r
                          = fsqrt (fsum (map (\<lambda>p. pixel_at img v p
                                * (pixel_at cImage (pixel cImage) p * pixel_at cImage (pixel cImage) p))
                              (box_pixels overlap))))))"
proof -
  define cImage where "cImage = ellipse_sincCoeffs ellipse (shiftKernel ctrl)"
  define overlap where "overlap = clip (getBBox cImage) (getBBox img)"
  have nc: "\<not> contains (getBBox img) (getBBox cImage)"
    using assms by (simp add: cImage_def)
  have ov: "overlap = Box2I_empty \<or> \<not> isEmpty overlap"
    using clip_getBBox_cases [of cImage "getBBox img"] by (auto simp: overlap_def)
  have c1: "contains (getBBox cImage) overlap" and c2: "contains (getBBox img) overlap"
    using clip_contained [where c = cImage and b = "getBBox img"] by (simp_all add: overlap_def)
  define cI where "cI = projr (subImage cImage overlap)"
  define sub where "sub = projr (subImage img overlap)"
  note cI = subImage_ok(1) [OF c1, folded cI_def]
    and cI_p = subImage_ok(4) [OF c1, folded cI_def]
  note sub = subImage_ok(1) [OF c2, folded sub_def]
    and sub_w = subImage_ok(2) [OF c2, folded sub_def]
    and sub_h = subImage_ok(3) [OF c2, folded sub_def]
    and sub_p = subImage_ok(4) [OF c2, folded sub_def]
    and sub_v = subImage_ok(5) [OF c2, folded sub_def]
  have bb: "getBBox cI = overlap"
    using cI ov by (rule getBBox_subImage)
  have coeffs: "getSincCoeffs (getBBox img) ellipse Result_default ctrl
      = Inr (cI, if \<not> contains overlap (ellipse_BBox ellipse)
                 then Result_default\<lparr>apFlags :=
                     {SINC_COEFFS_TRUNCATED, APERTURE_TRUNCATED, AP_FAILURE}\<rparr>
                 else Result_default\<lparr>apFlags := {SINC_COEFFS_TRUNCATED}\<rparr>)"
    using nc cI
    by (auto simp: getSincCoeffs_def Let_def cImage_def [symmetric] overlap_def [symmetric]
        setApFlag_def Result_default_def)
  have flux: "array_sum (getWidth sub) (getHeight sub) (\<lambda>j i. pixel sub j i * pixel cI j i)
      = fsum (map (\<lambda>p. pixel_at img (pixel img) p * pixel_at cImage (pixel cImage) p)
          (box_pixels overlap))"
    unfolding sub_w sub_h sub_p cI_p
    by (rule array_sum_box [of overlap
          "\<lambda>p. pixel_at img (pixel img) p * pixel_at cImage (pixel cImage) p"])
  have part1: "computeSincFlux img ellipse ctrl
                 = Inr (Result_default\<lparr>apFlags :=
                     {SINC_COEFFS_TRUNCATED, APERTURE_TRUNCATED, AP_FAILURE}\<rparr>)"
    if "\<not> contains overlap (ellipse_BBox ellipse)"
    using that by (simp add: computeSincFlux_def coeffs getApFlag_def)
  have part2: "\<exists>r. computeSincFlux img ellipse ctrl = Inr r
                  \<and> apFlags r = {SINC_COEFFS_TRUNCATED}
                  \<and> instFlux r
                      = fsum (map (\<lambda>p. pixel_at img (pixel img) p * pixel_at cImage (pixel cImage) p)
                          (box_pixels overlap))
                  \<and> (\<forall>v. variancePlane img = Some v \<longrightarrow>
                        instFluxErr r
                          = fsqrt (fsum (map (\<lambda>p. pixel_at img v p
                                * (pixel_at cImage (pixel cImage) p * pixel_at cImage (pixel cImage) p))
                              (box_pixels overlap))))"
    if c: "contains overlap (ellipse_BBox ellipse)"
  proof (cases "variancePlane img")
    case None
    with c sub sub_v show ?thesis
      by (simp add: computeSincFlux_def coeffs getApFlag_def bb Let_def flux)
  next
    case (Some v)
    define v' where "v' = (\<lambda>j i. pixel_at img v (j + getMinX overlap, i + getMinY overlap))"
    have v': "variancePlane sub = Some v'"
      by (simp add: sub_v Some v'_def)
    have err: "array_sum (getWidth sub) (getHeight sub)
          (\<lambda>j i. v' j i * (pixel cI j i * pixel cI j i))
        = fsum (map (\<lambda>p. pixel_at img v p
             * (pixel_at cImage (pixel cImage) p * pixel_at cImage (pixel cImage) p))
            (box_pixels overlap))"
      unfolding sub_w sub_h v'_def cI_p
      by (rule array_sum_box [of overlap "\<lambda>p. pixel_at img v p
             * (pixel_at cImage (pixel cImage) p * pixel_at cImage (pixel cImage) p)"])
    from c sub v' Some show ?thesis
      by (simp add: computeSincFlux_def coeffs getApFlag_def bb Let_def flux err)
  qed
  from part1 part2 show ?thesis
    by (simp add: Let_def cImage_def [symmetric] overlap_def [symmetric])
qed

theorem computeSincFlux_truncation_witness:
  "\<not> contains (getBBox image_ramp)
       (getBBox (ellipse_sincCoeffs ellipse_edge (shiftKernel ApertureFluxControl_default)))
   \<and> contains (clip (getBBox (ellipse_sincCoeffs ellipse_edge
          (shiftKernel ApertureFluxControl_default))) (getBBox image_ramp))
        (ellipse_BBox ellipse_edge)
   \<and> (case computeSincFlux image_ramp ellipse_edge ApertureFluxControl_default of
         Inl e \<Rightarrow> False
       | Inr r \<Rightarrow> apFlags r = {SINC_COEFFS_TRUNCATED} \<and> instFlux r = Fin (21 / 8))
   \<and> \<not> contains (getBBox image_ramp)
       (getBBox (ellipse_sincCoeffs ellipse_outside (shiftKernel ApertureFluxControl_default)))
   \<and> \<not> contains (clip (getBBox (ellipse_sincCoeffs ellipse_outside
          (shiftKernel ApertureFluxControl_default))) (getBBox image_ramp))
        (ellipse_BBox ellipse_outside)
   \<and> computeSincFlux image_ramp ellipse_outside ApertureFluxControl_default
        = Inr (Result_default\<lparr>apFlags :=
            {SINC_COEFFS_TRUNCATED, APERTURE_TRUNCATED, AP_FAILURE}\<rparr>)"
proof -
  have bi: "getBBox image_ramp = \<lparr>getMinX = 0, getMinY = 0, getMaxX = 2, getMaxY = 2\<rparr>"
    by (simp add: getBBox_def image_ramp_def)
  have be: "getBBox (ellipse_sincCoeffs ellipse_edge (shiftKernel ApertureFluxControl_default))
      = \<lparr>getMinX = - 1, getMinY = 0, getMaxX = 1, getMaxY = 2\<rparr>"
    by (simp add: getBBox_def ellipse_edge_def)
  have bo: "getBBox (ellipse_sincCoeffs ellipse_outside (shiftKernel ApertureFluxControl_default))
      = \<lparr>getMinX = - 2, getMinY = 0, getMaxX = 0, getMaxY = 2\<rparr>"
    by (simp add: getBBox_def ellipse_outside_def)
  have ce: "clip \<lparr>getMinX = - 1, getMinY = 0, getMaxX = 1, getMaxY = 2\<rparr>
              \<lparr>getMinX = 0, getMinY = 0, getMaxX = 2, getMaxY = 2\<rparr>
            = \<lparr>getMinX = 0, getMinY = 0, getMaxX = 1, getMaxY = 2\<rparr>"
    by (simp add: clip_def isEmpty_def Let_def)
  have co: "clip \<lparr>getMinX = - 2, getMinY = 0, getMaxX = 0, getMaxY = 2\<rparr>
              \<lparr>getMinX = 0, getMinY = 0, getMaxX = 2, getMaxY = 2\<rparr>
            = \<lparr>getMinX = 0, getMinY = 0, getMaxX = 0, getMaxY = 2\<rparr>"
    by (simp add: clip_def isEmpty_def Let_def)
  have h1: "\<not> contains (getBBox image_ramp)
       (getBBox (ellipse_sincCoeffs ellipse_edge (shiftKernel ApertureFluxControl_default)))"
    unfolding bi be by (simp add: contains_def isEmpty_def)
  have h2: "contains (clip (getBBox (ellipse_sincCoeffs ellipse_edge
          (shiftKernel ApertureFluxControl_default))) (getBBox image_ramp))
        (ellipse_BBox ellipse_edge)"
    unfolding bi be ce by (simp add: contains_def isEmpty_def ellipse_edge_def)
  have h3: "\<not> contains (getBBox image_ramp)
       (getBBox (ellipse_sincCoeffs ellipse_outside (shiftKernel ApertureFluxControl_default)))"
    unfolding bi bo by (simp add: contains_def isEmpty_def)
  have h4: "\<not> contains (clip (getBBox (ellipse_sincCoeffs ellipse_outside
          (shiftKernel ApertureFluxControl_default))) (getBBox image_ramp))
        (ellipse_BBox ellipse_outside)"
    unfolding bi bo co by (simp add: contains_def isEmpty_def ellipse_outside_def)
  have px: "box_pixels \<lparr>getMinX = 0, getMinY = 0, getMaxX = 1, getMaxY = 2\<rparr>
      = [(0, 0), (1, 0), (0, 1), (1, 1), (0, 2), (1, 2)]"
    by (simp add: box_pixels_def upto.simps)
  have fl: "fsum (map (\<lambda>p. pixel_at image_ramp (pixel image_ramp) p
        * pixel_at (ellipse_sincCoeffs ellipse_edge (shiftKernel ApertureFluxControl_default))
            (pixel (ellipse_sincCoeffs ellipse_edge (shiftKernel ApertureFluxControl_default))) p)
      [(0, 0), (1, 0), (0, 1), (1, 1), (0, 2), (1, 2)]) = Fin (21 / 8)"
    by (simp add: pixel_at_def image_ramp_def ellipse_edge_def)
  note t1 = computeSincFlux_truncation [OF h1, unfolded Let_def, THEN conjunct2, THEN mp, OF h2]
  then obtain r where r: "computeSincFlux image_ramp ellipse_edge ApertureFluxControl_default = Inr r"
    "apFlags r = {SINC_COEFFS_TRUNCATED}"
    "instFlux r = fsum (map (\<lambda>p. pixel_at image_ramp (pixel image_ramp) p
        * pixel_at (ellipse_sincCoeffs ellipse_edge (shiftKernel ApertureFluxControl_default))
            (pixel (ellipse_sincCoeffs ellipse_edge (shiftKernel ApertureFluxControl_default))) p)
      (box_pixels (clip (getBBox (ellipse_sincCoeffs ellipse_edge
          (shiftKernel ApertureFluxControl_default))) (getBBox image_ramp))))"
    by (elim exE conjE)
  have r3: "instFlux r = Fin (21 / 8)"
    using r(3) unfolding bi be ce px fl .
  note t2 = computeSincFlux_truncation [OF h3, unfolded Let_def, THEN conjunct1, THEN mp, OF h4]
  show ?thesis
    using h1 h2 h3 h4 t2 r(1,2) r3 by simp
qed

subsection \<open>Invariants of the loop\<close>

lemma float_epsilon_pos: "0 < float_epsilon"
  by (simp add: float_epsilon_def)

lemma calcmom_some_iff:
  "(\<exists>r. calcmom L fluxOnly img xcen ycen bbox bkgd interpflag w11 w12 w22 I0 out psum psums4 = Some r)
     = (Fin 0 \<le> w11)"
  by (simp add: calcmom_def Let_def)

lemma getWeights_w11_nonneg:
  assumes "fst (fst (getWeights L sigma11 sigma12 sigma22 careful))" "Fin 0 < sigma22"
  shows "Fin 0 \<le> fst (snd (getWeights L sigma11 sigma12 sigma22 careful))"
proof -
  from assms(1) obtain s11 s12 s22 where v: "sigma22 = Fin s22"
    and d: "float_epsilon \<le> s11 * s22 - s12 * s12"
    and w: "getWeights L sigma11 sigma12 sigma22 careful =
       ((True, Fin (s11 * s22 - s12 * s12)), Fin (s22 / (s11 * s22 - s12 * s12)),
        Fin (- s12 / (s11 * s22 - s12 * s12)), Fin (s11 / (s11 * s22 - s12 * s12)))"
    by (rule getWeights_ok_values)
  from d float_epsilon_pos have "0 < s11 * s22 - s12 * s12" by linarith
  moreover from w have "fst (snd (getWeights L sigma11 sigma12 sigma22 careful))
      = Fin (s22 / (s11 * s22 - s12 * s12))" by simp
  moreover from assms(2) v have "0 < s22" by simp
  ultimately show ?thesis by simp
qed

lemma update_weights_w11:
  assumes "loop_inv s" "fst (fst (getWeights L (v_sigma11W s) (v_sigma12W s) (v_sigma22W s) True))"
  shows "Fin 0 \<le> v_w11 (update_weights (getWeights L (v_sigma11W s) (v_sigma12W s) (v_sigma22W s) True) s)"
proof -
  from assms(1) have "Fin 0 < v_sigma22W s" by (simp add: loop_inv_def sigma_ok_def)
  with assms(2) have "Fin 0 \<le> fst (snd (getWeights L (v_sigma11W s) (v_sigma12W s) (v_sigma22W s) True))"
    by (rule getWeights_w11_nonneg)
  with assms(1) show ?thesis
    by (auto simp: update_weights_def Let_def loop_inv_def)
qed

lemma update_weights_frame:
  "v_sigma11W (update_weights w s) = v_sigma11W s"
  "v_sigma12W (update_weights w s) = v_sigma12W s"
  "v_sigma22W (update_weights w s) = v_sigma22W s"
  "v_shape (update_weights w s) = v_shape s"
  "v_iter s - 1 \<le> v_iter (update_weights w s)"
  "0 \<le> v_iter s \<Longrightarrow> 0 \<le> v_iter (update_weights w s)"
  by (simp_all add: update_weights_def Let_def)

lemma getWeights_inverse_ok:
  assumes "fst (fst (getWeights L n11 n12 n22 careful))"
    "\<not> fst (snd (getWeights L n11 n12 n22 careful)) \<le> Fin 0"
    "\<not> snd (snd (snd (getWeights L n11 n12 n22 careful))) \<le> Fin 0"
  shows "Fin 0 < fst (snd (getWeights L n11 n12 n22 careful))"
    and "Fin 0 < snd (snd (snd (getWeights L n11 n12 n22 careful)))"
    and "fst (snd (snd (getWeights L n11 n12 n22 careful)))
           * fst (snd (snd (getWeights L n11 n12 n22 careful)))
         < fst (snd (getWeights L n11 n12 n22 careful))
           * snd (snd (snd (getWeights L n11 n12 n22 careful)))"
proof -
  from assms(1) obtain s11 s12 s22 where
    d: "float_epsilon \<le> s11 * s22 - s12 * s12"
    and w: "getWeights L n11 n12 n22 careful =
       ((True, Fin (s11 * s22 - s12 * s12)), Fin (s22 / (s11 * s22 - s12 * s12)),
        Fin (- s12 / (s11 * s22 - s12 * s12)), Fin (s11 / (s11 * s22 - s12 * s12)))"
    by (rule getWeights_ok_values)
  define D where "D = s11 * s22 - s12 * s12"
  from d float_epsilon_pos have D: "0 < D" unfolding D_def by linarith
  have "(s22 / D) * (s11 / D) - (- s12 / D) * (- s12 / D) = (s11 * s22 - s12 * s12) / (D * D)"
    using D by (simp add: field_simps)
  also have "\<dots> = 1 / D" using D by (simp add: D_def [symmetric])
  finally have "(- s12 / D) * (- s12 / D) < (s22 / D) * (s11 / D)"
    using D by (smt (verit) divide_pos_pos zero_less_one)
  then show "fst (snd (snd (getWeights L n11 n12 n22 careful)))
           * fst (snd (snd (getWeights L n11 n12 n22 careful)))
         < fst (snd (getWeights L n11 n12 n22 careful))
           * snd (snd (snd (getWeights L n11 n12 n22 careful)))"
    by (simp add: w D_def [symmetric])
  from assms(2) show "Fin 0 < fst (snd (getWeights L n11 n12 n22 careful))"
    by (simp add: w)
  from assms(3) show "Fin 0 < snd (snd (snd (getWeights L n11 n12 n22 careful)))"
    by (simp add: w)
qed

lemma update_shape_results:
  "(case update_shape L xcen0 ycen0 shiftmax tol1 tol2 s of
      Continue s' \<Rightarrow> sigma_ok s' \<and> v_iter s' = v_iter s \<and> v_w11 s' = v_w11 s
    | Break s' \<Rightarrow> getFlag (v_shape s') UNWEIGHTED
        \<or> (v_sigma11W s' = v_sigma11W s \<and> v_sigma12W s' = v_sigma12W s
            \<and> v_sigma22W s' = v_sigma22W s)
    | Abort \<Rightarrow> False)"
  by (auto simp: update_shape_def Let_def unweighted_def setFlag_def getFlag_def sigma_ok_def
      split: if_splits intro: getWeights_inverse_ok)


lemma amom_body_results:
  assumes inv: "loop_inv s"
  shows "case amom_body L img bkgd xcen ycen shiftmax tol1 tol2 s of
           Continue s' \<Rightarrow> loop_inv (s'\<lparr>v_iter := v_iter s' + 1\<rparr>)
         | Break s' \<Rightarrow> getFlag (v_shape s') UNWEIGHTED \<or> sigma_ok s'
         | Abort \<Rightarrow> False"
proof -
  define s1 where "s1 = s\<lparr>v_bbox := set_amom_bbox (getWidth img) (getHeight img) xcen ycen
                   (v_sigma11W s) (v_sigma12W s) (v_sigma22W s) (Fin 1000)\<rparr>"
  define weights where "weights = getWeights L (v_sigma11W s1) (v_sigma12W s1) (v_sigma22W s1) True"
  define s2 where "s2 = update_weights weights s1"
  have inv1: "loop_inv s1"
    using inv by (simp add: s1_def loop_inv_def sigma_ok_def)
  have ok2: "sigma_ok s2"
    using inv1 by (simp add: s2_def sigma_ok_def update_weights_frame loop_inv_def)
  show ?thesis
  proof (cases "fst (fst weights)")
    case False
    then show ?thesis
      by (simp add: amom_body_def Let_def s1_def [symmetric] weights_def [symmetric]
          unweighted_def setFlag_def getFlag_def)
  next
    case True
    with inv1 have w11: "Fin 0 \<le> v_w11 s2"
      unfolding s2_def weights_def by (intro update_weights_w11)
    then obtain rc I0' sums' where c: "calcmom L False img xcen ycen (v_bbox s2) bkgd
        (v_interpflag s2) (v_w11 s2) (v_w12 s2) (v_w22 s2) (v_I0 s2) (v_sums s2) True True
        = Some (rc, I0', sums')"
      using calcmom_some_iff [of L False img xcen ycen "v_bbox s2" bkgd "v_interpflag s2"
          "v_w11 s2" "v_w12 s2" "v_w22 s2" "v_I0 s2" "v_sums s2" True True]
      by auto
    define s3 where "s3 = s2\<lparr>v_I0 := I0', v_sums := sums'\<rparr>"
    have body: "amom_body L img bkgd xcen ycen shiftmax tol1 tol2 s
        = (if rc < 0 then Break (unweighted s3)
           else update_shape L xcen ycen shiftmax tol1 tol2 s3)"
      using True c
      by (simp add: amom_body_def Let_def s1_def [symmetric] weights_def [symmetric]
          s2_def [symmetric] s3_def [symmetric])
    have ok3: "sigma_ok s3" "v_w11 s3 = v_w11 s2"
      using ok2 by (simp_all add: s3_def sigma_ok_def)
    show ?thesis
    proof (cases "rc < 0")
      case True
      then show ?thesis
        by (simp add: body unweighted_def setFlag_def getFlag_def)
    next
      case False
      with update_shape_results [where s = s3 and L = L and ?xcen0.0 = xcen and ?ycen0.0 = ycen
          and shiftmax = shiftmax and ?tol1.0 = tol1 and ?tol2.0 = tol2] ok3 w11
      show ?thesis
        by (auto simp: body loop_inv_def sigma_ok_def split: flow.splits)
    qed
  qed
qed

lemma amom_loop_results:
  assumes "loop_inv s"
  shows "\<exists>s'. amom_loop L img bkgd xcen ycen shiftmax maxIter tol1 tol2 s = Some s'
           \<and> (getFlag (v_shape s') UNWEIGHTED \<or> sigma_ok s')"
  using assms
proof (induction L img bkgd xcen ycen shiftmax maxIter tol1 tol2 s rule: amom_loop.induct)
  case (1 L img bkgd xcen ycen shiftmax maxIter tol1 tol2 s)
  show ?case
  proof (cases "v_iter s < maxIter")
    case False
    with "1.prems" show ?thesis
      by (subst amom_loop.simps) (simp add: loop_inv_def)
  next
    case True
    note b = amom_body_results [OF "1.prems", where L = L and img = img and bkgd = bkgd
        and xcen = xcen and ycen = ycen and shiftmax = shiftmax and ?tol1.0 = tol1
        and ?tol2.0 = tol2]
    show ?thesis
    proof (cases "amom_body L img bkgd xcen ycen shiftmax tol1 tol2 s")
      case (Continue s')
      with b have "loop_inv (s'\<lparr>v_iter := v_iter s' + 1\<rparr>)" by simp
      with "1.IH" [OF True Continue] Continue True show ?thesis
        by (subst amom_loop.simps) simp
    next
      case (Break s')
      with b True show ?thesis
        by (subst amom_loop.simps) simp
    next
      case Abort
      with b show ?thesis by simp
    qed
  qed
qed

lemma loop_inv_init: "loop_inv (amom_init garbage shape)"
  by (simp add: loop_inv_def sigma_ok_def amom_init_def)

lemma amom_store_not_aborted:
  "fst (amom_store L mimage xcen ycen I0 m sigma11W sigma12W sigma22W shape) \<noteq> Aborted"
  by (simp add: amom_store_def Let_def split: sum.splits)

lemma calcmom_unweighted_some:
  "\<exists>rc I0' m. calcmom_unweighted L mimage bkgd xcen ycen s = Some (rc, I0', m)"
  using calcmom_some_iff [of L False mimage xcen ycen "v_bbox s" bkgd "v_interpflag s"
      "Fin 0" "Fin 0" "Fin 0" "v_I0 s" "v_sums s" True False]
  by (auto simp: calcmom_unweighted_def)

lemma amom_finish_not_aborted:
  "fst (amom_finish L mimage bkgd xcen ycen maxIter s) \<noteq> Aborted"
  using calcmom_unweighted_some [of L mimage bkgd xcen ycen s]
  by (auto simp: amom_finish_def Let_def amom_store_not_aborted split: if_splits)

lemma getAdaptiveMoments_not_aborted:
  "fst (getAdaptiveMoments L garbage mimage bkgd xcen ycen shiftmax shape maxIter tol1 tol2)
     \<noteq> Aborted"
proof (cases "isnan xcen \<or> isnan ycen")
  case True
  then show ?thesis by (auto simp: getAdaptiveMoments_def)
next
  case False
  from amom_loop_results [OF loop_inv_init]
  obtain s' where "amom_loop L mimage bkgd xcen ycen shiftmax maxIter tol1 tol2
      (amom_init garbage shape) = Some s'" by blast
  with False show ?thesis
    by (simp add: getAdaptiveMoments_def amom_finish_not_aborted)
qed

lemma apply_MaskedImage_total:
  "\<exists>result. apply_MaskedImage L garbage shapeImpl0 mimage center control = Some result"
proof -
  obtain out shapeImpl where a: "apply_solver L garbage shapeImpl0 mimage center control
      = (out, shapeImpl)"
    by (cases "apply_solver L garbage shapeImpl0 mimage center control")
  have "fst (apply_solver L garbage shapeImpl0 mimage center control) \<noteq> Aborted"
    by (simp add: apply_solver_def Let_def getAdaptiveMoments_not_aborted)
  with a have "out \<noteq> Aborted" by simp
  with a show ?thesis
    by (cases out) (simp_all add: apply_MaskedImage_def)
qed

lemma apply_measurement_total:
  "variancePlane mimage \<noteq> None \<Longrightarrow>
     \<exists>result. apply_measurement L garbage shapeImpl0 mimage center control = Some (Inr result)"
  using apply_MaskedImage_total [of L garbage shapeImpl0 mimage center control]
  by (auto simp: apply_measurement_def)

lemma apply_measurement_plain:
  "variancePlane img = None \<Longrightarrow>
     apply_measurement L garbage shapeImpl0 img center control = Some (Inl LogicError)"
  by (simp add: apply_measurement_def apply_Image_def)

subsection \<open>The run on the image with three corners\<close>

lemma sqrt_3_2_bounds: "6 / 5 < sqrt (3 / 2)" "sqrt (3 / 2) < 13 / 10"
proof -
  show "6 / 5 < sqrt (3 / 2)" by (rule real_less_rsqrt) (simp add: power2_eq_square)
  show "sqrt (3 / 2) < 13 / 10" by (rule real_less_lsqrt) (simp_all add: power2_eq_square)
qed

lemma example_bbox:
  "set_amom_bbox 6 6 (Fin 0) (Fin 0) (Fin (3 / 2)) (Fin 0) (Fin (3 / 2)) (Fin 1000)
     = \<lparr>getMinX = 0, getMinY = 0, getMaxX = 5, getMaxY = 5\<rparr>"
proof -
  have f: "\<lfloor>4 * sqrt (3 / 2) + 1 / 2\<rfloor> = 5"
    using sqrt_3_2_bounds by (intro floor_unique) simp_all
  have c: "\<lceil>- (4 * sqrt (3 / 2)) - 1 / 2\<rceil> = - 5"
    using sqrt_3_2_bounds by (intro ceiling_unique) simp_all
  have lt: "4 * sqrt (3 / 2) < 1000" "\<not> 8 * sqrt (3 / 2) \<le> - 1"
    using sqrt_3_2_bounds by simp_all
  show ?thesis
    using lt by (simp add: set_amom_bbox_def Let_def Box2I_corners_def f c)
qed

lemma upto_0_5: "[0..5] = [0, 1, 2, 3, 4, 5::int]"
  by (simp add: upto.simps)

lemma example_calcmom_weighted:
  "calcmom lib_exact False image_corners (Fin 0) (Fin 0)
     \<lparr>getMinX = 0, getMinY = 0, getMaxX = 5, getMaxY = 5\<rparr> (Fin 0) False
     (Fin (2 / 3)) (Fin 0) (Fin (2 / 3)) I0 out True True
   = Some (- 1, Fin 0, moments_zero)"
  by (simp add: calcmom_def Let_def upto_0_5 calcmom_row_def calcmom_pixel_def accumulate_def
      image_corners_def lib_exact_def moments_zero_def getWeights_def float_epsilon_def)

lemma example_calcmom_unweighted:
  "calcmom lib_exact False image_corners (Fin 0) (Fin 0)
     \<lparr>getMinX = 0, getMinY = 0, getMaxX = 5, getMaxY = 5\<rparr> (Fin 0) False
     (Fin 0) (Fin 0) (Fin 0) I0 out True False
   = Some (0, NaN, \<lparr>sumw = Fin 1, sumx = Fin 10, sumy = Fin 10, sumxx = Fin 50,
        sumxy = Fin 75, sumyy = Fin 50, sums4 = sums4 out\<rparr>)"
  by (simp add: calcmom_def Let_def upto_0_5 calcmom_row_def calcmom_pixel_def accumulate_def
      image_corners_def lib_exact_def moments_zero_def getWeights_def float_epsilon_def)

lemma example_body:
  "amom_body lib_exact image_corners (Fin 0) (Fin 0) (Fin 0) shiftmax tol1 tol2
     (amom_init garbage shape_nan) = Break (example_locals garbage)"
proof -
  have w: "getWeights lib_exact (Fin (3 / 2)) (Fin 0) (Fin (3 / 2)) True
             = ((True, Fin (9 / 4)), Fin (2 / 3), Fin 0, Fin (2 / 3))"
    by (simp add: getWeights_def float_epsilon_def Let_def)
  have g: "getWidth image_corners = 6" "getHeight image_corners = 6"
    by (simp_all add: image_corners_def)
  show ?thesis
    by (simp add: amom_body_def amom_init_def g example_bbox w update_weights_def
        shouldInterp_def Let_def example_calcmom_weighted unweighted_def setFlag_def
        example_locals_def shape_nan_def)
qed

lemma example_loop:
  "amom_loop lib_exact image_corners (Fin 0) (Fin 0) (Fin 0) shiftmax 100 tol1 tol2
     (amom_init garbage shape_nan) = Some (example_locals garbage)"
proof -
  have "v_iter (amom_init garbage shape_nan) < 100" by (simp add: amom_init_def)
  then show ?thesis
    by (subst amom_loop.simps) (simp add: example_body)
qed

lemma example_run:
  "getAdaptiveMoments lib_exact garbage image_corners (Fin 0) (Fin 0) (Fin 0) shiftmax shape_nan
     100 tol1 tol2
   = (Returned True, shape_nan\<lparr>getI0 := NaN, getIxx := Fin 50, getIxy := Fin 75,
        getIyy := Fin 50, getIxy4 := Fin 0, shapeFlags := {UNWEIGHTED}\<rparr>)"
proof -
  have f: "amom_flags 100 (example_locals garbage) = shape_nan\<lparr>shapeFlags := {UNWEIGHTED}\<rparr>"
    by (simp add: amom_flags_def example_locals_def amom_init_def moments_zero_def setFlag_def
        shape_nan_def)
  have u: "calcmom_unweighted lib_exact image_corners (Fin 0) (Fin 0) (Fin 0) (example_locals garbage)
     = Some (0, NaN, \<lparr>sumw = Fin 1, sumx = Fin 10, sumy = Fin 10, sumxx = Fin 50,
        sumxy = Fin 75, sumyy = Fin 50, sums4 = Fin 0\<rparr>)"
    by (simp add: calcmom_unweighted_def example_locals_def amom_init_def
        example_calcmom_unweighted moments_zero_def)
  have st: "amom_store lib_exact image_corners (Fin 0) (Fin 0) NaN
      \<lparr>sumw = Fin 1, sumx = Fin 10, sumy = Fin 10, sumxx = Fin 50,
        sumxy = Fin 75, sumyy = Fin 50, sums4 = Fin 0\<rparr> (Fin 50) (Fin 75) (Fin 50)
      (shape_nan\<lparr>shapeFlags := {UNWEIGHTED}\<rparr>)
    = (Returned True, shape_nan\<lparr>getI0 := NaN, getIxx := Fin 50, getIxy := Fin 75,
        getIyy := Fin 50, getIxy4 := Fin 0, shapeFlags := {UNWEIGHTED}\<rparr>)"
    by (simp add: amom_store_def Let_def fne_def getVariance_def image_corners_def shape_nan_def
        getFlag_def)
  have "getAdaptiveMoments lib_exact garbage image_corners (Fin 0) (Fin 0) (Fin 0) shiftmax
      shape_nan 100 tol1 tol2
    = amom_finish lib_exact image_corners (Fin 0) (Fin 0) (Fin 0) 100 (example_locals garbage)"
    by (simp add: getAdaptiveMoments_def example_loop)
  also have "\<dots> = (Returned True, shape_nan\<lparr>getI0 := NaN, getIxx := Fin 50, getIxy := Fin 75,
        getIyy := Fin 50, getIxy4 := Fin 0, shapeFlags := {UNWEIGHTED}\<rparr>)"
    by (simp add: amom_finish_def f u st getFlag_def Let_def)
  finally show ?thesis .
qed

subsection \<open>The run on the image with a cross\<close>

lemma sqrt_lower: "3 / 8 \<le> sqrt (3 / 4)" "3 / 8 \<le> sqrt (3 / 2)"
proof -
  show "3 / 8 \<le> sqrt (3 / 4)" by (rule real_le_rsqrt) (simp add: power2_eq_square)
  show "3 / 8 \<le> sqrt (3 / 2)" by (rule real_le_rsqrt) (simp add: power2_eq_square)
qed

lemma sqrt_upper: "sqrt (3 / 4) \<le> 2" "sqrt (3 / 2) \<le> 2"
proof -
  show "sqrt (3 / 4) \<le> 2" by (rule real_le_lsqrt) simp_all
  show "sqrt (3 / 2) \<le> 2" by (rule real_le_lsqrt) simp_all
qed

lemma cross_bbox:
  assumes "3 / 8 \<le> sqrt a" "sqrt a \<le> 2" "0 \<le> a"
  shows "set_amom_bbox 3 3 (Fin 1) (Fin 1) (Fin a) (Fin 0) (Fin a) (Fin 1000)
     = \<lparr>getMinX = 0, getMinY = 0, getMaxX = 2, getMaxY = 2\<rparr>"
proof -
  have c: "\<lceil>1 - 4 * sqrt a - 1 / 2\<rceil> \<le> 0"
    using assms by (simp add: ceiling_le_iff)
  have f: "3 \<le> \<lfloor>1 + 4 * sqrt a + 1 / 2\<rfloor>"
    using assms by (simp add: le_floor_iff)
  have n: "\<not> 0 \<le> 1 - 4 * sqrt a - 1 / 2" "0 \<le> 1 + 4 * sqrt a + 1 / 2" "\<not> 1000 < 4 * sqrt a"
    using assms by simp_all
  from assms(3) c f n show ?thesis
    by (auto simp add: set_amom_bbox_def Let_def Box2I_corners_def min_def max_def)
qed

lemma upto_0_2: "[0..2] = [0, 1, 2::int]"
  by (simp add: upto.simps)




lemma cross_weights:
  "getWeights lib_exact (Fin (3 / 2)) (Fin 0) (Fin (3 / 2)) True
     = ((True, Fin (9 / 4)), Fin (2 / 3), Fin 0, Fin (2 / 3))"
  "getWeights lib_exact (Fin (3 / 4)) (Fin 0) (Fin (3 / 4)) True
     = ((True, Fin (9 / 16)), Fin (4 / 3), Fin 0, Fin (4 / 3))"
  "getWeights lib_exact (Fin (1 / 2)) (Fin 0) (Fin (1 / 2)) True
     = ((True, Fin (1 / 4)), Fin 2, Fin 0, Fin 2)"
  "getWeights lib_exact (Fin (4 / 3)) (Fin 0) (Fin (4 / 3)) False
     = ((True, Fin (16 / 9)), Fin (3 / 4), Fin 0, Fin (3 / 4))"
  by (simp_all add: getWeights_def float_epsilon_def Let_def)







subsection \<open>The run on the image of zeros\<close>





subsection \<open>The end of the call\<close>

lemma amom_store_fields:
  "getIxx (snd (amom_store L mimage xcen ycen I0 m sigma11W sigma12W sigma22W shape)) = sigma11W"
  "getIxy (snd (amom_store L mimage xcen ycen I0 m sigma11W sigma12W sigma22W shape)) = sigma12W"
  "getIyy (snd (amom_store L mimage xcen ycen I0 m sigma11W sigma12W sigma22W shape)) = sigma22W"
  "shapeFlags (snd (amom_store L mimage xcen ycen I0 m sigma11W sigma12W sigma22W shape))
     = shapeFlags shape"
  by (simp_all add: amom_store_def Let_def split: sum.splits)

lemma amom_store_unweighted:
  assumes "getFlag shape UNWEIGHTED"
  shows "fst (amom_store L mimage xcen ycen I0 m sigma11W sigma12W sigma22W shape) = Returned True"
  using assms by (simp add: amom_store_def Let_def getFlag_def)



subsection \<open>The first part of a pass and the shift test\<close>

lemma amom_body_moments:
  "amom_body L img bkgd xcen ycen shiftmax tol1 tol2 s =
     (case amom_moments L img bkgd xcen ycen s of
        Continue s3 \<Rightarrow> update_shape L xcen ycen shiftmax tol1 tol2 s3
      | Break s' \<Rightarrow> Break s'
      | Abort \<Rightarrow> Abort)"
  by (simp add: amom_body_def amom_moments_def Let_def split: option.splits prod.splits)

lemma with_shift_idem [simp]: "with_shift (with_shift s) = with_shift s"
  by (simp add: with_shift_def setFlag_def)

lemma with_shift_fields [simp]:
  "v_I0 (with_shift s) = v_I0 s" "v_sums (with_shift s) = v_sums s"
  "v_sigma11W (with_shift s) = v_sigma11W s" "v_sigma12W (with_shift s) = v_sigma12W s"
  "v_sigma22W (with_shift s) = v_sigma22W s" "v_w11 (with_shift s) = v_w11 s"
  "v_w12 (with_shift s) = v_w12 s" "v_w22 (with_shift s) = v_w22 s"
  "v_e1_old (with_shift s) = v_e1_old s" "v_e2_old (with_shift s) = v_e2_old s"
  "v_sigma11_ow_old (with_shift s) = v_sigma11_ow_old s"
  "v_interpflag (with_shift s) = v_interpflag s" "v_bbox (with_shift s) = v_bbox s"
  "v_iter (with_shift s) = v_iter s"
  "v_shape (with_shift s) = setFlag SHIFT (v_shape s)"
  by (simp_all add: with_shift_def)

lemma update_shape_shifted:
  assumes "centroid_shifted xcen0 ycen0 shiftmax s"
  shows "update_shape L xcen0 ycen0 shiftmax tol1 tol2 s
           = map_flow with_shift (update_shape L xcen0 ycen0 shiftmax' tol1 tol2 s)"
  using assms
  by (auto simp: update_shape_def Let_def unweighted_def setFlag_def insert_commute
      centroid_shifted_def with_shift_def)

lemma update_shape_shift_indep:
  "map_flow with_shift (update_shape L xcen0 ycen0 shiftmax tol1 tol2 s)
     = map_flow with_shift (update_shape L xcen0 ycen0 shiftmax' tol1 tol2 s)"
  by (auto simp: update_shape_def Let_def unweighted_def setFlag_def insert_commute
      with_shift_def)

lemma update_shape_with_shift:
  "update_shape L xcen0 ycen0 shiftmax tol1 tol2 (with_shift s)
     = map_flow with_shift (update_shape L xcen0 ycen0 shiftmax tol1 tol2 s)"
  by (auto simp: update_shape_def Let_def unweighted_def setFlag_def insert_commute
      with_shift_def)

lemma update_weights_with_shift:
  "update_weights w (with_shift s) = with_shift (update_weights w s)"
  by (simp add: update_weights_def Let_def with_shift_def)

lemma with_shift_commute:
  "(with_shift s)\<lparr>v_bbox := b\<rparr> = with_shift (s\<lparr>v_bbox := b\<rparr>)"
  "(with_shift s)\<lparr>v_I0 := a, v_sums := m\<rparr> = with_shift (s\<lparr>v_I0 := a, v_sums := m\<rparr>)"
  "(with_shift s)\<lparr>v_iter := i\<rparr> = with_shift (s\<lparr>v_iter := i\<rparr>)"
  "unweighted (with_shift s) = with_shift (unweighted s)"
  by (simp_all add: with_shift_def unweighted_def setFlag_def insert_commute)

lemma amom_moments_with_shift:
  "amom_moments L img bkgd xcen ycen (with_shift s)
     = map_flow with_shift (amom_moments L img bkgd xcen ycen s)"
  by (simp add: amom_moments_def Let_def update_weights_with_shift with_shift_commute
      split: option.splits prod.splits)

lemma amom_body_with_shift:
  "amom_body L img bkgd xcen ycen shiftmax tol1 tol2 (with_shift s)
     = map_flow with_shift (amom_body L img bkgd xcen ycen shiftmax tol1 tol2 s)"
  by (simp add: amom_body_moments amom_moments_with_shift update_shape_with_shift
      split: flow.splits)

lemma amom_body_shift_indep:
  "map_flow with_shift (amom_body L img bkgd xcen ycen shiftmax tol1 tol2 s)
     = map_flow with_shift (amom_body L img bkgd xcen ycen shiftmax' tol1 tol2 s)"
  by (simp add: amom_body_moments update_shape_shift_indep split: flow.splits)

lemma with_shift_eq_iter: "with_shift s = with_shift t \<Longrightarrow> v_iter s = v_iter t"
  by (metis with_shift_fields(14))

lemma amom_loop_unfold:
  "v_iter s < maxIter \<Longrightarrow>
     amom_loop L img bkgd xcen ycen shiftmax maxIter tol1 tol2 s =
       (case amom_body L img bkgd xcen ycen shiftmax tol1 tol2 s of
          Continue s' \<Rightarrow>
            amom_loop L img bkgd xcen ycen shiftmax maxIter tol1 tol2 (s'\<lparr>v_iter := v_iter s' + 1\<rparr>)
        | Break s' \<Rightarrow> Some s'
        | Abort \<Rightarrow> None)"
  "\<not> v_iter s < maxIter \<Longrightarrow>
     amom_loop L img bkgd xcen ycen shiftmax maxIter tol1 tol2 s = Some s"
  by (subst amom_loop.simps, simp)+

lemma amom_loop_shift_indep:
  assumes "with_shift s = with_shift t"
  shows "map_option with_shift (amom_loop L img bkgd xcen ycen shiftmax maxIter tol1 tol2 s)
       = map_option with_shift (amom_loop L img bkgd xcen ycen shiftmax' maxIter tol1 tol2 t)"
  using assms
proof (induction L img bkgd xcen ycen shiftmax maxIter tol1 tol2 s arbitrary: t
    rule: amom_loop.induct)
  case (1 L img bkgd xcen ycen shiftmax maxIter tol1 tol2 s)
  from "1.prems" have it: "v_iter t = v_iter s" by (rule with_shift_eq_iter [symmetric])
  show ?case
  proof (cases "v_iter s < maxIter")
    case False
    with it have "\<not> v_iter t < maxIter" by simp
    with False "1.prems" show ?thesis
      by (simp add: amom_loop_unfold(2))
  next
    case True
    with it have Tt: "v_iter t < maxIter" by simp
    have "map_flow with_shift (amom_body L img bkgd xcen ycen shiftmax tol1 tol2 s)
        = amom_body L img bkgd xcen ycen shiftmax tol1 tol2 (with_shift s)"
      by (simp add: amom_body_with_shift)
    also have "\<dots> = map_flow with_shift (amom_body L img bkgd xcen ycen shiftmax tol1 tol2 t)"
      by (simp add: "1.prems" amom_body_with_shift)
    also have "\<dots> = map_flow with_shift (amom_body L img bkgd xcen ycen shiftmax' tol1 tol2 t)"
      by (rule amom_body_shift_indep)
    finally have b: "map_flow with_shift (amom_body L img bkgd xcen ycen shiftmax tol1 tol2 s)
        = map_flow with_shift (amom_body L img bkgd xcen ycen shiftmax' tol1 tol2 t)" .
    show ?thesis
    proof (cases "amom_body L img bkgd xcen ycen shiftmax tol1 tol2 s")
      case (Continue s')
      with b obtain t' where t': "amom_body L img bkgd xcen ycen shiftmax' tol1 tol2 t = Continue t'"
        and e: "with_shift s' = with_shift t'"
        by (cases "amom_body L img bkgd xcen ycen shiftmax' tol1 tol2 t") simp_all
      from e have e1: "with_shift (s'\<lparr>v_iter := v_iter s' + 1\<rparr>) = with_shift (t'\<lparr>v_iter := v_iter t' + 1\<rparr>)"
        by (simp add: with_shift_commute(3) [symmetric] with_shift_eq_iter [OF e])
      have "amom_loop L img bkgd xcen ycen shiftmax maxIter tol1 tol2 s
          = amom_loop L img bkgd xcen ycen shiftmax maxIter tol1 tol2 (s'\<lparr>v_iter := v_iter s' + 1\<rparr>)"
        by (simp add: amom_loop_unfold(1) [OF True] Continue)
      moreover have "amom_loop L img bkgd xcen ycen shiftmax' maxIter tol1 tol2 t
          = amom_loop L img bkgd xcen ycen shiftmax' maxIter tol1 tol2 (t'\<lparr>v_iter := v_iter t' + 1\<rparr>)"
        by (simp add: amom_loop_unfold(1) [OF Tt] t')
      ultimately show ?thesis
        using "1.IH" [OF True Continue e1] by simp
    next
      case (Break s')
      with b obtain t' where t': "amom_body L img bkgd xcen ycen shiftmax' tol1 tol2 t = Break t'"
        and e: "with_shift s' = with_shift t'"
        by (cases "amom_body L img bkgd xcen ycen shiftmax' tol1 tol2 t") simp_all
      then show ?thesis
        by (simp add: amom_loop_unfold(1) [OF True] amom_loop_unfold(1) [OF Tt] Break)
    next
      case Abort
      with b have "amom_body L img bkgd xcen ycen shiftmax' tol1 tol2 t = Abort"
        by (cases "amom_body L img bkgd xcen ycen shiftmax' tol1 tol2 t") simp_all
      then show ?thesis
        by (simp add: amom_loop_unfold(1) [OF True] amom_loop_unfold(1) [OF Tt] Abort)
    qed
  qed
qed

lemma amom_loop_with_shift:
  "amom_loop L img bkgd xcen ycen shiftmax maxIter tol1 tol2 (with_shift s)
     = map_option with_shift (amom_loop L img bkgd xcen ycen shiftmax maxIter tol1 tol2 s)"
proof (induction L img bkgd xcen ycen shiftmax maxIter tol1 tol2 s rule: amom_loop.induct)
  case (1 L img bkgd xcen ycen shiftmax maxIter tol1 tol2 s)
  show ?case
  proof (cases "v_iter s < maxIter")
    case False
    then have "\<not> v_iter (with_shift s) < maxIter" by simp
    with False show ?thesis
      by (simp add: amom_loop_unfold(2))
  next
    case True
    then have Tw: "v_iter (with_shift s) < maxIter" by simp
    show ?thesis
    proof (cases "amom_body L img bkgd xcen ycen shiftmax tol1 tol2 s")
      case (Continue s')
      from "1.IH" [OF True Continue] show ?thesis
        by (simp add: amom_loop_unfold(1) [OF True] amom_loop_unfold(1) [OF Tw] Continue
            amom_body_with_shift with_shift_commute(3))
    next
      case (Break s')
      then show ?thesis
        by (simp add: amom_loop_unfold(1) [OF True] amom_loop_unfold(1) [OF Tw]
            amom_body_with_shift)
    next
      case Abort
      then show ?thesis
        by (simp add: amom_loop_unfold(1) [OF True] amom_loop_unfold(1) [OF Tw]
            amom_body_with_shift)
    qed
  qed
qed

lemma with_shift_fixed: "getFlag (v_shape s) SHIFT \<Longrightarrow> with_shift s = s"
  by (simp add: with_shift_def setFlag_def getFlag_def insert_absorb)

lemma getFlag_setFlag: "getFlag (setFlag f sh) g = (g = f \<or> getFlag sh g)"
  by (simp add: getFlag_def setFlag_def)

lemma amom_loop_keeps_shift:
  assumes "getFlag (v_shape s) SHIFT"
    and "amom_loop L img bkgd xcen ycen shiftmax maxIter tol1 tol2 s = Some s'"
  shows "getFlag (v_shape s') SHIFT"
proof -
  from amom_loop_with_shift [of L img bkgd xcen ycen shiftmax maxIter tol1 tol2 s] assms
  have "s' = with_shift s'" by (simp add: with_shift_fixed)
  then have "v_shape s' = setFlag SHIFT (v_shape s')" by (metis with_shift_fields(15))
  then have "getFlag (v_shape s') SHIFT = getFlag (setFlag SHIFT (v_shape s')) SHIFT" by simp
  then show ?thesis by (simp add: getFlag_setFlag)
qed

lemma amom_flags_with_shift:
  "amom_flags maxIter (with_shift s) = setFlag SHIFT (amom_flags maxIter s)"
  by (simp add: amom_flags_def Let_def setFlag_def insert_commute)

lemma calcmom_unweighted_with_shift:
  "calcmom_unweighted L img bkgd xcen ycen (with_shift s) = calcmom_unweighted L img bkgd xcen ycen s"
  by (simp add: calcmom_unweighted_def)

lemma amom_store_setFlag:
  "amom_store L img xcen ycen I0 m a b c (setFlag SHIFT sh)
     = apsnd (setFlag SHIFT) (amom_store L img xcen ycen I0 m a b c sh)"
proof -
  have f: "calc_fisher (sh\<lparr>shapeFlags := insert SHIFT (shapeFlags sh), getI0 := I0, getIxx := a,
      getIxy := b, getIyy := c, getIxy4 := sums4 m / sumw m\<rparr>) v
    = calc_fisher (sh\<lparr>getI0 := I0, getIxx := a,
      getIxy := b, getIyy := c, getIxy4 := sums4 m / sumw m\<rparr>) v" for v
    by (simp add: calc_fisher_def)
  show ?thesis
    by (simp add: amom_store_def Let_def setFlag_def getFlag_def f split: sum.splits)
qed

lemma amom_finish_with_shift:
  "amom_finish L img bkgd xcen ycen maxIter (with_shift s)
     = apsnd (setFlag SHIFT) (amom_finish L img bkgd xcen ycen maxIter s)"
proof -
  have r: "setFlag UNWEIGHTED_BAD (resetFlag UNWEIGHTED (setFlag SHIFT sh))
      = setFlag SHIFT (setFlag UNWEIGHTED_BAD (resetFlag UNWEIGHTED sh))" for sh
  proof -
    have "insert UNWEIGHTED_BAD (insert SHIFT (shapeFlags sh) - {UNWEIGHTED})
        = insert SHIFT (insert UNWEIGHTED_BAD (shapeFlags sh - {UNWEIGHTED}))"
      by auto
    then show ?thesis by (simp add: setFlag_def resetFlag_def)
  qed
  have u: "(setFlag SHIFT sh)\<lparr>getIxx := a, getIxy := b, getIyy := c\<rparr>
      = setFlag SHIFT (sh\<lparr>getIxx := a, getIxy := b, getIyy := c\<rparr>)" for sh a b c
    by (simp add: setFlag_def)
  show ?thesis
    by (simp add: amom_finish_def Let_def amom_flags_with_shift calcmom_unweighted_with_shift
        amom_store_setFlag r u getFlag_setFlag split: option.splits prod.splits)
qed

lemma getAdaptiveMoments_shift_indep:
  "apsnd (setFlag SHIFT)
     (getAdaptiveMoments L garbage img bkgd xcen ycen shiftmax shape maxIter tol1 tol2)
   = apsnd (setFlag SHIFT)
     (getAdaptiveMoments L garbage img bkgd xcen ycen shiftmax' shape maxIter tol1 tol2)"
proof (cases "isnan xcen \<or> isnan ycen")
  case True
  then show ?thesis by (simp add: getAdaptiveMoments_def)
next
  case False
  have l: "map_option with_shift (amom_loop L img bkgd xcen ycen shiftmax maxIter tol1 tol2
        (amom_init garbage shape))
      = map_option with_shift (amom_loop L img bkgd xcen ycen shiftmax' maxIter tol1 tol2
        (amom_init garbage shape))"
    by (rule amom_loop_shift_indep) simp
  show ?thesis
  proof (cases "amom_loop L img bkgd xcen ycen shiftmax maxIter tol1 tol2 (amom_init garbage shape)")
    case None
    with l have "amom_loop L img bkgd xcen ycen shiftmax' maxIter tol1 tol2
        (amom_init garbage shape) = None" by simp
    with None False show ?thesis by (simp add: getAdaptiveMoments_def)
  next
    case (Some s)
    with l obtain t where t: "amom_loop L img bkgd xcen ycen shiftmax' maxIter tol1 tol2
        (amom_init garbage shape) = Some t" and e: "with_shift s = with_shift t"
      by (cases "amom_loop L img bkgd xcen ycen shiftmax' maxIter tol1 tol2
        (amom_init garbage shape)") simp_all
    have "apsnd (setFlag SHIFT) (amom_finish L img bkgd xcen ycen maxIter s)
        = apsnd (setFlag SHIFT) (amom_finish L img bkgd xcen ycen maxIter t)"
      unfolding amom_finish_with_shift [symmetric] e ..
    with Some t False show ?thesis by (simp add: getAdaptiveMoments_def)
  qed
qed

lemma amom_pass_loop:
  "amom_pass L img bkgd xcen ycen shiftmax maxIter tol1 tol2 n s0 = Some s \<Longrightarrow>
     amom_loop L img bkgd xcen ycen shiftmax maxIter tol1 tol2 s0
       = amom_loop L img bkgd xcen ycen shiftmax maxIter tol1 tol2 s
     \<and> v_iter s < maxIter"
proof (induction n arbitrary: s0)
  case 0
  then show ?case by (simp split: if_splits)
next
  case (Suc n)
  from Suc.prems have lt: "v_iter s0 < maxIter" by (simp split: if_splits)
  with Suc.prems obtain s1 where b: "amom_body L img bkgd xcen ycen shiftmax tol1 tol2 s0 = Continue s1"
    and p: "amom_pass L img bkgd xcen ycen shiftmax maxIter tol1 tol2 n (s1\<lparr>v_iter := v_iter s1 + 1\<rparr>)
        = Some s"
    by (simp split: flow.splits)
  from Suc.IH [OF p] b lt show ?case
    by (simp add: amom_loop_unfold(1))
qed

lemma update_shape_not_abort: "update_shape L xcen0 ycen0 shiftmax tol1 tol2 s \<noteq> Abort"
  using update_shape_results [where L = L and ?xcen0.0 = xcen0 and ?ycen0.0 = ycen0
      and shiftmax = shiftmax and ?tol1.0 = tol1 and ?tol2.0 = tol2 and s = s]
  by (cases "update_shape L xcen0 ycen0 shiftmax tol1 tol2 s") simp_all

lemma with_shift_has: "x = with_shift x \<Longrightarrow> getFlag (v_shape x) SHIFT"
  by (metis getFlag_setFlag with_shift_fields(15))

lemma shifted_body:
  assumes mom: "amom_moments L img bkgd xcen ycen s = Continue s3"
    and shifted: "centroid_shifted xcen ycen shiftmax s3"
  shows "amom_body L img bkgd xcen ycen shiftmax tol1 tol2 s
           = map_flow with_shift (amom_body L img bkgd xcen ycen shiftmax' tol1 tol2 s)"
    and "\<exists>t. (amom_body L img bkgd xcen ycen shiftmax tol1 tol2 s = Continue t
             \<or> amom_body L img bkgd xcen ycen shiftmax tol1 tol2 s = Break t)
            \<and> getFlag (v_shape t) SHIFT"
proof -
  show a: "amom_body L img bkgd xcen ycen shiftmax tol1 tol2 s
           = map_flow with_shift (amom_body L img bkgd xcen ycen shiftmax' tol1 tol2 s)"
    for shiftmax'
    by (simp add: amom_body_moments mom update_shape_shifted [OF shifted, of L tol1 tol2 shiftmax'])
  have n: "amom_body L img bkgd xcen ycen shiftmax tol1 tol2 s \<noteq> Abort"
    by (simp add: amom_body_moments mom update_shape_not_abort)
  show "\<exists>t. (amom_body L img bkgd xcen ycen shiftmax tol1 tol2 s = Continue t
             \<or> amom_body L img bkgd xcen ycen shiftmax tol1 tol2 s = Break t)
            \<and> getFlag (v_shape t) SHIFT"
    using a [of shiftmax] n
    by (cases "amom_body L img bkgd xcen ycen shiftmax tol1 tol2 s") (auto intro: with_shift_has)
qed

lemma amom_finish_keeps_shift:
  assumes "getFlag (v_shape s) SHIFT"
  shows "getFlag (snd (amom_finish L img bkgd xcen ycen maxIter s)) SHIFT"
proof -
  from assms have "with_shift s = s" by (rule with_shift_fixed)
  with amom_finish_with_shift [of L img bkgd xcen ycen maxIter s]
  have "amom_finish L img bkgd xcen ycen maxIter s
      = apsnd (setFlag SHIFT) (amom_finish L img bkgd xcen ycen maxIter s)" by simp
  then have "snd (amom_finish L img bkgd xcen ycen maxIter s)
      = setFlag SHIFT (snd (amom_finish L img bkgd xcen ycen maxIter s))"
    by (metis snd_apsnd)
  then have "getFlag (snd (amom_finish L img bkgd xcen ycen maxIter s)) SHIFT
      = getFlag (setFlag SHIFT (snd (amom_finish L img bkgd xcen ycen maxIter s))) SHIFT"
    by simp
  then show ?thesis by (simp add: getFlag_setFlag)
qed

lemma shifted_run:
  assumes pass: "amom_pass L img bkgd xcen ycen shiftmax maxIter tol1 tol2 n
                   (amom_init garbage shape) = Some s"
    and mom: "amom_moments L img bkgd xcen ycen s = Continue s3"
    and shifted: "centroid_shifted xcen ycen shiftmax s3"
    and nn: "\<not> isnan xcen" "\<not> isnan ycen"
  shows "getFlag (snd (getAdaptiveMoments L garbage img bkgd xcen ycen shiftmax shape maxIter
           tol1 tol2)) SHIFT"
proof -
  from amom_pass_loop [OF pass]
  have l: "amom_loop L img bkgd xcen ycen shiftmax maxIter tol1 tol2 (amom_init garbage shape)
       = amom_loop L img bkgd xcen ycen shiftmax maxIter tol1 tol2 s"
    and lt: "v_iter s < maxIter" by simp_all
  from amom_loop_results [OF loop_inv_init]
  obtain s' where s': "amom_loop L img bkgd xcen ycen shiftmax maxIter tol1 tol2
      (amom_init garbage shape) = Some s'" by blast
  from shifted_body(2) [OF mom shifted]
  obtain t where t: "amom_body L img bkgd xcen ycen shiftmax tol1 tol2 s = Continue t
             \<or> amom_body L img bkgd xcen ycen shiftmax tol1 tol2 s = Break t"
    and f: "getFlag (v_shape t) SHIFT" by blast
  have "getFlag (v_shape s') SHIFT"
  proof (cases "amom_body L img bkgd xcen ycen shiftmax tol1 tol2 s = Continue t")
    case True
    with s' l lt have "amom_loop L img bkgd xcen ycen shiftmax maxIter tol1 tol2
        (t\<lparr>v_iter := v_iter t + 1\<rparr>) = Some s'"
      by (simp add: amom_loop_unfold(1))
    moreover from f have "getFlag (v_shape (t\<lparr>v_iter := v_iter t + 1\<rparr>)) SHIFT" by simp
    ultimately show ?thesis by (rule amom_loop_keeps_shift [rotated])
  next
    case False
    with t have "amom_body L img bkgd xcen ycen shiftmax tol1 tol2 s = Break t" by simp
    with s' l lt have "s' = t" by (simp add: amom_loop_unfold(1))
    with f show ?thesis by simp
  qed
  then have "getFlag (snd (amom_finish L img bkgd xcen ycen maxIter s')) SHIFT"
    by (rule amom_finish_keeps_shift)
  with nn s' show ?thesis by (simp add: getAdaptiveMoments_def)
qed

lemma apply_MaskedImage_flags:
  assumes "apply_MaskedImage L garbage shapeImpl0 mimage center control = Some result"
  shows "r_flags result ! result_flag f
           = getFlag (snd (apply_solver L garbage shapeImpl0 mimage center control)) f"
    and "getFlag (snd (apply_solver L garbage shapeImpl0 mimage center control)) f
           \<Longrightarrow> r_flags result ! FAILURE"
proof -
  obtain out shapeImpl where so: "apply_solver L garbage shapeImpl0 mimage center control = (out, shapeImpl)"
    by (cases "apply_solver L garbage shapeImpl0 mimage center control")
  define result1 where "result1 = (case out of
                          Threw e \<Rightarrow> SdssShapeResult_default\<lparr>r_flags := (r_flags SdssShapeResult_default)[FAILURE := True]\<rparr>
                        | _ \<Rightarrow> SdssShapeResult_default)"
  define result2 where "result2 = result1\<lparr>r_x := getX shapeImpl + Fin (of_int (getX0 mimage)),
                         r_y := getY shapeImpl + Fin (of_int (getY0 mimage)),
                         r_xSigma := getXErr L shapeImpl, r_ySigma := getYErr L shapeImpl,
                         r_xx := getIxx shapeImpl, r_yy := getIyy shapeImpl,
                         r_xy := getIxy shapeImpl, r_xxSigma := getIxxErr L shapeImpl,
                         r_yySigma := getIyyErr L shapeImpl,
                         r_xySigma := getIxyErr L shapeImpl\<rparr>"
  have res: "result = foldl (copy_flag shapeImpl) result2 [0..<N_FLAGS_Impl]"
    using assms so by (cases out) (simp_all add: apply_MaskedImage_def Let_def result1_def result2_def)
  have len: "length (r_flags result2) = 5"
    by (cases out) (simp_all add: result1_def result2_def SdssShapeResult_default_def FAILURE_def)
  have clear: "\<not> r_flags result2 ! result_flag f" for f
    by (cases out; cases f) (simp_all add: result1_def result2_def SdssShapeResult_default_def FAILURE_def)
  show "r_flags result ! result_flag f
           = getFlag (snd (apply_solver L garbage shapeImpl0 mimage center control)) f"
    by (simp add: res copy_flags_index[OF len] clear so)
  show "getFlag (snd (apply_solver L garbage shapeImpl0 mimage center control)) f
           \<Longrightarrow> r_flags result ! FAILURE"
    unfolding so by (auto simp add: res copy_flags_failure[OF len])
qed

subsection \<open>The run on the image with one far pixel\<close>

lemma far_bbox:
  "set_amom_bbox 4 4 (Fin 0) (Fin 0) (Fin (3 / 2)) (Fin 0) (Fin (3 / 2)) (Fin 1000)
     = \<lparr>getMinX = 0, getMinY = 0, getMaxX = 3, getMaxY = 3\<rparr>"
proof -
  have f: "\<lfloor>4 * sqrt (3 / 2) + 1 / 2\<rfloor> = 5"
    using sqrt_3_2_bounds by (intro floor_unique) simp_all
  have c: "\<lceil>- (4 * sqrt (3 / 2)) - 1 / 2\<rceil> = - 5"
    using sqrt_3_2_bounds by (intro ceiling_unique) simp_all
  have lt: "4 * sqrt (3 / 2) < 1000" "\<not> 8 * sqrt (3 / 2) \<le> - 1"
    using sqrt_3_2_bounds by simp_all
  show ?thesis
    using lt by (simp add: set_amom_bbox_def Let_def Box2I_corners_def f c)
qed

lemma upto_0_3: "[0..3] = [0, 1, 2, 3::int]"
  by (simp add: upto.simps)

lemma far_calcmom_weighted:
  "calcmom lib_exact False image_far (Fin 0) (Fin 0)
     \<lparr>getMinX = 0, getMinY = 0, getMaxX = 3, getMaxY = 3\<rparr> (Fin 0) False
     (Fin (2 / 3)) (Fin 0) (Fin (2 / 3)) I0 out True True
   = Some (0, Fin (exp (- 6) / (pi * sqrt (9 / 4))),
       \<lparr>sumw = Fin (exp (- 6)), sumx = Fin (3 * exp (- 6)),
        sumy = Fin (3 * exp (- 6)), sumxx = Fin (9 * exp (- 6)), sumxy = Fin (9 * exp (- 6)),
        sumyy = Fin (9 * exp (- 6)), sums4 = Fin (144 * exp (- 6))\<rparr>)"
  by (simp add: calcmom_def Let_def upto_0_3 calcmom_row_def calcmom_pixel_def accumulate_def
      image_far_def lib_exact_def moments_zero_def getWeights_def float_epsilon_def)

lemma far_calcmom_unweighted:
  "calcmom lib_exact False image_far (Fin 0) (Fin 0)
     \<lparr>getMinX = 0, getMinY = 0, getMaxX = 3, getMaxY = 3\<rparr> (Fin 0) False
     (Fin 0) (Fin 0) (Fin 0) I0 out True False
   = Some (0, NaN, \<lparr>sumw = Fin 1, sumx = Fin 3, sumy = Fin 3, sumxx = Fin 9,
        sumxy = Fin 9, sumyy = Fin 9, sums4 = sums4 out\<rparr>)"
  by (simp add: calcmom_def Let_def upto_0_3 calcmom_row_def calcmom_pixel_def accumulate_def
      image_far_def lib_exact_def moments_zero_def getWeights_def float_epsilon_def)

lemma far_size: "getWidth image_far = 4" "getHeight image_far = 4"
  by (simp_all add: image_far_def)

lemma far_moments:
  "amom_moments lib_exact image_far (Fin 0) (Fin 0) (Fin 0) (amom_init moments_zero shape_nan)
     = Continue far_locals"
  by (simp add: amom_moments_def amom_init_def far_size far_bbox cross_weights update_weights_def
      shouldInterp_def Let_def far_calcmom_weighted far_locals_def)

lemma far_shifted: "centroid_shifted (Fin 0) (Fin 0) (Fin 2) far_locals"
  by (simp add: centroid_shifted_def far_locals_def)

lemma far_body:
  "amom_body lib_exact image_far (Fin 0) (Fin 0) (Fin 0) (Fin 2) (Fin (1 / 100000))
     (Fin (1 / 10000)) (amom_init moments_zero shape_nan) = Break far_locals_2"
proof -
  have w: "getWeights lib_exact (Fin 9) (Fin 9) (Fin 9) True = ((False, NaN), NaN, NaN, NaN)"
    by (simp add: getWeights_def float_epsilon_def Let_def)
  have "update_shape lib_exact (Fin 0) (Fin 0) (Fin 2) (Fin (1 / 100000)) (Fin (1 / 10000))
      far_locals = Break far_locals_2"
    by (simp add: update_shape_def Let_def far_locals_def far_locals_2_def amom_init_def w
        unweighted_def setFlag_def shape_nan_def)
  then show ?thesis
    by (simp add: amom_body_moments far_moments)
qed

lemma far_loop:
  "amom_loop lib_exact image_far (Fin 0) (Fin 0) (Fin 0) (Fin 2) 100 (Fin (1 / 100000))
     (Fin (1 / 10000)) (amom_init moments_zero shape_nan) = Some far_locals_2"
proof -
  have "v_iter (amom_init moments_zero shape_nan) < 100" by (simp add: amom_init_def)
  then show ?thesis
    by (simp add: amom_loop_unfold(1) far_body)
qed

lemma far_run:
  "getAdaptiveMoments lib_exact moments_zero image_far (Fin 0) (Fin 0) (Fin 0) (Fin 2) shape_nan
     100 (Fin (1 / 100000)) (Fin (1 / 10000))
   = (Returned True, shape_nan\<lparr>getI0 := NaN, getX := Fin 3, getY := Fin 3, getIxx := Fin 9,
        getIxy := Fin 9, getIyy := Fin 9, getIxy4 := Fin (144 * exp (- 6)),
        shapeFlags := {UNWEIGHTED, SHIFT}\<rparr>)"
proof -
  have f: "amom_flags 100 far_locals_2
      = shape_nan\<lparr>getX := Fin 3, getY := Fin 3, shapeFlags := {UNWEIGHTED, SHIFT}\<rparr>"
    by (simp add: amom_flags_def far_locals_2_def far_locals_def amom_init_def)
  have u: "calcmom_unweighted lib_exact image_far (Fin 0) (Fin 0) (Fin 0) far_locals_2
     = Some (0, NaN, \<lparr>sumw = Fin 1, sumx = Fin 3, sumy = Fin 3, sumxx = Fin 9,
        sumxy = Fin 9, sumyy = Fin 9, sums4 = Fin (144 * exp (- 6))\<rparr>)"
    by (simp add: calcmom_unweighted_def far_locals_2_def far_locals_def amom_init_def
        far_calcmom_unweighted)
  have st: "amom_store lib_exact image_far (Fin 0) (Fin 0) NaN
      \<lparr>sumw = Fin 1, sumx = Fin 3, sumy = Fin 3, sumxx = Fin 9,
        sumxy = Fin 9, sumyy = Fin 9, sums4 = Fin (144 * exp (- 6))\<rparr> (Fin 9) (Fin 9) (Fin 9)
      (shape_nan\<lparr>getX := Fin 3, getY := Fin 3, shapeFlags := {UNWEIGHTED, SHIFT}\<rparr>)
    = (Returned True, shape_nan\<lparr>getI0 := NaN, getX := Fin 3, getY := Fin 3, getIxx := Fin 9,
        getIxy := Fin 9, getIyy := Fin 9, getIxy4 := Fin (144 * exp (- 6)),
        shapeFlags := {UNWEIGHTED, SHIFT}\<rparr>)"
    by (simp add: amom_store_def Let_def fne_def getVariance_def image_far_def shape_nan_def
        getFlag_def)
  have "getAdaptiveMoments lib_exact moments_zero image_far (Fin 0) (Fin 0) (Fin 0) (Fin 2)
      shape_nan 100 (Fin (1 / 100000)) (Fin (1 / 10000))
    = amom_finish lib_exact image_far (Fin 0) (Fin 0) (Fin 0) 100 far_locals_2"
    by (simp add: getAdaptiveMoments_def far_loop)
  also have "\<dots> = (Returned True, shape_nan\<lparr>getI0 := NaN, getX := Fin 3, getY := Fin 3,
        getIxx := Fin 9, getIxy := Fin 9, getIyy := Fin 9, getIxy4 := Fin (144 * exp (- 6)),
        shapeFlags := {UNWEIGHTED, SHIFT}\<rparr>)"
    by (simp add: amom_finish_def f u st getFlag_def Let_def)
  finally show ?thesis .
qed

lemma far_solver:
  "apply_solver lib_exact moments_zero shape_nan image_far (Fin 0, Fin 0) control_default
     = getAdaptiveMoments lib_exact moments_zero image_far (Fin 0) (Fin 0) (Fin 0) (Fin 2)
         shape_nan 100 (Fin (1 / 100000)) (Fin (1 / 10000))"
  by (simp add: apply_solver_def control_default_def image_far_def Let_def)

lemma far_apply:
  "apply_measurement lib_exact moments_zero shape_nan image_far (Fin 0, Fin 0) control_default
     = Some (Inr (SdssShapeResult_default\<lparr>r_x := Fin 3, r_y := Fin 3, r_xx := Fin 9,
         r_yy := Fin 9, r_xy := Fin 9, r_flags := [True, False, True, True, False]\<rparr>))"
proof -
  have v: "variancePlane image_far = Some (\<lambda>j i. Fin 1)"
    by (simp add: image_far_def)
  show ?thesis
    unfolding apply_measurement_def apply_MaskedImage_def far_solver far_run v
    by (simp add: Let_def upt_N_FLAGS_Impl copy_flag_def getFlag_def Flag_of_def
        SdssShapeResult_default_def shape_nan_def lib_exact_def FAILURE_def image_far_def)
qed

subsection \<open>The run on the image with a ring\<close>

lemma ring_calcmom_1:
  "calcmom lib_exact False image_ring (Fin 1) (Fin 1)
     \<lparr>getMinX = 0, getMinY = 0, getMaxX = 2, getMaxY = 2\<rparr> (Fin 0) False
     (Fin (2 / 3)) (Fin 0) (Fin (2 / 3)) I0 out True True
   = Some (0, Fin (8 * exp (- (1 / 3)) / (pi * sqrt (9 / 4))),
       \<lparr>sumw = Fin (8 * exp (- (1 / 3))), sumx = Fin (10 * exp (- (1 / 3))),
        sumy = Fin (8 * exp (- (1 / 3))), sumxx = Fin (4 * exp (- (1 / 3))), sumxy = Fin 0,
        sumyy = Fin (4 * exp (- (1 / 3))), sums4 = Fin (32 / 9 * exp (- (1 / 3)))\<rparr>)"
  by (simp add: calcmom_def Let_def upto_0_2 calcmom_row_def calcmom_pixel_def accumulate_def
      image_ring_def lib_exact_def moments_zero_def getWeights_def float_epsilon_def)

lemma ring_calcmom_2:
  "calcmom lib_exact False image_ring (Fin 1) (Fin 1)
     \<lparr>getMinX = 0, getMinY = 0, getMaxX = 2, getMaxY = 2\<rparr> (Fin 0) False
     (Fin (4 / 3)) (Fin 0) (Fin (4 / 3)) I0 out True True
   = Some (0, Fin (8 * exp (- (2 / 3)) / (pi * sqrt (9 / 16))),
       \<lparr>sumw = Fin (8 * exp (- (2 / 3))), sumx = Fin (10 * exp (- (2 / 3))),
        sumy = Fin (8 * exp (- (2 / 3))), sumxx = Fin (4 * exp (- (2 / 3))), sumxy = Fin 0,
        sumyy = Fin (4 * exp (- (2 / 3))), sums4 = Fin (128 / 9 * exp (- (2 / 3)))\<rparr>)"
  by (simp add: calcmom_def Let_def upto_0_2 calcmom_row_def calcmom_pixel_def accumulate_def
      image_ring_def lib_exact_def moments_zero_def getWeights_def float_epsilon_def)

lemma ring_size: "getWidth image_ring = 3" "getHeight image_ring = 3"
  by (simp_all add: image_ring_def)

lemma ring_bbox:
  "set_amom_bbox 3 3 (Fin 1) (Fin 1) (Fin (3 / 2)) (Fin 0) (Fin (3 / 2)) (Fin 1000)
     = \<lparr>getMinX = 0, getMinY = 0, getMaxX = 2, getMaxY = 2\<rparr>"
  "set_amom_bbox 3 3 (Fin 1) (Fin 1) (Fin (3 / 4)) (Fin 0) (Fin (3 / 4)) (Fin 1000)
     = \<lparr>getMinX = 0, getMinY = 0, getMaxX = 2, getMaxY = 2\<rparr>"
  using sqrt_lower sqrt_upper by (intro cross_bbox; simp)+

lemma ring_moments:
  "amom_moments lib_exact image_ring (Fin 0) (Fin 1) (Fin 1) (amom_init moments_zero shape_nan)
     = Continue ring_locals_0"
  by (simp add: amom_moments_def amom_init_def ring_size ring_bbox cross_weights update_weights_def
      shouldInterp_def Let_def ring_calcmom_1 ring_locals_0_def)

lemma ring_shifted: "centroid_shifted (Fin 1) (Fin 1) (Fin (1 / 8)) ring_locals_0"
  by (simp add: centroid_shifted_def ring_locals_0_def)

lemma ring_body_1:
  "amom_body lib_exact image_ring (Fin 0) (Fin 1) (Fin 1) (Fin (1 / 8)) (Fin (1 / 100000))
     (Fin (1 / 10000)) (amom_init moments_zero shape_nan) = Continue ring_locals_1"
proof -
  have "update_shape lib_exact (Fin 1) (Fin 1) (Fin (1 / 8)) (Fin (1 / 100000)) (Fin (1 / 10000))
      ring_locals_0 = Continue ring_locals_1"
    by (simp add: update_shape_def Let_def ring_locals_0_def ring_locals_1_def amom_init_def
        cross_weights setFlag_def shape_nan_def)
  then show ?thesis
    by (simp add: amom_body_moments ring_moments)
qed

lemma ring_body_2:
  "amom_body lib_exact image_ring (Fin 0) (Fin 1) (Fin 1) (Fin (1 / 8)) (Fin (1 / 100000))
     (Fin (1 / 10000)) (ring_locals_1\<lparr>v_iter := 1\<rparr>) = Break ring_locals_2"
  by (simp add: amom_body_def ring_size ring_bbox cross_weights update_weights_def
      shouldInterp_def Let_def ring_calcmom_2 update_shape_def ring_locals_2_def
      ring_locals_1_def ring_locals_0_def amom_init_def setFlag_def shape_nan_def)

lemma ring_loop:
  "amom_loop lib_exact image_ring (Fin 0) (Fin 1) (Fin 1) (Fin (1 / 8)) 100 (Fin (1 / 100000))
     (Fin (1 / 10000)) (amom_init moments_zero shape_nan) = Some ring_locals_2"
proof -
  have i0: "v_iter (amom_init moments_zero shape_nan) < 100" "v_iter ring_locals_1 = 0"
    by (simp_all add: amom_init_def ring_locals_1_def ring_locals_0_def)
  have "amom_loop lib_exact image_ring (Fin 0) (Fin 1) (Fin 1) (Fin (1 / 8)) 100 (Fin (1 / 100000))
     (Fin (1 / 10000)) (amom_init moments_zero shape_nan)
    = amom_loop lib_exact image_ring (Fin 0) (Fin 1) (Fin 1) (Fin (1 / 8)) 100 (Fin (1 / 100000))
     (Fin (1 / 10000)) (ring_locals_1\<lparr>v_iter := 1\<rparr>)"
    by (simp add: amom_loop_unfold(1) i0 ring_body_1)
  also have "\<dots> = Some ring_locals_2"
    by (simp add: amom_loop_unfold(1) ring_body_2)
  finally show ?thesis .
qed

lemma ring_run:
  "fst (getAdaptiveMoments lib_exact moments_zero image_ring (Fin 0) (Fin 1) (Fin 1) (Fin (1 / 8))
     shape_nan 100 (Fin (1 / 100000)) (Fin (1 / 10000))) = Returned True"
  "shapeFlags (snd (getAdaptiveMoments lib_exact moments_zero image_ring (Fin 0) (Fin 1) (Fin 1)
     (Fin (1 / 8)) shape_nan 100 (Fin (1 / 100000)) (Fin (1 / 10000)))) = {SHIFT}"
  "getX (snd (getAdaptiveMoments lib_exact moments_zero image_ring (Fin 0) (Fin 1) (Fin 1)
     (Fin (1 / 8)) shape_nan 100 (Fin (1 / 100000)) (Fin (1 / 10000)))) = Fin (5 / 4)"
  "getIxx (snd (getAdaptiveMoments lib_exact moments_zero image_ring (Fin 0) (Fin 1) (Fin 1)
     (Fin (1 / 8)) shape_nan 100 (Fin (1 / 100000)) (Fin (1 / 10000)))) = Fin (3 / 4)"
proof -
  have f: "amom_flags 100 ring_locals_2
      = shape_nan\<lparr>getX := Fin (5 / 4), getY := Fin 1, shapeFlags := {SHIFT}\<rparr>"
    by (simp add: amom_flags_def ring_locals_2_def ring_locals_1_def ring_locals_0_def amom_init_def)
  have v: "v_I0 ring_locals_2 = Fin (8 * exp (- (2 / 3)) / (pi * sqrt (9 / 16)))"
    "v_sums ring_locals_2 = \<lparr>sumw = Fin (8 * exp (- (2 / 3))), sumx = Fin (10 * exp (- (2 / 3))),
        sumy = Fin (8 * exp (- (2 / 3))), sumxx = Fin (4 * exp (- (2 / 3))), sumxy = Fin 0,
        sumyy = Fin (4 * exp (- (2 / 3))), sums4 = Fin (128 / 9 * exp (- (2 / 3)))\<rparr>"
    "v_sigma11W ring_locals_2 = Fin (3 / 4)" "v_sigma12W ring_locals_2 = Fin 0"
    "v_sigma22W ring_locals_2 = Fin (3 / 4)"
    by (simp_all add: ring_locals_2_def ring_locals_1_def ring_locals_0_def amom_init_def)
  have "getAdaptiveMoments lib_exact moments_zero image_ring (Fin 0) (Fin 1) (Fin 1) (Fin (1 / 8))
     shape_nan 100 (Fin (1 / 100000)) (Fin (1 / 10000))
    = amom_finish lib_exact image_ring (Fin 0) (Fin 1) (Fin 1) 100 ring_locals_2"
    by (simp add: getAdaptiveMoments_def ring_loop)
  also have "\<dots> = amom_store lib_exact image_ring (Fin 1) (Fin 1)
        (Fin (8 * exp (- (2 / 3)) / (pi * sqrt (9 / 16))))
        \<lparr>sumw = Fin (8 * exp (- (2 / 3))), sumx = Fin (10 * exp (- (2 / 3))),
        sumy = Fin (8 * exp (- (2 / 3))), sumxx = Fin (4 * exp (- (2 / 3))), sumxy = Fin 0,
        sumyy = Fin (4 * exp (- (2 / 3))), sums4 = Fin (128 / 9 * exp (- (2 / 3)))\<rparr>
        (Fin (3 / 4)) (Fin 0) (Fin (3 / 4))
        (shape_nan\<lparr>getX := Fin (5 / 4), getY := Fin 1, shapeFlags := {SHIFT}\<rparr>)"
    by (simp add: amom_finish_def f v getFlag_def Let_def)
  finally have r: "getAdaptiveMoments lib_exact moments_zero image_ring (Fin 0) (Fin 1) (Fin 1) (Fin (1 / 8))
     shape_nan 100 (Fin (1 / 100000)) (Fin (1 / 10000))
    = amom_store lib_exact image_ring (Fin 1) (Fin 1)
        (Fin (8 * exp (- (2 / 3)) / (pi * sqrt (9 / 16))))
        \<lparr>sumw = Fin (8 * exp (- (2 / 3))), sumx = Fin (10 * exp (- (2 / 3))),
        sumy = Fin (8 * exp (- (2 / 3))), sumxx = Fin (4 * exp (- (2 / 3))), sumxy = Fin 0,
        sumyy = Fin (4 * exp (- (2 / 3))), sums4 = Fin (128 / 9 * exp (- (2 / 3)))\<rparr>
        (Fin (3 / 4)) (Fin 0) (Fin (3 / 4))
        (shape_nan\<lparr>getX := Fin (5 / 4), getY := Fin 1, shapeFlags := {SHIFT}\<rparr>)" .
  have c: "\<exists>fisher. calc_fisher (shape_nan\<lparr>getX := Fin (5 / 4), getY := Fin 1, shapeFlags := {SHIFT},
        getI0 := Fin (8 * exp (- (2 / 3)) / (pi * sqrt (9 / 16))), getIxx := Fin (3 / 4),
        getIxy := Fin 0, getIyy := Fin (3 / 4), getIxy4 := Fin (16 / 9)\<rparr>) (Fin 1) = Inr fisher"
    by (simp add: calc_fisher_def Let_def double_epsilon_def shape_nan_def)
  show "fst (getAdaptiveMoments lib_exact moments_zero image_ring (Fin 0) (Fin 1) (Fin 1) (Fin (1 / 8))
     shape_nan 100 (Fin (1 / 100000)) (Fin (1 / 10000))) = Returned True"
    unfolding r using c
    by (auto simp add: amom_store_def Let_def fne_def getVariance_def image_ring_def getFlag_def
        shape_nan_def)
  show "shapeFlags (snd (getAdaptiveMoments lib_exact moments_zero image_ring (Fin 0) (Fin 1) (Fin 1)
     (Fin (1 / 8)) shape_nan 100 (Fin (1 / 100000)) (Fin (1 / 10000)))) = {SHIFT}"
    unfolding r by (simp add: amom_store_fields shape_nan_def)
  show "getX (snd (getAdaptiveMoments lib_exact moments_zero image_ring (Fin 0) (Fin 1) (Fin 1)
     (Fin (1 / 8)) shape_nan 100 (Fin (1 / 100000)) (Fin (1 / 10000)))) = Fin (5 / 4)"
    unfolding r by (simp add: amom_store_def Let_def shape_nan_def split: sum.splits)
  show "getIxx (snd (getAdaptiveMoments lib_exact moments_zero image_ring (Fin 0) (Fin 1) (Fin 1)
     (Fin (1 / 8)) shape_nan 100 (Fin (1 / 100000)) (Fin (1 / 10000)))) = Fin (3 / 4)"
    unfolding r by (simp add: amom_store_fields)
qed

subsection \<open>The run on the image of one row\<close>








subsection \<open>The shift of the centroid\<close>

text \<open>
  C7.  Take a pass of the loop of \<open>getAdaptiveMoments\<close>, the \<open>(n + 1)\<close>-th, entered
  in the state \<open>s\<close>, that gets past \<^verbatim>\<open>calcmom\<close> and recomputes a centroid further
  than \<open>shiftmax\<close> from the starting centre in x or in y.  Then the pass ends with the
  next iteration or with a break, never with a failed assertion, and \<open>SHIFT\<close> is set
  on the shape it leaves; it ends as it does with any other bound \<open>shiftmax'\<close>, under
  which the shift test may not fire: the same branch with the same state, up to that flag.
  The call of \<open>getAdaptiveMoments\<close> ends with \<open>SHIFT\<close> set and, for any other
  bound, with the same return value or exception and the same shape up to that flag.  And
  when the call is the one that \<open>apply\<close> makes on a masked image, \<open>apply\<close>
  returns a result, with the result flag of \<open>SHIFT\<close> and the general failure flag set.
\<close>

theorem shift_is_not_fatal:
  assumes pass: "amom_pass L mimage bkgd xcen ycen shiftmax maxIter tol1 tol2 n
                   (amom_init garbage shape) = Some s"
    and mom: "amom_moments L mimage bkgd xcen ycen s = Continue s3"
    and shifted: "centroid_shifted xcen ycen shiftmax s3"
    and nn: "\<not> isnan xcen" "\<not> isnan ycen"
  shows "(\<exists>t. (amom_body L mimage bkgd xcen ycen shiftmax tol1 tol2 s = Continue t
               \<or> amom_body L mimage bkgd xcen ycen shiftmax tol1 tol2 s = Break t)
              \<and> getFlag (v_shape t) SHIFT)
     \<and> (\<forall>shiftmax'. amom_body L mimage bkgd xcen ycen shiftmax tol1 tol2 s
           = map_flow with_shift (amom_body L mimage bkgd xcen ycen shiftmax' tol1 tol2 s))
     \<and> (\<exists>out shape'.
           getAdaptiveMoments L garbage mimage bkgd xcen ycen shiftmax shape maxIter tol1 tol2
             = (out, shape')
           \<and> out \<noteq> Aborted \<and> getFlag shape' SHIFT
           \<and> (\<forall>shiftmax'. \<exists>shape''.
                 getAdaptiveMoments L garbage mimage bkgd xcen ycen shiftmax' shape maxIter
                   tol1 tol2 = (out, shape'')
                 \<and> shape' = setFlag SHIFT shape''))
     \<and> (\<forall>center control.
           variancePlane mimage \<noteq> None
           \<and> apply_solver L garbage shape mimage center control
               = getAdaptiveMoments L garbage mimage bkgd xcen ycen shiftmax shape maxIter
                   tol1 tol2
           \<longrightarrow> (\<exists>result. apply_measurement L garbage shape mimage center control
                            = Some (Inr result)
                  \<and> r_flags result ! result_flag SHIFT \<and> r_flags result ! FAILURE))"
proof -
  note b = shifted_body [OF mom shifted]
  obtain out shape' where run: "getAdaptiveMoments L garbage mimage bkgd xcen ycen shiftmax shape
      maxIter tol1 tol2 = (out, shape')"
    by (cases "getAdaptiveMoments L garbage mimage bkgd xcen ycen shiftmax shape
      maxIter tol1 tol2")
  from getAdaptiveMoments_not_aborted [of L garbage mimage bkgd xcen ycen shiftmax shape
      maxIter tol1 tol2] run
  have na: "out \<noteq> Aborted" by simp
  from shifted_run [OF pass mom shifted nn] run have sh: "getFlag shape' SHIFT" by simp
  then have fixed: "setFlag SHIFT shape' = shape'"
    by (simp add: setFlag_def getFlag_def insert_absorb)
  have indep: "\<exists>shape''.
      getAdaptiveMoments L garbage mimage bkgd xcen ycen shiftmax' shape maxIter tol1 tol2
        = (out, shape'') \<and> shape' = setFlag SHIFT shape''" for shiftmax'
  proof -
    obtain out2 shape2 where r2: "getAdaptiveMoments L garbage mimage bkgd xcen ycen shiftmax'
        shape maxIter tol1 tol2 = (out2, shape2)"
      by (cases "getAdaptiveMoments L garbage mimage bkgd xcen ycen shiftmax'
        shape maxIter tol1 tol2")
    from getAdaptiveMoments_shift_indep [of L garbage mimage bkgd xcen ycen shiftmax shape
        maxIter tol1 tol2 shiftmax'] run r2 fixed
    show ?thesis by simp
  qed
  have ap: "\<exists>result. apply_measurement L garbage shape mimage center control = Some (Inr result)
                  \<and> r_flags result ! result_flag SHIFT \<and> r_flags result ! FAILURE"
    if v: "variancePlane mimage \<noteq> None"
      and so: "apply_solver L garbage shape mimage center control
               = getAdaptiveMoments L garbage mimage bkgd xcen ycen shiftmax shape maxIter
                   tol1 tol2"
    for center control
  proof -
    from apply_MaskedImage_total obtain result
      where m: "apply_MaskedImage L garbage shape mimage center control = Some result" by blast
    from so run sh have f: "getFlag (snd (apply_solver L garbage shape mimage center control)) SHIFT"
      by simp
    from v m have "apply_measurement L garbage shape mimage center control = Some (Inr result)"
      by (auto simp: apply_measurement_def)
    moreover from apply_MaskedImage_flags(1) [OF m, of SHIFT] f
    have "r_flags result ! result_flag SHIFT" by simp
    moreover from apply_MaskedImage_flags(2) [OF m f] have "r_flags result ! FAILURE" .
    ultimately show ?thesis by blast
  qed
  from b run na sh indep ap show ?thesis by blast
qed

text \<open>
  Two runs.  On \<open>image_far\<close>, measured by \<open>apply\<close> at the centre \<open>(0, 0)\<close>
  with the largest shift 2, the first pass finds the centroid \<open>(3, 3)\<close>; the result has
  the flags for the failure, \<open>UNWEIGHTED\<close> and \<open>SHIFT\<close>.  On \<open>image_ring\<close>,
  centred at \<open>(1, 1)\<close> with the largest shift 1/8, the first pass finds the centroid
  \<open>(5/4, 1)\<close>, sets \<open>SHIFT\<close> and goes on to the second pass, which converges: the
  call returns true with no other flag.
\<close>

theorem shift_is_not_fatal_witness:
  "amom_pass lib_exact image_far (Fin 0) (Fin 0) (Fin 0) (Fin 2) 100 (Fin (1 / 100000))
       (Fin (1 / 10000)) 0 (amom_init moments_zero shape_nan)
     = Some (amom_init moments_zero shape_nan)
   \<and> amom_moments lib_exact image_far (Fin 0) (Fin 0) (Fin 0) (amom_init moments_zero shape_nan)
     = Continue far_locals
   \<and> centroid_shifted (Fin 0) (Fin 0) (Fin 2) far_locals
   \<and> \<not> isnan (Fin 0)
   \<and> variancePlane image_far \<noteq> None
   \<and> apply_solver lib_exact moments_zero shape_nan image_far (Fin 0, Fin 0) control_default
     = getAdaptiveMoments lib_exact moments_zero image_far (Fin 0) (Fin 0) (Fin 0) (Fin 2)
         shape_nan 100 (Fin (1 / 100000)) (Fin (1 / 10000))
   \<and> (\<exists>result. apply_measurement lib_exact moments_zero shape_nan image_far (Fin 0, Fin 0)
                   control_default = Some (Inr result)
          \<and> r_flags result ! result_flag SHIFT \<and> r_flags result ! FAILURE)
   \<and> apply_measurement lib_exact moments_zero shape_nan image_far (Fin 0, Fin 0) control_default
     = Some (Inr (SdssShapeResult_default\<lparr>r_x := Fin 3, r_y := Fin 3, r_xx := Fin 9,
         r_yy := Fin 9, r_xy := Fin 9, r_flags := [True, False, True, True, False]\<rparr>))
   \<and> amom_pass lib_exact image_ring (Fin 0) (Fin 1) (Fin 1) (Fin (1 / 8)) 100 (Fin (1 / 100000))
       (Fin (1 / 10000)) 0 (amom_init moments_zero shape_nan)
     = Some (amom_init moments_zero shape_nan)
   \<and> amom_moments lib_exact image_ring (Fin 0) (Fin 1) (Fin 1) (amom_init moments_zero shape_nan)
     = Continue ring_locals_0
   \<and> centroid_shifted (Fin 1) (Fin 1) (Fin (1 / 8)) ring_locals_0
   \<and> \<not> isnan (Fin 1)
   \<and> amom_body lib_exact image_ring (Fin 0) (Fin 1) (Fin 1) (Fin (1 / 8)) (Fin (1 / 100000))
       (Fin (1 / 10000)) (amom_init moments_zero shape_nan) = Continue ring_locals_1
   \<and> getFlag (v_shape ring_locals_1) SHIFT
   \<and> Continue ring_locals_1
     = map_flow with_shift (amom_body lib_exact image_ring (Fin 0) (Fin 1) (Fin 1) (Fin 2)
         (Fin (1 / 100000)) (Fin (1 / 10000)) (amom_init moments_zero shape_nan))
   \<and> (\<exists>out shape'.
         getAdaptiveMoments lib_exact moments_zero image_ring (Fin 0) (Fin 1) (Fin 1) (Fin (1 / 8))
           shape_nan 100 (Fin (1 / 100000)) (Fin (1 / 10000)) = (out, shape')
         \<and> out \<noteq> Aborted \<and> getFlag shape' SHIFT
         \<and> (\<forall>shiftmax'. \<exists>shape''.
               getAdaptiveMoments lib_exact moments_zero image_ring (Fin 0) (Fin 1) (Fin 1)
                 shiftmax' shape_nan 100 (Fin (1 / 100000)) (Fin (1 / 10000)) = (out, shape'')
               \<and> shape' = setFlag SHIFT shape''))
   \<and> fst (getAdaptiveMoments lib_exact moments_zero image_ring (Fin 0) (Fin 1) (Fin 1)
       (Fin (1 / 8)) shape_nan 100 (Fin (1 / 100000)) (Fin (1 / 10000))) = Returned True
   \<and> shapeFlags (snd (getAdaptiveMoments lib_exact moments_zero image_ring (Fin 0) (Fin 1) (Fin 1)
       (Fin (1 / 8)) shape_nan 100 (Fin (1 / 100000)) (Fin (1 / 10000)))) = {SHIFT}"
proof -
  have fp: "amom_pass lib_exact image_far (Fin 0) (Fin 0) (Fin 0) (Fin 2) 100 (Fin (1 / 100000))
       (Fin (1 / 10000)) 0 (amom_init moments_zero shape_nan)
     = Some (amom_init moments_zero shape_nan)"
    by (simp add: amom_init_def)
  have rp: "amom_pass lib_exact image_ring (Fin 0) (Fin 1) (Fin 1) (Fin (1 / 8)) 100
       (Fin (1 / 100000)) (Fin (1 / 10000)) 0 (amom_init moments_zero shape_nan)
     = Some (amom_init moments_zero shape_nan)"
    by (simp add: amom_init_def)
  have n0: "\<not> isnan (Fin 0)" and n1: "\<not> isnan (Fin 1)" by simp_all
  have v: "variancePlane image_far \<noteq> None" by (simp add: image_far_def)
  note far = shift_is_not_fatal [OF fp far_moments far_shifted n0 n0]
  note ring = shift_is_not_fatal [OF rp ring_moments ring_shifted n1 n1]
  note far_result = far [THEN conjunct2, THEN conjunct2, THEN conjunct2, THEN spec, THEN spec,
      THEN mp, OF conjI, OF v far_solver]
  note ring_indep = ring [THEN conjunct2, THEN conjunct1, THEN spec, of "Fin 2",
      unfolded ring_body_1]
  note ring_result = ring [THEN conjunct2, THEN conjunct2, THEN conjunct1]
  have sh: "getFlag (v_shape ring_locals_1) SHIFT"
    by (simp add: ring_locals_1_def getFlag_def)
  show ?thesis
    by (intro conjI; fact fp far_moments far_shifted n0 v far_solver far_result far_apply rp
        ring_moments ring_shifted n1 ring_body_1 sh ring_indep ring_result ring_run(1) ring_run(2))
qed

subsection \<open>Sums over pixels that are not below the background\<close>











subsection \<open>The moments that the solver stores\<close>











text \<open>
  C3, as amended.  When \<open>UNWEIGHTED\<close> is set after the loop and the unweighted
  recomputation succeeds with a positive sum, \<open>getAdaptiveMoments\<close> returns true and the
  stored moments are \<open>Ixx = sumxx / sum\<close>, \<open>Iyy = sumyy / sum\<close> and
  \<open>Ixy = sumxy / sum\<close>: each moment receives the ratio of its own sum.
\<close>

theorem unweighted_moments_stored:
  assumes "\<not> isnan xcen" "\<not> isnan ycen"
    and "amom_loop L mimage bkgd xcen ycen shiftmax maxIter tol1 tol2 (amom_init garbage shape)
           = Some s"
    and "getFlag (amom_flags maxIter s) UNWEIGHTED"
    and "calcmom_unweighted L mimage bkgd xcen ycen s = Some (rc, I0', m)"
    and "\<not> rc < 0" "Fin 0 < sumw m"
  shows "fst (getAdaptiveMoments L garbage mimage bkgd xcen ycen shiftmax shape maxIter tol1 tol2)
           = Returned True
     \<and> getIxx (snd (getAdaptiveMoments L garbage mimage bkgd xcen ycen shiftmax shape maxIter
           tol1 tol2)) = sumxx m / sumw m
     \<and> getIyy (snd (getAdaptiveMoments L garbage mimage bkgd xcen ycen shiftmax shape maxIter
           tol1 tol2)) = sumyy m / sumw m
     \<and> getIxy (snd (getAdaptiveMoments L garbage mimage bkgd xcen ycen shiftmax shape maxIter
           tol1 tol2)) = sumxy m / sumw m"
proof -
  from assms(7) have "\<not> sumw m \<le> Fin 0" by (cases "sumw m") simp_all
  with assms have "getAdaptiveMoments L garbage mimage bkgd xcen ycen shiftmax shape maxIter
      tol1 tol2
    = amom_store L mimage xcen ycen I0' m (sumxx m / sumw m) (sumxy m / sumw m)
        (sumyy m / sumw m) (amom_flags maxIter s)"
    by (simp add: getAdaptiveMoments_def amom_finish_def Let_def)
  with assms(4) show ?thesis
    by (simp add: amom_store_fields amom_store_unweighted)
qed


theorem unweighted_moments_stored_witness:
  "\<not> isnan (Fin 0)
   \<and> amom_loop lib_exact image_corners (Fin 0) (Fin 0) (Fin 0) (Fin 2) 100 (Fin (1 / 100000))
       (Fin (1 / 10000)) (amom_init moments_zero shape_nan) = Some (example_locals moments_zero)
   \<and> getFlag (amom_flags 100 (example_locals moments_zero)) UNWEIGHTED
   \<and> calcmom_unweighted lib_exact image_corners (Fin 0) (Fin 0) (Fin 0)
       (example_locals moments_zero)
     = Some (0, NaN, \<lparr>sumw = Fin 1, sumx = Fin 10, sumy = Fin 10, sumxx = Fin 50,
         sumxy = Fin 75, sumyy = Fin 50, sums4 = Fin 0\<rparr>)
   \<and> \<not> (0::int) < 0 \<and> Fin 0 < Fin 1
   \<and> fst (getAdaptiveMoments lib_exact moments_zero image_corners (Fin 0) (Fin 0) (Fin 0) (Fin 2)
       shape_nan 100 (Fin (1 / 100000)) (Fin (1 / 10000))) = Returned True
   \<and> getIxx (snd (getAdaptiveMoments lib_exact moments_zero image_corners (Fin 0) (Fin 0) (Fin 0)
       (Fin 2) shape_nan 100 (Fin (1 / 100000)) (Fin (1 / 10000)))) = Fin 50
   \<and> getIyy (snd (getAdaptiveMoments lib_exact moments_zero image_corners (Fin 0) (Fin 0) (Fin 0)
       (Fin 2) shape_nan 100 (Fin (1 / 100000)) (Fin (1 / 10000)))) = Fin 50
   \<and> getIxy (snd (getAdaptiveMoments lib_exact moments_zero image_corners (Fin 0) (Fin 0) (Fin 0)
       (Fin 2) shape_nan 100 (Fin (1 / 100000)) (Fin (1 / 10000)))) = Fin 75"
proof -
  have n: "\<not> isnan (Fin 0)" by simp
  note l = example_loop [of "Fin 2" "Fin (1 / 100000)" "Fin (1 / 10000)" moments_zero]
  have f: "getFlag (amom_flags 100 (example_locals moments_zero)) UNWEIGHTED"
    by (simp add: amom_flags_def example_locals_def amom_init_def moments_zero_def setFlag_def
        getFlag_def)
  have u: "calcmom_unweighted lib_exact image_corners (Fin 0) (Fin 0) (Fin 0)
       (example_locals moments_zero)
     = Some (0, NaN, \<lparr>sumw = Fin 1, sumx = Fin 10, sumy = Fin 10, sumxx = Fin 50,
         sumxy = Fin 75, sumyy = Fin 50, sums4 = Fin 0\<rparr>)"
    by (simp add: calcmom_unweighted_def example_locals_def amom_init_def
        example_calcmom_unweighted moments_zero_def)
  have r: "\<not> (0::int) < 0" "Fin 0 < sumw \<lparr>sumw = Fin 1, sumx = Fin 10, sumy = Fin 10,
      sumxx = Fin 50, sumxy = Fin 75, sumyy = Fin 50, sums4 = Fin 0\<rparr>"
    by simp_all
  from unweighted_moments_stored [OF n n l f u r] l f u
  show ?thesis by simp
qed

text \<open>
  C3, the counterexample.  In the run on \<open>image_corners\<close> the unweighted recomputation
  succeeds with \<open>sum = 1\<close>, \<open>sumxy = 75\<close> and \<open>sumyy = 50\<close>; the stored
  \<open>Iyy\<close> is 50, not \<open>sumxy / sum\<close>, and the stored \<open>Ixy\<close> is 75, not
  \<open>sumyy / sum\<close>.
\<close>

theorem unweighted_moments_order_counterexample:
  "\<not> isnan (Fin 0)
   \<and> amom_loop lib_exact image_corners (Fin 0) (Fin 0) (Fin 0) (Fin 2) 100 (Fin (1 / 100000))
       (Fin (1 / 10000)) (amom_init moments_zero shape_nan) = Some (example_locals moments_zero)
   \<and> getFlag (amom_flags 100 (example_locals moments_zero)) UNWEIGHTED
   \<and> calcmom_unweighted lib_exact image_corners (Fin 0) (Fin 0) (Fin 0)
       (example_locals moments_zero)
     = Some (0, NaN, \<lparr>sumw = Fin 1, sumx = Fin 10, sumy = Fin 10, sumxx = Fin 50,
         sumxy = Fin 75, sumyy = Fin 50, sums4 = Fin 0\<rparr>)
   \<and> getIyy (snd (getAdaptiveMoments lib_exact moments_zero image_corners (Fin 0) (Fin 0) (Fin 0)
       (Fin 2) shape_nan 100 (Fin (1 / 100000)) (Fin (1 / 10000)))) = Fin 50
   \<and> Fin 50 \<noteq> Fin 75 / Fin 1
   \<and> getIxy (snd (getAdaptiveMoments lib_exact moments_zero image_corners (Fin 0) (Fin 0) (Fin 0)
       (Fin 2) shape_nan 100 (Fin (1 / 100000)) (Fin (1 / 10000)))) = Fin 75
   \<and> Fin 75 \<noteq> Fin 50 / Fin 1"
proof -
  note l = example_loop [of "Fin 2" "Fin (1 / 100000)" "Fin (1 / 10000)" moments_zero]
  have f: "getFlag (amom_flags 100 (example_locals moments_zero)) UNWEIGHTED"
    by (simp add: amom_flags_def example_locals_def amom_init_def moments_zero_def setFlag_def
        getFlag_def)
  have u: "calcmom_unweighted lib_exact image_corners (Fin 0) (Fin 0) (Fin 0)
       (example_locals moments_zero)
     = Some (0, NaN, \<lparr>sumw = Fin 1, sumx = Fin 10, sumy = Fin 10, sumxx = Fin 50,
         sumxy = Fin 75, sumyy = Fin 50, sums4 = Fin 0\<rparr>)"
    by (simp add: calcmom_unweighted_def example_locals_def amom_init_def
        example_calcmom_unweighted moments_zero_def)
  show ?thesis
    by (simp add: l f u example_run)
qed

subsection \<open>The shape of a record\<close>

lemma SafeShapeExtractor_invalid_raises:
  assumes "shapeKey_isValid rec"
    and "isnan (fst (getShape rec)) \<or> isnan (fst (snd (getShape rec)))
         \<or> isnan (snd (snd (getShape rec)))
         \<or> fst (getShape rec) * fst (snd (getShape rec))
             < Fin (1 + 1 / 1000000) * snd (snd (getShape rec)) * snd (snd (getShape rec))"
  shows "SafeShapeExtractor rec flags =
    (if \<not> shapeFlagKey_isValid rec then Inl (RuntimeError ''there is no Shape slot flag'')
     else if \<not> getShapeFlag rec then Inl (RuntimeError ''the Shape slot flag is not set'')
     else Inl (MeasurementError (getFailureFlagNumber flags)))"
  using assms by (simp add: SafeShapeExtractor_def Let_def)

lemma SafeShapeExtractor_returns_iff:
  "(\<exists>r. SafeShapeExtractor rec flags = Inr r) =
     (shapeKey_isValid rec
      \<and> \<not> (isnan (fst (getShape rec)) \<or> isnan (fst (snd (getShape rec)))
            \<or> isnan (snd (snd (getShape rec)))
            \<or> fst (getShape rec) * fst (snd (getShape rec))
                < Fin (1 + 1 / 1000000) * snd (snd (getShape rec)) * snd (snd (getShape rec))))"
  by (auto simp: SafeShapeExtractor_def Let_def) (metis prod_cases3)+

text \<open>
  C8.  The claim: a shape with \<open>Ixx * Iyy \<le> (1 + 1e-6) * Ixy\<^sup>2\<close> is invalid and is never
  returned.  The code tests \<open>Ixx * Iyy < (1 + 1e-6) * Ixy\<^sup>2\<close>, so a shape on the
  boundary passes.  The quadrupole \<open>(Ixx, Iyy, Ixy) = (1, 0, 0)\<close> of a segment has
  \<open>Ixx * Iyy = 0 = (1 + 1e-6) * Ixy\<^sup>2\<close>; with the shape slot defined and no flag
  key in the schema, where the claim has a runtime error, the extractor returns it and
  leaves the record as it is.
\<close>

theorem SafeShapeExtractor_returns_boundary_shape:
  "Fin 1 * Fin 0 \<le> Fin (1 + 1 / 1000000) * Fin 0 * Fin 0
   \<and> SafeShapeExtractor
        \<lparr>shapeKey_isValid = True, getShape = (Fin 1, Fin 0, Fin 0),
         shapeFlagKey_isValid = False, getShapeFlag = False, algFlags = fl\<rparr> flags
      = Inr ((Fin 1, Fin 0, Fin 0),
          \<lparr>shapeKey_isValid = True, getShape = (Fin 1, Fin 0, Fin 0),
           shapeFlagKey_isValid = False, getShapeFlag = False, algFlags = fl\<rparr>)"
  by (simp add: SafeShapeExtractor_def Let_def)

end
